theory Spec2Isabelle
  imports Main "HOL-Library.Word" "HOL-Library.AList"
begin

unbundle bit_operations_syntax

section \<open>SSNTP operation codes\<close>

text \<open>
  The enumerations \<open>ssntp.Command\<close>, \<open>ssntp.Event\<close>, \<open>ssntp.Error\<close> and
  \<open>ssntp.Status\<close> are declared outside the sources at hand; their constructors
  here are the operations that the sources name. A key is a message kind with one of
  its operations.
\<close>

datatype Command =
  CONNECT | START | STOP | STATS | EVACUATE | DELETE | RESTART | AssignPublicIP
  | ReleasePublicIP | CONFIGURE

datatype Event =
  TenantAdded | TenantRemoved | InstanceDeleted | ConcentratorInstanceAdded
  | PublicIPAssigned | TraceReport | NodeConnected | NodeDisconnected

datatype Error = StartFailure | StopFailure | RestartFailure | DeleteFailure

datatype Status = READY | FULL | OFFLINE | MAINTENANCE

datatype key = CmdKey Command | EventKey Event | ErrorKey Error | StatusKey Status

section \<open>Errors\<close>

text \<open>
  Go reports failures as \<open>error\<close> values and aborts on a nil pointer dereference, on
  a send on a closed channel and on closing a closed channel. All are values of one
  datatype here, so that every early return and every panic of the source is a branch
  of its model.
\<close>

datatype error =
    StorageError string
  | ConnectionClosed
  | YamlError string
  | JsonError string
  | ErrorString string
  | ClientError key error
  | Timeout key
  | NilDereference
  | SendOnClosedChannel
  | CloseOfClosedChannel

section \<open>Network identity (ciao-controller/instance.go)\<close>

type_synonym byte = "8 word"

text \<open>\<open>net.IP\<close> and \<open>net.HardwareAddr\<close> are byte slices.\<close>

type_synonym IP = "byte list"
type_synonym HardwareAddr = "byte list"

text \<open>
  \<open>net.IP.To4\<close> of the Go standard library: a 4-byte address is returned as it is, a
  16-byte address with the IPv4-in-IPv6 prefix (ten zero bytes, then \<open>ff ff\<close>) gives its
  last four bytes, anything else gives nil (\<open>None\<close>).
\<close>

definition isZeros :: "byte list \<Rightarrow> bool" where
  "isZeros p = list_all (\<lambda>b. b = 0) p"

definition To4 :: "IP \<Rightarrow> IP option" where
  "To4 ip =
     (if length ip = 4 then Some ip
      else if length ip = 16 \<and> isZeros (take 10 ip) \<and> ip ! 10 = 0xff \<and> ip ! 11 = 0xff
      then Some (drop 12 ip)
      else None)"

text \<open>
  Go's builtin \<open>copy(dst, src)\<close> overwrites the first \<open>min (len dst) (len src)\<close> elements
  of \<open>dst\<close>; a nil \<open>src\<close> has length 0.
\<close>

definition copy :: "'a list \<Rightarrow> 'a list \<Rightarrow> 'a list" where
  "copy dst src = (let n = min (length dst) (length src) in take n src @ drop n dst)"

definition nilable :: "'a list option \<Rightarrow> 'a list" where
  "nilable s = (case s of None \<Rightarrow> [] | Some bs \<Rightarrow> bs)"

definition newTenantHardwareAddr :: "IP \<Rightarrow> HardwareAddr" where
  "newTenantHardwareAddr ip =
     (let buf0 = replicate 6 (0 :: byte);
          ipBytes = To4 ip;
          buf1 = buf0[0 := (buf0 ! 0) OR 2];
          buf2 = buf1[1 := 0]
      in take 2 buf2 @ copy (take 4 (drop 2 buf2)) (nilable ipBytes) @ drop 6 buf2)"

section \<open>Payloads and controller types\<close>

text \<open>
  The packages \<open>payloads\<close>, \<open>types\<close> and \<open>storage\<close> are declared outside the sources
  at hand. The records below list the fields that \<open>instance.go\<close> and the compute API
  read or write; string-typed enumerations (\<open>payloads.Resource\<close>, the instance states,
  the VM types) are strings, Go's \<open>int\<close> is \<open>int\<close>.
\<close>

record RequestedResource =
  Type :: string
  Value :: int

record StorageResources =
  sr_ID :: string
  sr_Bootable :: bool

record NetworkResources =
  VnicMAC :: string
  VnicUUID :: string
  ConcentratorUUID :: string
  ConcentratorIP :: string
  Subnet :: string
  PrivateIP :: string

record StartCmd =
  TenantUUID :: string
  InstanceUUID :: string
  ImageUUID :: string
  DockerImage :: string
  sc_FWType :: string
  sc_VMType :: string
  InstancePersistence :: string
  RequestedResources :: "RequestedResource list"
  Networking :: NetworkResources
  sc_Storage :: StorageResources

record payloads_Start =
  Start :: StartCmd

record StorageResource =
  st_ID :: string
  st_Bootable :: bool
  st_Size :: int

record Workload =
  wl_ID :: string
  Config :: string
  Defaults :: "RequestedResource list"
  ImageID :: string
  FWType :: string
  VMType :: string
  ImageName :: string
  Storage :: "StorageResource option"

record Resource =
  Rname :: string
  Rtype :: int
  Limit :: int
  Usage :: int

record Tenant =
  tn_ID :: string
  CNCIID :: string
  CNCIMAC :: string
  CNCIIP :: string
  Resources :: "Resource list"

record Instance =
  TenantID :: string
  WorkloadID :: string
  State :: string
  ID :: string
  CNCI :: bool
  IPAddress :: string
  MACAddress :: string
  in_Usage :: "string \<rightharpoonup> int"
  NodeID :: string
  SSHIP :: string
  SSHPort :: int

record BlockDevice =
  bd_ID :: string

record BlockData =
  bk_BlockDevice :: BlockDevice
  bk_Size :: int
  bk_CreateTime :: nat
  bk_TenantID :: string

record UserData =
  UUID :: string
  Hostname :: string

text \<open>Constants of package \<open>payloads\<close> that the controller names.\<close>

definition NetworkNode :: string where
  "NetworkNode = ''network_node''"

definition Pending :: string where
  "Pending = ''pending''"

definition Docker :: string where
  "Docker = ''docker''"

definition Host :: string where
  "Host = ''host''"

section \<open>Collaborators of the controller\<close>

text \<open>
  The controller reaches its datastore and its block storage through the \<open>context\<close>
  pointer. Their implementations are outside the sources at hand, so the model takes
  them as parameters: operations on a state \<open>'s\<close> that return their Go results and the
  state they leave. \<open>GetTenant\<close> returns \<open>(*Tenant, error)\<close>: \<open>Inl e\<close> is an error (with
  a nil tenant), \<open>Inr None\<close> is the pair \<open>(nil, nil)\<close> that \<open>listTenantQuotas\<close> tests
  for, \<open>Inr (Some t)\<close> a tenant. The other operations return \<open>error\<close> (\<open>None\<close> is nil)
  or a value and an error.
\<close>

record 's controller =
  GetTenant :: "string \<Rightarrow> 's \<Rightarrow> (error + Tenant option) \<times> 's"
  AllocateTenantIP :: "string \<Rightarrow> 's \<Rightarrow> (error + IP) \<times> 's"
  ReleaseTenantIP :: "string \<Rightarrow> string \<Rightarrow> 's \<Rightarrow> error option \<times> 's"
  AddInstance :: "Instance \<Rightarrow> 's \<Rightarrow> error option \<times> 's"
  AddTenantCNCI :: "string \<Rightarrow> string \<Rightarrow> string \<Rightarrow> 's \<Rightarrow> error option \<times> 's"
  AddBlockDevice :: "BlockData \<Rightarrow> 's \<Rightarrow> error option \<times> 's"
  CreateBlockDevice :: "string \<Rightarrow> int \<Rightarrow> 's \<Rightarrow> (error + BlockDevice) \<times> 's"
  DeleteBlockDevice :: "string \<Rightarrow> 's \<Rightarrow> error option \<times> 's"

text \<open>
  Library functions used by \<open>newConfig\<close>: \<open>uuid.Generate\<close>, \<open>net.IP.String\<close>,
  \<open>net.HardwareAddr.String\<close>, \<open>net.IPNet{IP: ip.Mask(mask), Mask: mask}.String\<close>,
  \<open>yaml.Marshal\<close>, \<open>json.MarshalIndent\<close> and \<open>time.Now\<close>.
\<close>

record 's lib =
  uuidGenerate :: "'s \<Rightarrow> string \<times> 's"
  ipString :: "IP \<Rightarrow> string"
  hwString :: "HardwareAddr \<Rightarrow> string"
  ipNetString :: "IP \<Rightarrow> byte list \<Rightarrow> string"
  yamlMarshal :: "payloads_Start \<Rightarrow> error + string"
  jsonMarshalIndent :: "UserData \<Rightarrow> error + string"
  timeNow :: "'s \<Rightarrow> nat"

section \<open>Instance creation and admission (ciao-controller/instance.go)\<close>

record config =
  cfg_sc :: payloads_Start
  cfg_config :: string
  cfg_cnci :: bool
  cfg_mac :: string
  cfg_ip :: string

record instance_rec =
  Instance :: Instance
  inst_newConfig :: config
  startTime :: nat

definition isCNCIWorkload :: "Workload \<Rightarrow> bool" where
  "isCNCIWorkload workload = list_ex (\<lambda>r. Type r = NetworkNode) (Defaults workload)"

text \<open>
  Modelled from the spec: \<open>types.Resource.OverLimit\<close>, a method of package \<open>types\<close> that
  is not among the sources. Section 4.5 admits a request when "requested \<open>\<le>\<close> limit
  \<open>-\<close> usage", and the count resource when "usage + 1 \<open>\<le>\<close> limit"; so a request is over
  the limit exactly when usage plus the request exceeds the limit.
\<close>

definition OverLimit :: "Resource \<Rightarrow> int \<Rightarrow> bool" where
  "OverLimit r request = (Usage r + request > Limit r)"

text \<open>Reading a Go map at a missing key gives the zero value.\<close>

definition lookup0 :: "(string \<rightharpoonup> int) \<Rightarrow> string \<Rightarrow> int" where
  "lookup0 m k = (case m k of None \<Rightarrow> 0 | Some v \<Rightarrow> v)"

text \<open>The loop of \<open>Allowed\<close> over \<open>tenant.Resources\<close>.\<close>

fun resourcesAllowed :: "(string \<rightharpoonup> int) \<Rightarrow> Resource list \<Rightarrow> bool" where
  "resourcesAllowed usage [] = True"
| "resourcesAllowed usage (res # rest) =
     (if Rtype res = 1
      then (if OverLimit res 1 then False else resourcesAllowed usage rest)
      else if OverLimit res (lookup0 usage (Rname res)) then False
      else resourcesAllowed usage rest)"

text \<open>
  \<open>Allowed\<close> returns \<open>(bool, error)\<close>; an error comes with \<open>false\<close> and is \<open>Inl\<close> here.
  A nil tenant without an error makes \<open>tenant.Resources\<close> panic.
\<close>

definition Allowed :: "'s controller \<Rightarrow> instance_rec \<Rightarrow> 's \<Rightarrow> (error + bool) \<times> 's" where
  "Allowed context i s =
     (if CNCI (Instance i) then (Inr True, s)
      else case GetTenant context (TenantID (Instance i)) s of
             (Inl err, s') \<Rightarrow> (Inl err, s')
           | (Inr None, s') \<Rightarrow> (Inl NilDereference, s')
           | (Inr (Some tenant), s') \<Rightarrow>
               (Inr (resourcesAllowed (in_Usage (Instance i)) (Resources tenant)), s'))"

text \<open>\<open>Add\<close> and \<open>Clean\<close> call the datastore, drop what it returns, and return nil.\<close>

definition Add :: "'s controller \<Rightarrow> instance_rec \<Rightarrow> 's \<Rightarrow> error option \<times> 's" where
  "Add context i s =
     (if \<not> CNCI (Instance i)
      then (None, snd (AddInstance context (Instance i) s))
      else (None, snd (AddTenantCNCI context (TenantID (Instance i)) (ID (Instance i))
                         (MACAddress (Instance i)) s)))"

definition Clean :: "'s controller \<Rightarrow> instance_rec \<Rightarrow> 's \<Rightarrow> error option \<times> 's" where
  "Clean context i s =
     (if \<not> CNCI (Instance i)
      then (None, snd (ReleaseTenantIP context (TenantID (Instance i))
                         (IPAddress (Instance i)) s))
      else (None, s))"

definition GetResources :: "config \<Rightarrow> (string \<rightharpoonup> int)" where
  "GetResources c =
     foldl (\<lambda>resources r. resources(Type r \<mapsto> Value r)) Map.empty
       (RequestedResources (Start (cfg_sc c)))"

definition zeroBlockDevice :: BlockDevice where
  "zeroBlockDevice = \<lparr>bd_ID = ''''\<rparr>"

definition zeroStorageResources :: StorageResources where
  "zeroStorageResources = \<lparr>sr_ID = '''', sr_Bootable = False\<rparr>"

definition zeroNetworkResources :: NetworkResources where
  "zeroNetworkResources =
     \<lparr>VnicMAC = '''', VnicUUID = '''', ConcentratorUUID = '''', ConcentratorIP = '''',
      Subnet = '''', PrivateIP = ''''\<rparr>"

text \<open>
  \<open>getStorage\<close>: \<open>wl.Storage\<close> is a pointer that the function dereferences. The block
  data is built from the zero-valued \<open>bd\<close>, and on a failed \<open>AddBlockDevice\<close> the device
  deleted is \<open>bd.ID\<close>, as in the source.
\<close>

definition getStorage ::
  "'s lib \<Rightarrow> 's controller \<Rightarrow> Workload \<Rightarrow> string \<Rightarrow> 's \<Rightarrow> (error + StorageResources) \<times> 's" where
  "getStorage l c wl tenant s0 =
     (case Storage wl of
        None \<Rightarrow> (Inl NilDereference, s0)
      | Some st \<Rightarrow>
          let bd = zeroBlockDevice in
          if st_ID st = '''' then
            (case CreateBlockDevice c (ImageID wl) (st_Size st) s0 of
               (Inl err, s1) \<Rightarrow> (Inl err, s1)
             | (Inr device, s1) \<Rightarrow>
                 let data = \<lparr>bk_BlockDevice = bd, bk_Size = st_Size st,
                             bk_CreateTime = timeNow l s1, bk_TenantID = tenant\<rparr>
                 in (case AddBlockDevice c data s1 of
                       (Some err, s2) \<Rightarrow> (Inl err, snd (DeleteBlockDevice c (bd_ID bd) s2))
                     | (None, s2) \<Rightarrow>
                         (Inr \<lparr>sr_ID = bd_ID device, sr_Bootable = st_Bootable st\<rparr>, s2)))
          else (Inr \<lparr>sr_ID = bd_ID bd, sr_Bootable = st_Bootable st\<rparr>, s0))"

definition newline :: string where
  "newline = [CHR 0x0A]"

text \<open>
  \<open>newConfig\<close>. A failed \<open>GetTenant\<close> is printed and the function goes on with the
  tenant pointer it got (nil). Log output is not modelled. The function returns
  \<open>(config, err)\<close>; its callers drop the config when \<open>err\<close> is not nil, so an error is
  \<open>Inl\<close>. The error returned at the end is the one of \<open>json.MarshalIndent\<close>; a failed
  \<open>yaml.Marshal\<close> or \<open>getStorage\<close> is logged only.
\<close>

definition newConfig ::
  "'s lib \<Rightarrow> 's controller \<Rightarrow> Workload \<Rightarrow> string \<Rightarrow> string \<Rightarrow> 's \<Rightarrow> (error + config) \<times> 's" where
  "newConfig l context wl instanceID tenantID s0 =
     (let (tr, s1) = GetTenant context tenantID s0;
          tenant = (case tr of Inl err \<Rightarrow> None | Inr t \<Rightarrow> t);
          is_cnci = isCNCIWorkload wl;
          (vnicUUID, s2) = uuidGenerate l s1;
          networking0 = zeroNetworkResources\<lparr>VnicUUID := vnicUUID\<rparr>;
          branch =
            (if \<not> is_cnci then
               (case AllocateTenantIP context tenantID s2 of
                  (Inl err, s3) \<Rightarrow> (Inl err, s3)
                | (Inr ipAddress, s3) \<Rightarrow>
                    (case tenant of
                       None \<Rightarrow> (Inl NilDereference, s3)
                     | Some t \<Rightarrow>
                         let mask = [255, 255, 255, 0];
                             networking = networking0
                               \<lparr>VnicMAC := hwString l (newTenantHardwareAddr ipAddress),
                                PrivateIP := ipString l ipAddress,
                                Subnet := ipNetString l ipAddress mask,
                                ConcentratorUUID := CNCIID t,
                                ConcentratorIP := CNCIIP t\<rparr>;
                             userData = \<lparr>UUID = instanceID, Hostname = instanceID\<rparr>;
                             (storage, s4) =
                               (case Storage wl of
                                  None \<Rightarrow> (zeroStorageResources, s3)
                                | Some st \<Rightarrow>
                                    (case getStorage l context wl tenantID s3 of
                                       (Inl err, s') \<Rightarrow> (zeroStorageResources, s')
                                     | (Inr sto, s') \<Rightarrow> (sto, s')))
                         in (Inr (networking, storage, userData, ipString l ipAddress), s4)))
             else
               (case tenant of
                  None \<Rightarrow> (Inl NilDereference, s2)
                | Some t \<Rightarrow>
                    (Inr (networking0\<lparr>VnicMAC := CNCIMAC t\<rparr>, zeroStorageResources,
                          \<lparr>UUID = instanceID, Hostname = ''cnci-'' @ tenantID\<rparr>, ''''), s2)))
      in case branch of
           (Inl err, s5) \<Rightarrow> (Inl err, s5)
         | (Inr (networking, storage, userData, ip_text), s5) \<Rightarrow>
             let startCmd =
                   \<lparr>TenantUUID = tenantID, InstanceUUID = instanceID, ImageUUID = ImageID wl,
                    DockerImage = (if VMType wl = Docker then ImageName wl else ''''),
                    sc_FWType = FWType wl, sc_VMType = VMType wl,
                    InstancePersistence = Host, RequestedResources = Defaults wl,
                    Networking = networking, sc_Storage = storage\<rparr>;
                 cmd = \<lparr>Start = startCmd\<rparr>;
                 y = (case yamlMarshal l cmd of Inl err \<Rightarrow> '''' | Inr t \<Rightarrow> t);
                 jr = jsonMarshalIndent l userData;
                 b = (case jr of Inl err \<Rightarrow> '''' | Inr t \<Rightarrow> t);
                 cfg = \<lparr>cfg_sc = cmd,
                        cfg_config = ''---'' @ newline @ y @ ''...'' @ newline @ Config wl
                                      @ ''---'' @ newline @ b @ newline @ ''...'' @ newline,
                        cfg_cnci = is_cnci, cfg_mac = VnicMAC networking, cfg_ip = ip_text\<rparr>
             in (case jr of Inl err \<Rightarrow> (Inl err, s5) | Inr t \<Rightarrow> (Inr cfg, s5)))"

definition newInstance ::
  "'s lib \<Rightarrow> 's controller \<Rightarrow> string \<Rightarrow> Workload \<Rightarrow> 's \<Rightarrow> (error + instance_rec) \<times> 's" where
  "newInstance l context tenantID workload s0 =
     (let (id, s1) = uuidGenerate l s0 in
      case newConfig l context workload id tenantID s1 of
        (Inl err, s2) \<Rightarrow> (Inl err, s2)
      | (Inr cfg, s2) \<Rightarrow>
          let usage = GetResources cfg;
              newInst = \<lparr>TenantID = tenantID, WorkloadID = wl_ID workload, State = Pending,
                         ID = id, CNCI = cfg_cnci cfg, IPAddress = cfg_ip cfg, MACAddress = cfg_mac cfg,
                         in_Usage = usage, NodeID = '''', SSHIP = '''', SSHPort = 0\<rparr>
          in (Inr \<lparr>Instance = newInst, inst_newConfig = cfg, startTime = 0\<rparr>, s2))"

section \<open>The persistence collaborator\<close>

text \<open>
  Modelled from the spec: the datastore behind \<open>context.ds\<close>, whose implementation is
  not among the sources. Section 6 names its operations and says that every call may
  fail with a StorageError; Section 4.5 says that an IP is reserved from the tenant's
  address pool and that a released IP is available again. The state keeps the persisted
  instance records, the tenants, the concentrators registered per tenant and the
  reserved addresses; \<open>ds_failing\<close> says that the store is failing, in which case a
  call returns a StorageError and changes nothing.
\<close>

record datastore =
  ds_instances :: "(string \<times> Instance) list"
  ds_tenants :: "(string \<times> Tenant) list"
  ds_cncis :: "(string \<times> string \<times> string) list"
  ds_reserved :: "(string \<times> string) list"
  ds_failing :: bool

definition ds_GetTenant :: "string \<Rightarrow> datastore \<Rightarrow> (error + Tenant option) \<times> datastore" where
  "ds_GetTenant tid d =
     (if ds_failing d then (Inl (StorageError ''GetTenant''), d)
      else (Inr (map_of (ds_tenants d) tid), d))"

definition ds_GetInstance :: "string \<Rightarrow> datastore \<Rightarrow> error + Instance" where
  "ds_GetInstance iid d =
     (if ds_failing d then Inl (StorageError ''GetInstance'')
      else case map_of (ds_instances d) iid of
             None \<Rightarrow> Inl (StorageError ''instance not found'')
           | Some inst \<Rightarrow> Inr inst)"

definition ds_AddInstance :: "Instance \<Rightarrow> datastore \<Rightarrow> error option \<times> datastore" where
  "ds_AddInstance inst d =
     (if ds_failing d then (Some (StorageError ''AddInstance''), d)
      else (None, d\<lparr>ds_instances := (ID inst, inst) # ds_instances d\<rparr>))"

definition ds_AddTenantCNCI ::
  "string \<Rightarrow> string \<Rightarrow> string \<Rightarrow> datastore \<Rightarrow> error option \<times> datastore" where
  "ds_AddTenantCNCI tid iid m d =
     (if ds_failing d then (Some (StorageError ''AddTenantCNCI''), d)
      else (None, d\<lparr>ds_cncis := (tid, iid, m) # ds_cncis d\<rparr>))"

definition ds_ReleaseTenantIP :: "string \<Rightarrow> string \<Rightarrow> datastore \<Rightarrow> error option \<times> datastore" where
  "ds_ReleaseTenantIP tid addr d =
     (if ds_failing d then (Some (StorageError ''ReleaseTenantIP''), d)
      else (None, d\<lparr>ds_reserved := removeAll (tid, addr) (ds_reserved d)\<rparr>))"

definition ipAvailable :: "datastore \<Rightarrow> string \<Rightarrow> string \<Rightarrow> bool" where
  "ipAvailable d tid addr = ((tid, addr) \<notin> set (ds_reserved d))"

definition instancePersisted :: "datastore \<Rightarrow> string \<Rightarrow> bool" where
  "instancePersisted d iid = (map_of (ds_instances d) iid \<noteq> None)"

section \<open>The test client's result tables (testutil SSNTP client)\<close>

text \<open>
  \<open>Result\<close> is the value a waiter receives; the struct is declared outside the sources
  at hand and has the fields the client assigns. \<open>payloads.InstanceStat\<close> likewise.
\<close>

record Result =
  r_InstanceUUID :: string
  r_TenantUUID :: string
  NodeUUID :: string
  r_CNCI :: bool
  Err :: "error option"

definition zeroResult :: Result where
  "zeroResult =
     \<lparr>r_InstanceUUID = '''', r_TenantUUID = '''', NodeUUID = '''', r_CNCI = False,
      Err = None\<rparr>"

record InstanceStat =
  is_InstanceUUID :: string
  is_State :: string
  MemoryUsageMB :: int
  DiskUsageMB :: int
  CPUUsage :: int


record ErrorStartFailure =
  sf_InstanceUUID :: string
  Reason :: string

text \<open>
  Channels. \<open>make(chan Result)\<close> allocates a channel; the tables hold references to
  channels, so the model keeps a store from channel identities to channel states. A
  state records the values handed to the channel and whether it was closed. Sending on
  a closed channel and closing a closed channel panic.

  The channels are unbuffered: a send completes when the holder of the channel receives
  the value, and until then the sender waits. The holder is the caller that got the
  channel from \<open>Add*Chan\<close>; it receives in \<open>Get*ChanResult\<close>, and once that wait has
  taken its \<open>time.After\<close> case the holder does not receive from the channel any more,
  while the entry of the channel stays in its table. A send to such a channel has no
  receiver, now or later: it blocks forever. \<open>chan_send\<close> is given the set of the
  channels whose holder has left; the store records the hand-over of a value that is
  received.
\<close>

type_synonym chan = nat

record chan_state =
  delivered :: "Result list"
  closed :: bool

type_synonym chan_store = "chan \<Rightarrow> chan_state"

definition newChan :: chan_state where
  "newChan = \<lparr>delivered = [], closed = False\<rparr>"

datatype send_result = Sent chan_store | SendBlocks | SendPanics error

definition chan_send :: "chan set \<Rightarrow> chan_store \<Rightarrow> chan \<Rightarrow> Result \<Rightarrow> send_result" where
  "chan_send gone h c v =
     (if closed (h c) then SendPanics SendOnClosedChannel
      else if c \<in> gone then SendBlocks
      else Sent (h(c := (h c)\<lparr>delivered := delivered (h c) @ [v]\<rparr>)))"

definition chan_close :: "chan_store \<Rightarrow> chan \<Rightarrow> error + chan_store" where
  "chan_close h c =
     (if closed (h c) then Inl CloseOfClosedChannel
      else Inr (h(c := (h c)\<lparr>closed := True\<rparr>)))"

text \<open>
  Modelled from the spec: the SSNTP transport client (\<open>ssntp.Client\<close>), which is not
  among the sources. Section 4.1 gives \<open>send(connection, frame) -> error\<close> and says
  that a write after close fails with ConnectionClosed. The state is whether the
  connection is open and the frames sent on it.
\<close>

datatype frame =
    CommandFrame Command string
  | StatusFrame Status string
  | EventFrame Event string
  | ErrorFrame Error string

record ssntp_Client =
  connected :: bool
  sent :: "frame list"



text \<open>
  \<open>ssntp.Role\<close> is a bit mask; the sources at hand name \<open>UNKNOWN\<close>, its zero value.
\<close>

type_synonym Role = "32 word"

definition UNKNOWN :: Role where
  "UNKNOWN = 0"

text \<open>
  The client. The tables are Go maps; they are association lists here because
  \<open>closeClientChans\<close> ranges over them. \<open>chans\<close> and \<open>next_chan\<close> are the store of
  the channels that the tables refer to and the next identity \<open>make\<close> hands out;
  \<open>given_up\<close> is the set of the channels whose holder has left its wait.

  Every operation on a table runs under the lock of that table. The model runs the
  operations of one flow one after the other, so the lock is free when an operation
  begins, and the locks are not part of the state. An operation that blocks forever
  ends the flow: its outcome is \<open>Blocked\<close> with the state it has reached, in which it
  still holds the lock of its table.
\<close>

record SsntpTestClient =
  Ssntp :: ssntp_Client
  Name :: string
  instances :: "InstanceStat list"
  cl_UUID :: string
  Role :: Role
  StartFail :: bool
  StartFailReason :: string
  StopFail :: bool
  StopFailReason :: string
  RestartFail :: bool
  RestartFailReason :: string
  DeleteFail :: bool
  DeleteFailReason :: string
  CmdChans :: "(Command \<times> chan) list"
  EventChans :: "(Event \<times> chan) list"
  ErrorChans :: "(Error \<times> chan) list"
  StatusChans :: "(Status \<times> chan) list"
  chans :: chan_store
  next_chan :: nat
  given_up :: "chan set"

text \<open>
  What an operation that does not return has done: a panic, or a wait that never ends.
\<close>

datatype stop = Panic error | Blocked SsntpTestClient

text \<open>
  Library functions used by the client: \<open>yaml.Unmarshal\<close> into a \<open>payloads.Start\<close>,
  \<open>yaml.Marshal\<close> of a \<open>payloads.ErrorStartFailure\<close>, \<open>Role.IsNetAgent\<close>,
  \<open>Role.String\<close> and \<open>StartFailureReason.String\<close>.
\<close>

record testlib =
  yamlUnmarshalStart :: "string \<Rightarrow> error + payloads_Start"
  yamlMarshalStartFailure :: "ErrorStartFailure \<Rightarrow> error + string"
  IsNetAgent :: "Role \<Rightarrow> bool"
  roleString :: "Role \<Rightarrow> string"
  reasonString :: "string \<Rightarrow> string"

text \<open>
  \<open>make(chan Result)\<close>. The caller that is handed the new channel has not waited on it
  yet.
\<close>

definition make_chan :: "SsntpTestClient \<Rightarrow> chan \<times> SsntpTestClient" where
  "make_chan client =
     (let c = next_chan client
      in (c, client\<lparr>chans := (chans client)(c := newChan), next_chan := Suc c,
                    given_up := given_up client - {c}\<rparr>))"

text \<open>
  \<open>c <- result; close(c)\<close> on the channel found in a table, whose entry is deleted
  already. A send that finds no receiver blocks before \<open>close(c)\<close> and before the
  deferred \<open>Unlock\<close>.
\<close>

definition send_and_close :: "SsntpTestClient \<Rightarrow> chan \<Rightarrow> Result \<Rightarrow> stop + SsntpTestClient" where
  "send_and_close client c result =
     (case chan_send (given_up client) (chans client) c result of
        SendPanics p \<Rightarrow> Inl (Panic p)
      | SendBlocks \<Rightarrow> Inl (Blocked client)
      | Sent h1 \<Rightarrow>
          (case chan_close h1 c of
             Inl p \<Rightarrow> Inl (Panic p)
           | Inr h2 \<Rightarrow> Inr (client\<lparr>chans := h2\<rparr>)))"

definition AddCmdChan :: "SsntpTestClient \<Rightarrow> Command \<Rightarrow> chan \<times> SsntpTestClient" where
  "AddCmdChan client cmd =
     (let (c, client1) = make_chan client
      in (c, client1\<lparr>CmdChans := AList.update cmd c (CmdChans client1)\<rparr>))"

definition SendResultAndDelCmdChan ::
  "SsntpTestClient \<Rightarrow> Command \<Rightarrow> Result \<Rightarrow> stop + SsntpTestClient" where
  "SendResultAndDelCmdChan client cmd result =
     (case map_of (CmdChans client) cmd of
        None \<Rightarrow> Inr client
      | Some c \<Rightarrow>
          send_and_close (client\<lparr>CmdChans := AList.delete cmd (CmdChans client)\<rparr>) c result)"

definition AddEventChan :: "SsntpTestClient \<Rightarrow> Event \<Rightarrow> chan \<times> SsntpTestClient" where
  "AddEventChan client evt =
     (let (c, client1) = make_chan client
      in (c, client1\<lparr>EventChans := AList.update evt c (EventChans client1)\<rparr>))"

definition SendResultAndDelEventChan ::
  "SsntpTestClient \<Rightarrow> Event \<Rightarrow> Result \<Rightarrow> stop + SsntpTestClient" where
  "SendResultAndDelEventChan client evt result =
     (case map_of (EventChans client) evt of
        None \<Rightarrow> Inr client
      | Some c \<Rightarrow>
          send_and_close (client\<lparr>EventChans := AList.delete evt (EventChans client)\<rparr>) c result)"

definition AddErrorChan :: "SsntpTestClient \<Rightarrow> Error \<Rightarrow> chan \<times> SsntpTestClient" where
  "AddErrorChan client er =
     (let (c, client1) = make_chan client
      in (c, client1\<lparr>ErrorChans := AList.update er c (ErrorChans client1)\<rparr>))"

definition SendResultAndDelErrorChan ::
  "SsntpTestClient \<Rightarrow> Error \<Rightarrow> Result \<Rightarrow> stop + SsntpTestClient" where
  "SendResultAndDelErrorChan client er result =
     (case map_of (ErrorChans client) er of
        None \<Rightarrow> Inr client
      | Some c \<Rightarrow>
          send_and_close (client\<lparr>ErrorChans := AList.delete er (ErrorChans client)\<rparr>) c result)"

definition AddStatusChan :: "SsntpTestClient \<Rightarrow> Status \<Rightarrow> chan \<times> SsntpTestClient" where
  "AddStatusChan client status =
     (let (c, client1) = make_chan client
      in (c, client1\<lparr>StatusChans := AList.update status c (StatusChans client1)\<rparr>))"

definition SendResultAndDelStatusChan ::
  "SsntpTestClient \<Rightarrow> Status \<Rightarrow> Result \<Rightarrow> stop + SsntpTestClient" where
  "SendResultAndDelStatusChan client status result =
     (case map_of (StatusChans client) status of
        None \<Rightarrow> Inr client
      | Some c \<Rightarrow>
          send_and_close (client\<lparr>StatusChans := AList.delete status (StatusChans client)\<rparr>)
            c result)"

definition openClientChans :: "SsntpTestClient \<Rightarrow> SsntpTestClient" where
  "openClientChans client =
     client\<lparr>CmdChans := [], EventChans := [], ErrorChans := [], StatusChans := []\<rparr>"

text \<open>
  \<open>closeClientChans\<close> closes and deletes every entry, table after table. The order in
  which Go ranges over a map is not fixed; the model takes the order of the list. A
  \<open>close\<close> does not wait for a receiver.
\<close>

fun close_all :: "chan_store \<Rightarrow> chan list \<Rightarrow> error + chan_store" where
  "close_all h [] = Inr h"
| "close_all h (c # cs) =
     (case chan_close h c of Inl p \<Rightarrow> Inl p | Inr h' \<Rightarrow> close_all h' cs)"

definition closeClientChans :: "SsntpTestClient \<Rightarrow> stop + SsntpTestClient" where
  "closeClientChans client =
     (case close_all (chans client) (map snd (CmdChans client)) of
        Inl p \<Rightarrow> Inl (Panic p)
      | Inr h1 \<Rightarrow>
     (case close_all h1 (map snd (EventChans client)) of
        Inl p \<Rightarrow> Inl (Panic p)
      | Inr h2 \<Rightarrow>
     (case close_all h2 (map snd (ErrorChans client)) of
        Inl p \<Rightarrow> Inl (Panic p)
      | Inr h3 \<Rightarrow>
     (case close_all h3 (map snd (StatusChans client)) of
        Inl p \<Rightarrow> Inl (Panic p)
      | Inr h4 \<Rightarrow>
          Inr (client\<lparr>CmdChans := [], EventChans := [], ErrorChans := [],
                       StatusChans := [], chans := h4\<rparr>)))))"

text \<open>
  \<open>NewSsntpTestClientConnection\<close>: \<open>new(SsntpTestClient)\<close> is the zero client, in a
  process that has made no channel yet; \<open>dialed\<close> is what \<open>Ssntp.Dial\<close> returns.
\<close>

definition zeroClient :: SsntpTestClient where
  "zeroClient =
     \<lparr>Ssntp = \<lparr>connected = False, sent = []\<rparr>, Name = '''', instances = [],
      cl_UUID = '''', Role = 0, StartFail = False, StartFailReason = '''',
      StopFail = False, StopFailReason = '''', RestartFail = False,
      RestartFailReason = '''', DeleteFail = False, DeleteFailReason = '''',
      CmdChans = [], EventChans = [], ErrorChans = [], StatusChans = [],
      chans = (\<lambda>c. newChan), next_chan = 0, given_up = {}\<rparr>"

definition NewSsntpTestClientConnection ::
  "testlib \<Rightarrow> error option \<Rightarrow> string \<Rightarrow> Role \<Rightarrow> string \<Rightarrow> error + SsntpTestClient" where
  "NewSsntpTestClientConnection lb dialed name role uuid =
     (if role = UNKNOWN then Inl (ErrorString ''no role specified'')
      else if uuid = '''' then Inl (ErrorString ''no uuid specified'')
      else
        let client = openClientChans
              (zeroClient\<lparr>Name := ''Test '' @ roleString lb role @ '' '' @ name,
                          cl_UUID := uuid, Role := role, StartFail := False\<rparr>)
        in case dialed of
             Some err \<Rightarrow> Inl err
           | None \<Rightarrow> Inr (client\<lparr>Ssntp := \<lparr>connected = True, sent = []\<rparr>\<rparr>))"

subsection \<open>The tables by key\<close>

text \<open>
  The four tables are handled by four copies of the same three functions. A key names a
  table and an operation in it; \<open>lookup_chan\<close>, \<open>register\<close> and \<open>resolve\<close> dispatch on
  the key to the function of the source.
\<close>

fun lookup_chan :: "SsntpTestClient \<Rightarrow> key \<Rightarrow> chan option" where
  "lookup_chan client (CmdKey cmd) = map_of (CmdChans client) cmd"
| "lookup_chan client (EventKey evt) = map_of (EventChans client) evt"
| "lookup_chan client (ErrorKey er) = map_of (ErrorChans client) er"
| "lookup_chan client (StatusKey status) = map_of (StatusChans client) status"

fun register :: "SsntpTestClient \<Rightarrow> key \<Rightarrow> chan \<times> SsntpTestClient" where
  "register client (CmdKey cmd) = AddCmdChan client cmd"
| "register client (EventKey evt) = AddEventChan client evt"
| "register client (ErrorKey er) = AddErrorChan client er"
| "register client (StatusKey status) = AddStatusChan client status"

fun resolve :: "SsntpTestClient \<Rightarrow> key \<Rightarrow> Result \<Rightarrow> stop + SsntpTestClient" where
  "resolve client (CmdKey cmd) result = SendResultAndDelCmdChan client cmd result"
| "resolve client (EventKey evt) result = SendResultAndDelEventChan client evt result"
| "resolve client (ErrorKey er) result = SendResultAndDelErrorChan client er result"
| "resolve client (StatusKey status) result = SendResultAndDelStatusChan client status result"

text \<open>\<open>delete(client.CmdChans, cmd)\<close> and its three copies, by key.\<close>

fun unregister :: "SsntpTestClient \<Rightarrow> key \<Rightarrow> SsntpTestClient" where
  "unregister client (CmdKey cmd) =
     client\<lparr>CmdChans := AList.delete cmd (CmdChans client)\<rparr>"
| "unregister client (EventKey evt) =
     client\<lparr>EventChans := AList.delete evt (EventChans client)\<rparr>"
| "unregister client (ErrorKey er) =
     client\<lparr>ErrorChans := AList.delete er (ErrorChans client)\<rparr>"
| "unregister client (StatusKey status) =
     client\<lparr>StatusChans := AList.delete status (StatusChans client)\<rparr>"

text \<open>
  A run of the client: registrations, resolutions and shutdowns in any order, and
  waiters that give up. \<open>GiveUp c\<close> is the \<open>time.After\<close> case of the
  \<open>Get*ChanResult\<close> that waits on channel \<open>c\<close>: the holder leaves, the tables stay
  as they are. The run ends at the first operation that does not return.
\<close>

datatype client_op = Register key | Resolve key Result | CloseChans | GiveUp chan

fun step :: "SsntpTestClient \<Rightarrow> client_op \<Rightarrow> stop + SsntpTestClient" where
  "step client (Register k) = Inr (snd (register client k))"
| "step client (Resolve k result) = resolve client k result"
| "step client CloseChans = closeClientChans client"
| "step client (GiveUp c) = Inr (client\<lparr>given_up := insert c (given_up client)\<rparr>)"

fun run :: "client_op list \<Rightarrow> SsntpTestClient \<Rightarrow> stop + SsntpTestClient" where
  "run [] client = Inr client"
| "run (x # xs) client =
     (case step client x of Inl p \<Rightarrow> Inl p | Inr client' \<Rightarrow> run xs client')"

text \<open>
  The channels that the tables refer to, and the state every reachable client is in,
  whether or not some of its waiters have given up. In a \<open>live\<close> client no waiter that
  a table refers to has given up.
\<close>

definition all_chans :: "SsntpTestClient \<Rightarrow> chan list" where
  "all_chans client =
     map snd (CmdChans client) @ map snd (EventChans client) @
     map snd (ErrorChans client) @ map snd (StatusChans client)"

definition chans_ok :: "SsntpTestClient \<Rightarrow> bool" where
  "chans_ok client =
     (distinct (all_chans client) \<and>
      (\<forall>c \<in> set (all_chans client). c < next_chan client \<and> chans client c = newChan) \<and>
      (\<forall>c. length (delivered (chans client c)) \<le> 1))"

definition vals :: "('k \<times> chan) list \<Rightarrow> chan set" where
  "vals al = snd ` set al"

definition refs :: "SsntpTestClient \<Rightarrow> chan set" where
  "refs client = set (all_chans client)"

definition live :: "SsntpTestClient \<Rightarrow> bool" where
  "live client = (\<forall>c \<in> set (all_chans client). c \<notin> given_up client)"


subsection \<open>Waiting for a result\<close>

text \<open>
  \<open>select\<close> between a receive on the waiter's channel and \<open>time.After(d)\<close>. What the
  channel does while the waiter waits is the argument \<open>arrival\<close>: \<open>None\<close> when nothing
  is sent and the channel is not closed, \<open>Some (t, v)\<close> when the receive becomes
  possible \<open>t\<close> nanoseconds after the wait began and yields \<open>v\<close> (the value sent, or the
  zero \<open>Result\<close> of a closed channel). When both cases are ready at the same instant Go
  takes either; \<open>tie\<close> says whether it takes the receive. The result is the time the
  \<open>select\<close> took and what was received, if anything.
\<close>

type_synonym arrival = "(int \<times> Result) option"

definition Second :: int where
  "Second = 1000000000"

definition select_timeout :: "arrival \<Rightarrow> int \<Rightarrow> bool \<Rightarrow> int \<times> Result option" where
  "select_timeout arrival d tie =
     (case arrival of
        None \<Rightarrow> (d, None)
      | Some (t, v) \<Rightarrow> if t < d \<or> (t = d \<and> tie) then (t, Some v) else (d, None))"

text \<open>What a waiter sees of a channel whose state changed at time \<open>t\<close>.\<close>

definition chan_arrival :: "chan_state \<Rightarrow> int \<Rightarrow> arrival" where
  "chan_arrival st t =
     (case delivered st of
        v # vs \<Rightarrow> Some (t, v)
      | [] \<Rightarrow> if closed st then Some (t, zeroResult) else None)"

text \<open>
  The four waits return \<open>(result, err)\<close>; the model adds the time the wait took as a
  third component. The two error messages of each function are the constructors
  \<open>ClientError\<close> and \<open>Timeout\<close> with the key in place of the formatted operation.
\<close>

definition GetCmdChanResult :: "arrival \<Rightarrow> bool \<Rightarrow> Command \<Rightarrow> Result \<times> error option \<times> int" where
  "GetCmdChanResult arrival tie cmd =
     (case select_timeout arrival (5 * Second) tie of
        (t, Some result) \<Rightarrow>
          (result,
           (case Err result of None \<Rightarrow> None | Some e \<Rightarrow> Some (ClientError (CmdKey cmd) e)), t)
      | (t, None) \<Rightarrow> (zeroResult, Some (Timeout (CmdKey cmd)), t))"

definition GetEventChanResult :: "arrival \<Rightarrow> bool \<Rightarrow> Event \<Rightarrow> Result \<times> error option \<times> int" where
  "GetEventChanResult arrival tie evt =
     (case select_timeout arrival (20 * Second) tie of
        (t, Some result) \<Rightarrow>
          (result,
           (case Err result of None \<Rightarrow> None | Some e \<Rightarrow> Some (ClientError (EventKey evt) e)), t)
      | (t, None) \<Rightarrow> (zeroResult, Some (Timeout (EventKey evt)), t))"

definition GetErrorChanResult :: "arrival \<Rightarrow> bool \<Rightarrow> Error \<Rightarrow> Result \<times> error option \<times> int" where
  "GetErrorChanResult arrival tie er =
     (case select_timeout arrival (20 * Second) tie of
        (t, Some result) \<Rightarrow>
          (result,
           (case Err result of None \<Rightarrow> None | Some e \<Rightarrow> Some (ClientError (ErrorKey er) e)), t)
      | (t, None) \<Rightarrow> (zeroResult, Some (Timeout (ErrorKey er)), t))"

definition GetStatusChanResult :: "arrival \<Rightarrow> bool \<Rightarrow> Status \<Rightarrow> Result \<times> error option \<times> int" where
  "GetStatusChanResult arrival tie status =
     (case select_timeout arrival (5 * Second) tie of
        (t, Some result) \<Rightarrow>
          (result,
           (case Err result of None \<Rightarrow> None | Some e \<Rightarrow> Some (ClientError (StatusKey status) e)),
           t)
      | (t, None) \<Rightarrow> (zeroResult, Some (Timeout (StatusKey status)), t))"

fun await :: "arrival \<Rightarrow> bool \<Rightarrow> key \<Rightarrow> Result \<times> error option \<times> int" where
  "await arrival tie (CmdKey cmd) = GetCmdChanResult arrival tie cmd"
| "await arrival tie (EventKey evt) = GetEventChanResult arrival tie evt"
| "await arrival tie (ErrorKey er) = GetErrorChanResult arrival tie er"
| "await arrival tie (StatusKey status) = GetStatusChanResult arrival tie status"

subsection \<open>Handling a Start command\<close>




section \<open>Compute API handlers on a single server (ciao-controller compute API)\<close>

text \<open>
  A request as the handlers read it: the two path variables that \<open>mux.Vars\<close> gives
  (the empty string when a variable is missing), the first value of the
  \<open>X-Auth-Token\<close> header if the header is present (a header that \<open>net/http\<close> parsed
  has at least one value), and what \<open>ioutil.ReadAll(r.Body)\<close> returns.
\<close>

record Request =
  tenant_var :: string
  server_var :: string
  X_Auth_Token :: "string option"
  Body :: "error + string"

text \<open>
  A response: the status code and what was written. \<open>returnErrorCode\<close> writes the JSON
  form of the code and the message; the model keeps the code and the message.
\<close>

datatype message = Msg string | ErrMsg error

datatype body = NoBody | ErrorBody nat message | JsonBody string

record response =
  status_code :: nat
  content :: body

definition returnErrorCode :: "nat \<Rightarrow> message \<Rightarrow> response" where
  "returnErrorCode httpError m = \<lparr>status_code = httpError, content = ErrorBody httpError m\<rparr>"

definition StatusOK :: nat where "StatusOK = 200"
definition StatusAccepted :: nat where "StatusAccepted = 202"
definition StatusBadRequest :: nat where "StatusBadRequest = 400"
definition StatusUnauthorized :: nat where "StatusUnauthorized = 401"
definition StatusNotFound :: nat where "StatusNotFound = 404"
definition StatusInternalServerError :: nat where "StatusInternalServerError = 500"
definition StatusServiceUnavailable :: nat where "StatusServiceUnavailable = 503"

record Server =
  sv_HostID :: string
  sv_ID :: string
  sv_TenantID :: string
  sv_FlavorID :: string
  sv_ImageID :: string
  sv_Status :: string
  sv_Private :: "(string \<times> string) list"
  sv_SSHIP :: string
  sv_SSHPort :: int

record CiaoServersAction =
  Action :: string
  ServerIDs :: "string list"

definition ComputeStatusRunning :: string where
  "ComputeStatusRunning = ''active''"

definition ComputeStatusStopped :: string where
  "ComputeStatusStopped = ''exited''"

text \<open>
  What the handlers call and is not among the sources: the identity service
  (\<open>context.id\<close>), the datastore reads, the three lifecycle operations of the
  controller, and the JSON encoder and decoder. The lifecycle operations return an
  \<open>error\<close> and the state they leave; the reads do not change the state and return
  either an error or the value read.
\<close>

record 's api =
  validateService :: "string \<Rightarrow> string \<Rightarrow> string \<Rightarrow> string \<Rightarrow> bool"
  validateProjectRole :: "string \<Rightarrow> string \<Rightarrow> string \<Rightarrow> bool"
  GetInstance :: "string \<Rightarrow> 's \<Rightarrow> error + Instance"
  GetWorkload :: "string \<Rightarrow> 's \<Rightarrow> error + Workload"
  GetAllInstancesFromTenant :: "string \<Rightarrow> 's \<Rightarrow> error + Instance list"
  restartInstance :: "string \<Rightarrow> 's \<Rightarrow> error option \<times> 's"
  stopInstance :: "string \<Rightarrow> 's \<Rightarrow> error option \<times> 's"
  deleteInstance :: "string \<Rightarrow> 's \<Rightarrow> error option \<times> 's"
  jsonMarshalServer :: "Server \<Rightarrow> error + string"
  jsonUnmarshalServersAction :: "string \<Rightarrow> error + CiaoServersAction"

definition tenantToken :: "'s api \<Rightarrow> Request \<Rightarrow> string \<Rightarrow> bool" where
  "tenantToken context r tenant =
     (let validServices = [(''compute'', ''ciao''), (''compute'', ''nova'')]
      in case X_Auth_Token r of
           None \<Rightarrow> False
         | Some token \<Rightarrow>
             list_ex (\<lambda>(serviceType, serviceName).
                        validateService context token tenant serviceType serviceName)
               validServices \<or>
             list_ex (\<lambda>(serviceType, serviceName).
                        validateService context token tenant serviceType '''')
               validServices)"

definition adminToken :: "'s api \<Rightarrow> Request \<Rightarrow> bool" where
  "adminToken context r =
     (let validAdmins = [(''service'', ''admin''), (''admin'', ''admin'')]
      in case X_Auth_Token r of
           None \<Rightarrow> False
         | Some token \<Rightarrow>
             list_ex (\<lambda>(project, role). validateProjectRole context token project role)
               validAdmins)"

definition validateToken :: "'s api \<Rightarrow> Request \<Rightarrow> bool" where
  "validateToken context r =
     (let tenant = tenant_var r
      in if tenant = '''' then adminToken context r
         else if \<not> tenantToken context r tenant then adminToken context r
         else True)"

definition instanceToServer :: "'s api \<Rightarrow> Instance \<Rightarrow> 's \<Rightarrow> error + Server" where
  "instanceToServer context inst s =
     (case GetWorkload context (WorkloadID inst) s of
        Inl err \<Rightarrow> Inl err
      | Inr workload \<Rightarrow>
          Inr \<lparr>sv_HostID = NodeID inst, sv_ID = ID inst, sv_TenantID = TenantID inst,
               sv_FlavorID = WorkloadID inst, sv_ImageID = ImageID workload,
               sv_Status = State inst,
               sv_Private = [(IPAddress inst, MACAddress inst)],
               sv_SSHIP = SSHIP inst, sv_SSHPort = SSHPort inst\<rparr>)"

definition showServerDetails :: "'s api \<Rightarrow> Request \<Rightarrow> 's \<Rightarrow> response \<times> 's" where
  "showServerDetails context r s =
     (let tenant = tenant_var r; instanceID = server_var r
      in if \<not> validateToken context r
         then (returnErrorCode StatusUnauthorized (Msg ''Invalid token''), s)
         else case GetInstance context instanceID s of
           Inl err \<Rightarrow> (returnErrorCode StatusNotFound (Msg ''Instance could not be found''), s)
         | Inr inst \<Rightarrow>
             if TenantID inst \<noteq> tenant
             then (returnErrorCode StatusNotFound
                     (Msg ''Instance does not belong to tenant''), s)
             else case instanceToServer context inst s of
               Inl err \<Rightarrow>
                 (returnErrorCode StatusNotFound (Msg ''Instance could not be found''), s)
             | Inr server \<Rightarrow>
                 (case jsonMarshalServer context server of
                    Inl err \<Rightarrow> (returnErrorCode StatusInternalServerError (ErrMsg err), s)
                  | Inr b \<Rightarrow> (\<lparr>status_code = StatusOK, content = JsonBody b\<rparr>, s)))"

definition deleteServer :: "'s api \<Rightarrow> Request \<Rightarrow> 's \<Rightarrow> response \<times> 's" where
  "deleteServer context r s =
     (let tenant = tenant_var r; inst_id = server_var r
      in if \<not> validateToken context r
         then (returnErrorCode StatusUnauthorized (Msg ''Invalid token''), s)
         else case GetInstance context inst_id s of
           Inl err \<Rightarrow> (returnErrorCode StatusNotFound (Msg ''Instance could not be found''), s)
         | Inr i \<Rightarrow>
             if TenantID i \<noteq> tenant
             then (returnErrorCode StatusNotFound
                     (Msg ''Instance does not belong to tenant''), s)
             else case deleteInstance context inst_id s of
               (Some err, s') \<Rightarrow> (returnErrorCode StatusInternalServerError (ErrMsg err), s')
             | (None, s') \<Rightarrow> (\<lparr>status_code = StatusAccepted, content = NoBody\<rparr>, s'))"

text \<open>\<open>strings.Contains\<close>.\<close>

fun HasPrefix :: "string \<Rightarrow> string \<Rightarrow> bool" where
  "HasPrefix s [] = True"
| "HasPrefix [] (p # ps) = False"
| "HasPrefix (c # cs) (p # ps) = (c = p \<and> HasPrefix cs ps)"

fun Contains :: "string \<Rightarrow> string \<Rightarrow> bool" where
  "Contains [] substr = (substr = [])"
| "Contains (c # cs) substr = (HasPrefix (c # cs) substr \<or> Contains cs substr)"

text \<open>
  \<open>serverAction\<close> sets \<open>action\<close> from the body and switches on it; the switch has
  no case for \<open>computeActionDelete\<close>.
\<close>

datatype action = computeActionStart | computeActionStop | computeActionDelete

definition serverAction :: "'s api \<Rightarrow> Request \<Rightarrow> 's \<Rightarrow> response \<times> 's" where
  "serverAction context r s =
     (let tenant = tenant_var r; inst_id = server_var r
      in if \<not> validateToken context r
         then (returnErrorCode StatusUnauthorized (Msg ''Invalid token''), s)
         else case GetInstance context inst_id s of
           Inl err \<Rightarrow> (returnErrorCode StatusNotFound (Msg ''Instance could not be found''), s)
         | Inr i \<Rightarrow>
             if TenantID i \<noteq> tenant
             then (returnErrorCode StatusNotFound
                     (Msg ''Instance does not belong to tenant''), s)
             else case Body r of
               Inl err \<Rightarrow>
                 (returnErrorCode StatusBadRequest (Msg ''Service cannot read Request Body''), s)
             | Inr bodyString \<Rightarrow>
                 (case (if Contains bodyString ''os-start'' then Some computeActionStart
                        else if Contains bodyString ''os-stop'' then Some computeActionStop
                        else None) of
                    None \<Rightarrow>
                      (returnErrorCode StatusServiceUnavailable (Msg ''Unsupported action''), s)
                  | Some act \<Rightarrow>
                      (case (case act of
                               computeActionStart \<Rightarrow> restartInstance context inst_id s
                             | computeActionStop \<Rightarrow> stopInstance context inst_id s
                             | computeActionDelete \<Rightarrow> (None, s)) of
                         (Some err, s') \<Rightarrow>
                           (returnErrorCode StatusInternalServerError (ErrMsg err), s')
                       | (None, s') \<Rightarrow>
                           (\<lparr>status_code = StatusAccepted, content = NoBody\<rparr>, s'))))"

text \<open>
  The two loops of \<open>tenantServersAction\<close>. The first runs over the server IDs of the
  request and answers 404 at the first ID that is unknown or belongs to another tenant;
  the second runs over all instances of the tenant. Both drop what the action returns.
  \<open>None\<close> means that the loop ran to its end.
\<close>

fun actOnServerIDs ::
  "'s api \<Rightarrow> string \<Rightarrow> (string \<Rightarrow> 's \<Rightarrow> error option \<times> 's) \<Rightarrow> string list \<Rightarrow> 's
     \<Rightarrow> response option \<times> 's" where
  "actOnServerIDs context tenant actionFunc [] s = (None, s)"
| "actOnServerIDs context tenant actionFunc (instanceID # rest) s =
     (case GetInstance context instanceID s of
        Inl err \<Rightarrow>
          (Some (returnErrorCode StatusNotFound
                   (Msg (''Instance '' @ instanceID @ '' could not be found''))), s)
      | Inr inst \<Rightarrow>
          if TenantID inst \<noteq> tenant
          then (Some (returnErrorCode StatusNotFound
                        (Msg (''Instance '' @ instanceID @ '' does not belong to tenant ''
                              @ tenant))), s)
          else actOnServerIDs context tenant actionFunc rest (snd (actionFunc instanceID s)))"

fun actOnInstances ::
  "string \<Rightarrow> (string \<Rightarrow> 's \<Rightarrow> error option \<times> 's) \<Rightarrow> Instance list \<Rightarrow> 's \<Rightarrow> 's" where
  "actOnInstances statusFilter actionFunc [] s = s"
| "actOnInstances statusFilter actionFunc (inst # rest) s =
     (if statusFilter \<noteq> '''' \<and> State inst \<noteq> statusFilter
      then actOnInstances statusFilter actionFunc rest s
      else actOnInstances statusFilter actionFunc rest (snd (actionFunc (ID inst) s)))"

definition tenantServersAction :: "'s api \<Rightarrow> Request \<Rightarrow> 's \<Rightarrow> response \<times> 's" where
  "tenantServersAction context r s =
     (let tenant = tenant_var r
      in if \<not> validateToken context r
         then (returnErrorCode StatusUnauthorized (Msg ''Invalid token''), s)
         else case Body r of
           Inl err \<Rightarrow>
             (returnErrorCode StatusBadRequest (Msg ''Service cannot read Request Body''), s)
         | Inr body \<Rightarrow>
             (case jsonUnmarshalServersAction context body of
                Inl err \<Rightarrow> (returnErrorCode StatusInternalServerError (ErrMsg err), s)
              | Inr servers \<Rightarrow>
                  (case (if Action servers = ''os-start''
                         then Some (restartInstance context, ComputeStatusStopped)
                         else if Action servers = ''os-stop''
                         then Some (stopInstance context, ComputeStatusRunning)
                         else if Action servers = ''os-delete''
                         then Some (deleteInstance context, '''')
                         else None) of
                     None \<Rightarrow>
                       (returnErrorCode StatusServiceUnavailable (Msg ''Unsupported action''), s)
                   | Some (actionFunc, statusFilter) \<Rightarrow>
                       if length (ServerIDs servers) > 0 then
                         (case actOnServerIDs context tenant actionFunc (ServerIDs servers) s of
                            (Some resp, s') \<Rightarrow> (resp, s')
                          | (None, s') \<Rightarrow> (\<lparr>status_code = StatusAccepted, content = NoBody\<rparr>, s'))
                       else
                         (case GetAllInstancesFromTenant context tenant s of
                            Inl err \<Rightarrow>
                              (returnErrorCode StatusNotFound (Msg ''No instances for tenant''), s)
                          | Inr insts \<Rightarrow>
                              (\<lparr>status_code = StatusAccepted, content = NoBody\<rparr>,
                               actOnInstances statusFilter actionFunc insts s)))))"

text \<open>
  For the statement about the ID loop: the state after the action ran on every ID of a
  list, one after the other, and whether every ID of a list, when the loop comes to it
  after the action ran on the IDs before it, is known and belongs to the tenant.
\<close>

fun actedOn :: "(string \<Rightarrow> 's \<Rightarrow> error option \<times> 's) \<Rightarrow> string list \<Rightarrow> 's \<Rightarrow> 's" where
  "actedOn actionFunc [] s = s"
| "actedOn actionFunc (instanceID # rest) s =
     actedOn actionFunc rest (snd (actionFunc instanceID s))"

fun allBelong ::
  "'s api \<Rightarrow> string \<Rightarrow> (string \<Rightarrow> 's \<Rightarrow> error option \<times> 's) \<Rightarrow> string list \<Rightarrow> 's \<Rightarrow> bool" where
  "allBelong context tenant actionFunc [] s = True"
| "allBelong context tenant actionFunc (instanceID # rest) s =
     (case GetInstance context instanceID s of
        Inl err \<Rightarrow> False
      | Inr inst \<Rightarrow>
          TenantID inst = tenant \<and>
          allBelong context tenant actionFunc rest (snd (actionFunc instanceID s)))"

text \<open>The action function that \<open>tenantServersAction\<close> picks for an action name.\<close>

definition actionFor :: "'s api \<Rightarrow> string \<Rightarrow> (string \<Rightarrow> 's \<Rightarrow> error option \<times> 's) option" where
  "actionFor context name =
     (if name = ''os-start'' then Some (restartInstance context)
      else if name = ''os-stop'' then Some (stopInstance context)
      else if name = ''os-delete'' then Some (deleteInstance context)
      else None)"

section \<open>Example tenants, instances and collaborators\<close>

text \<open>
  Concrete values on which the theorems below are evaluated: a tenant with an instance
  count quota and two numeric quotas, a store that holds one persisted instance and its
  reserved address, and a controller context over that store.
\<close>

definition example_tenant :: Tenant where
  "example_tenant =
     \<lparr>tn_ID = ''tenant-a'', CNCIID = ''cnci-1'', CNCIMAC = ''02:00:ac:10:00:01'',
      CNCIIP = ''192.168.0.2'',
      Resources =
        [\<lparr>Rname = ''instances'', Rtype = 1, Limit = 2, Usage = 1\<rparr>,
         \<lparr>Rname = ''vcpus'', Rtype = 2, Limit = 8, Usage = 6\<rparr>,
         \<lparr>Rname = ''mem_mb'', Rtype = 3, Limit = 1024, Usage = 512\<rparr>]\<rparr>"

definition example_Instance :: Instance where
  "example_Instance =
     \<lparr>TenantID = ''tenant-a'', WorkloadID = ''wl-1'', State = Pending, ID = ''inst-1'',
      CNCI = False, IPAddress = ''172.16.0.2'', MACAddress = ''02:00:ac:10:00:02'',
      in_Usage = [''vcpus'' \<mapsto> 2, ''mem_mb'' \<mapsto> 512],
      NodeID = ''node-1'', SSHIP = '''', SSHPort = 0\<rparr>"

definition example_config :: config where
  "example_config =
     \<lparr>cfg_sc = \<lparr>Start =
        \<lparr>TenantUUID = ''tenant-a'', InstanceUUID = ''inst-1'', ImageUUID = ''img-1'',
         DockerImage = '''', sc_FWType = ''efi'', sc_VMType = ''qemu'',
         InstancePersistence = Host,
         RequestedResources = [\<lparr>Type = ''vcpus'', Value = 2\<rparr>,
                               \<lparr>Type = ''mem_mb'', Value = 512\<rparr>],
         Networking = zeroNetworkResources, sc_Storage = zeroStorageResources\<rparr>\<rparr>,
      cfg_config = '''', cfg_cnci = False, cfg_mac = ''02:00:ac:10:00:02'',
      cfg_ip = ''172.16.0.2''\<rparr>"

definition example_instance :: instance_rec where
  "example_instance =
     \<lparr>Instance = example_Instance, inst_newConfig = example_config, startTime = 0\<rparr>"

text \<open>The same instance asking for one virtual CPU more than the tenant has left.\<close>

definition example_instance_over :: instance_rec where
  "example_instance_over =
     example_instance\<lparr>Instance :=
       example_Instance\<lparr>in_Usage := [''vcpus'' \<mapsto> 3, ''mem_mb'' \<mapsto> 512]\<rparr>\<rparr>"

text \<open>A concentrator instance of the same tenant, asking for far more than the quota.\<close>

definition example_cnci_instance :: instance_rec where
  "example_cnci_instance =
     example_instance\<lparr>Instance :=
       example_Instance\<lparr>ID := ''cnci-1'', CNCI := True, IPAddress := '''',
                         MACAddress := ''02:00:ac:10:00:01'',
                         in_Usage := [''vcpus'' \<mapsto> 100, ''network_node'' \<mapsto> 1]\<rparr>\<rparr>"

definition example_store :: datastore where
  "example_store =
     \<lparr>ds_instances = [(''inst-1'', example_Instance)],
      ds_tenants = [(''tenant-a'', example_tenant)],
      ds_cncis = [(''tenant-a'', ''cnci-1'', ''02:00:ac:10:00:01'')],
      ds_reserved = [(''tenant-a'', ''172.16.0.2'')],
      ds_failing = False\<rparr>"

definition failing_store :: datastore where
  "failing_store = example_store\<lparr>ds_failing := True\<rparr>"

text \<open>An address allocator for the examples: it hands out 172.16.0.3 and reserves it.\<close>

definition example_AllocateTenantIP :: "string \<Rightarrow> datastore \<Rightarrow> (error + IP) \<times> datastore" where
  "example_AllocateTenantIP tid d =
     (if ds_failing d then (Inl (StorageError ''AllocateTenantIP''), d)
      else (Inr [172, 16, 0, 3], d\<lparr>ds_reserved := (tid, ''172.16.0.3'') # ds_reserved d\<rparr>))"

definition example_AddBlockDevice :: "BlockData \<Rightarrow> datastore \<Rightarrow> error option \<times> datastore" where
  "example_AddBlockDevice data d = (None, d)"

definition example_CreateBlockDevice ::
  "string \<Rightarrow> int \<Rightarrow> datastore \<Rightarrow> (error + BlockDevice) \<times> datastore" where
  "example_CreateBlockDevice img sz d = (Inr \<lparr>bd_ID = ''vol-1''\<rparr>, d)"

definition example_DeleteBlockDevice :: "string \<Rightarrow> datastore \<Rightarrow> error option \<times> datastore" where
  "example_DeleteBlockDevice vol d = (None, d)"

definition example_controller :: "datastore controller" where
  "example_controller =
     \<lparr>GetTenant = ds_GetTenant, AllocateTenantIP = example_AllocateTenantIP,
      ReleaseTenantIP = ds_ReleaseTenantIP, AddInstance = ds_AddInstance,
      AddTenantCNCI = ds_AddTenantCNCI, AddBlockDevice = example_AddBlockDevice,
      CreateBlockDevice = example_CreateBlockDevice,
      DeleteBlockDevice = example_DeleteBlockDevice\<rparr>"

definition example_uuidGenerate :: "datastore \<Rightarrow> string \<times> datastore" where
  "example_uuidGenerate d = (''67d86208-b46c-4465-9018-e14187d4010'', d)"

definition example_ipString :: "IP \<Rightarrow> string" where
  "example_ipString a = ''172.16.0.3''"

definition example_hwString :: "HardwareAddr \<Rightarrow> string" where
  "example_hwString a = ''02:00:ac:10:00:03''"

definition example_ipNetString :: "IP \<Rightarrow> byte list \<Rightarrow> string" where
  "example_ipNetString a m = ''172.16.0.0/24''"

definition example_yamlMarshal :: "payloads_Start \<Rightarrow> error + string" where
  "example_yamlMarshal c = Inr ''start: {}''"

definition example_jsonMarshalIndent :: "UserData \<Rightarrow> error + string" where
  "example_jsonMarshalIndent u = Inr (''{uuid: '' @ UUID u @ '', hostname: '' @ Hostname u @ ''}'')"

definition example_timeNow :: "datastore \<Rightarrow> nat" where
  "example_timeNow d = 0"

definition example_lib :: "datastore lib" where
  "example_lib =
     \<lparr>uuidGenerate = example_uuidGenerate, ipString = example_ipString,
      hwString = example_hwString, ipNetString = example_ipNetString,
      yamlMarshal = example_yamlMarshal, jsonMarshalIndent = example_jsonMarshalIndent,
      timeNow = example_timeNow\<rparr>"

definition example_cnci_workload :: Workload where
  "example_cnci_workload =
     \<lparr>wl_ID = ''wl-cnci'', Config = '''',
      Defaults = [\<lparr>Type = ''vcpus'', Value = 4\<rparr>, \<lparr>Type = NetworkNode, Value = 1\<rparr>],
      ImageID = ''img-cnci'', FWType = ''efi'', VMType = ''qemu'', ImageName = '''',
      Storage = None\<rparr>"

text \<open>
  A test client as \<open>NewSsntpTestClientConnection\<close> leaves it, a library whose YAML
  decoder takes the payload for the instance UUID, and a result.
\<close>

definition zeroStartCmd :: StartCmd where
  "zeroStartCmd =
     \<lparr>TenantUUID = '''', InstanceUUID = '''', ImageUUID = '''', DockerImage = '''',
      sc_FWType = '''', sc_VMType = '''', InstancePersistence = '''',
      RequestedResources = [], Networking = zeroNetworkResources,
      sc_Storage = zeroStorageResources\<rparr>"

definition example_yamlUnmarshalStart :: "string \<Rightarrow> error + payloads_Start" where
  "example_yamlUnmarshalStart p =
     (if p = '''' then Inl (YamlError ''empty document'')
      else Inr \<lparr>Start = zeroStartCmd\<lparr>TenantUUID := ''tenant-a'', InstanceUUID := p\<rparr>\<rparr>)"

definition example_yamlMarshalStartFailure :: "ErrorStartFailure \<Rightarrow> error + string" where
  "example_yamlMarshalStartFailure e =
     Inr (''instance_uuid: '' @ sf_InstanceUUID e @ '', reason: '' @ Reason e)"

definition example_IsNetAgent :: "Role \<Rightarrow> bool" where
  "example_IsNetAgent r = False"

definition example_roleString :: "Role \<Rightarrow> string" where
  "example_roleString r = ''AGENT''"

definition example_reasonString :: "string \<Rightarrow> string" where
  "example_reasonString r = r"

definition example_testlib :: testlib where
  "example_testlib =
     \<lparr>yamlUnmarshalStart = example_yamlUnmarshalStart,
      yamlMarshalStartFailure = example_yamlMarshalStartFailure,
      IsNetAgent = example_IsNetAgent, roleString = example_roleString,
      reasonString = example_reasonString\<rparr>"

definition example_client :: SsntpTestClient where
  "example_client =
     zeroClient\<lparr>Ssntp := \<lparr>connected = True, sent = []\<rparr>, Name := ''Test AGENT one'',
                cl_UUID := ''node-1'', Role := 4\<rparr>"

definition example_result :: Result where
  "example_result = zeroResult\<lparr>r_InstanceUUID := ''inst-1'', NodeUUID := ''node-1''\<rparr>"

definition example_result2 :: Result where
  "example_result2 = zeroResult\<lparr>r_InstanceUUID := ''inst-2'', NodeUUID := ''node-1''\<rparr>"

text \<open>
  The example client after a caller registered for START, got channel 0, and left its
  wait after five seconds; and the state in which a resolution of START then blocks.
\<close>

definition example_abandoned :: SsntpTestClient where
  "example_abandoned =
     example_client\<lparr>CmdChans := [(START, 0)], next_chan := 1, given_up := {0}\<rparr>"

definition example_blocked :: SsntpTestClient where
  "example_blocked = example_client\<lparr>CmdChans := [], next_chan := 1, given_up := {0}\<rparr>"



text \<open>
  A compute API over the store: tenant \<open>T\<close> holds the token \<open>token-T\<close>, the lifecycle
  operations set the state of the persisted record or remove it. The second store also
  holds an instance of tenant-b. The requests come from tenant-b and name instance
  \<open>inst-1\<close>, which belongs to tenant-a.
\<close>

definition set_state :: "string \<Rightarrow> string \<Rightarrow> datastore \<Rightarrow> datastore" where
  "set_state iid st d =
     d\<lparr>ds_instances :=
         map (\<lambda>(k, i). if k = iid then (k, i\<lparr>State := st\<rparr>) else (k, i)) (ds_instances d)\<rparr>"

definition example_validateService :: "string \<Rightarrow> string \<Rightarrow> string \<Rightarrow> string \<Rightarrow> bool" where
  "example_validateService token tenant serviceType serviceName =
     (token = ''token-'' @ tenant \<and> serviceType = ''compute'' \<and> serviceName = ''ciao'')"

definition example_validateProjectRole :: "string \<Rightarrow> string \<Rightarrow> string \<Rightarrow> bool" where
  "example_validateProjectRole token project role =
     (token = ''token-admin'' \<and> project = ''admin'' \<and> role = ''admin'')"

definition example_GetWorkload :: "string \<Rightarrow> datastore \<Rightarrow> error + Workload" where
  "example_GetWorkload wid d =
     (if wid = ''wl-cnci'' then Inr example_cnci_workload
      else Inl (StorageError ''workload not found''))"

definition example_GetAllInstancesFromTenant ::
  "string \<Rightarrow> datastore \<Rightarrow> error + Instance list" where
  "example_GetAllInstancesFromTenant tenant d =
     Inr (filter (\<lambda>i. TenantID i = tenant) (map snd (ds_instances d)))"

definition example_restartInstance :: "string \<Rightarrow> datastore \<Rightarrow> error option \<times> datastore" where
  "example_restartInstance iid d = (None, set_state iid ''active'' d)"

definition example_stopInstance :: "string \<Rightarrow> datastore \<Rightarrow> error option \<times> datastore" where
  "example_stopInstance iid d = (None, set_state iid ''exited'' d)"

definition example_deleteInstance :: "string \<Rightarrow> datastore \<Rightarrow> error option \<times> datastore" where
  "example_deleteInstance iid d =
     (None, d\<lparr>ds_instances := AList.delete iid (ds_instances d)\<rparr>)"

definition example_jsonMarshalServer :: "Server \<Rightarrow> error + string" where
  "example_jsonMarshalServer sv = Inr (''{id: '' @ sv_ID sv @ ''}'')"

definition example_jsonUnmarshalServersAction :: "string \<Rightarrow> error + CiaoServersAction" where
  "example_jsonUnmarshalServersAction b =
     (if b = ''stop 9 1''
      then Inr \<lparr>Action = ''os-stop'', ServerIDs = [''inst-9'', ''inst-1'']\<rparr>
      else if b = ''stop 0 1''
      then Inr \<lparr>Action = ''os-stop'', ServerIDs = [''inst-0'', ''inst-1'']\<rparr>
      else if b = ''reboot 1''
      then Inr \<lparr>Action = ''os-reboot'', ServerIDs = [''inst-1'']\<rparr>
      else Inl (JsonError ''unexpected end of JSON input''))"

definition example_api :: "datastore api" where
  "example_api =
     \<lparr>validateService = example_validateService,
      validateProjectRole = example_validateProjectRole,
      GetInstance = ds_GetInstance, GetWorkload = example_GetWorkload,
      GetAllInstancesFromTenant = example_GetAllInstancesFromTenant,
      restartInstance = example_restartInstance, stopInstance = example_stopInstance,
      deleteInstance = example_deleteInstance,
      jsonMarshalServer = example_jsonMarshalServer,
      jsonUnmarshalServersAction = example_jsonUnmarshalServersAction\<rparr>"

definition example_Instance9 :: Instance where
  "example_Instance9 =
     example_Instance\<lparr>TenantID := ''tenant-b'', ID := ''inst-9'', State := ''active'',
                      IPAddress := ''172.16.1.2'', MACAddress := ''02:00:ac:10:01:02''\<rparr>"

definition example_store2 :: datastore where
  "example_store2 =
     example_store\<lparr>ds_instances := [(''inst-1'', example_Instance),
                                     (''inst-9'', example_Instance9)]\<rparr>"

definition example_request :: Request where
  "example_request =
     \<lparr>tenant_var = ''tenant-b'', server_var = ''inst-1'',
      X_Auth_Token = Some ''token-tenant-b'', Body = Inr ''stop 9 1''\<rparr>"

definition example_request_no_token :: Request where
  "example_request_no_token = example_request\<lparr>X_Auth_Token := None\<rparr>"

definition example_request_unknown_first :: Request where
  "example_request_unknown_first = example_request\<lparr>Body := Inr ''stop 0 1''\<rparr>"

definition example_request_reboot :: Request where
  "example_request_reboot = example_request\<lparr>Body := Inr ''reboot 1''\<rparr>"

section \<open>Properties of the network identity\<close>

lemma To4_length: "To4 ip = Some v \<Longrightarrow> length v = 4"
  by (auto simp: To4_def split: if_splits)

lemma newTenantHardwareAddr_v4:
  assumes "To4 ip = Some v"
  shows "newTenantHardwareAddr ip = [2, 0] @ v"
proof -
  have len: "length v = 4" using assms by (rule To4_length)
  have r: "replicate 6 (0 :: byte) = [0, 0, 0, 0, 0, 0]"
    by (simp add: numeral_eq_Suc)
  show ?thesis
    using len by (simp add: newTenantHardwareAddr_def assms r copy_def nilable_def)
qed

lemma newTenantHardwareAddr_nil:
  assumes "To4 ip = None"
  shows "newTenantHardwareAddr ip = [2, 0, 0, 0, 0, 0]"
proof -
  have r: "replicate 6 (0 :: byte) = [0, 0, 0, 0, 0, 0]"
    by (simp add: numeral_eq_Suc)
  show ?thesis
    by (simp add: newTenantHardwareAddr_def assms r copy_def nilable_def)
qed

text \<open>
  Claim C10. The tenant MAC address is a function of the IPv4 form of the instance's IP
  alone: for an address with IPv4 form \<open>v\<close> (four bytes) the result is the six bytes
  \<open>02 00\<close> followed by \<open>v\<close>; two addresses whose IPv4 forms differ get different MACs;
  an address with no IPv4 form gets \<open>02:00:00:00:00:00\<close>.
\<close>

theorem newTenantHardwareAddr_spec:
  "(To4 ip = Some v \<longrightarrow>
      length (newTenantHardwareAddr ip) = 6 \<and>
      newTenantHardwareAddr ip ! 0 = 0x02 \<and>
      newTenantHardwareAddr ip ! 1 = 0x00 \<and>
      drop 2 (newTenantHardwareAddr ip) = v) \<and>
   (To4 ip = Some v \<and> To4 ip' = Some v' \<and> v \<noteq> v' \<longrightarrow>
      newTenantHardwareAddr ip \<noteq> newTenantHardwareAddr ip') \<and>
   (To4 ip = None \<longrightarrow> newTenantHardwareAddr ip = [0x02, 0, 0, 0, 0, 0])"
proof (intro conjI impI)
  assume v: "To4 ip = Some v"
  have mac: "newTenantHardwareAddr ip = [2, 0] @ v"
    using v by (rule newTenantHardwareAddr_v4)
  show "length (newTenantHardwareAddr ip) = 6"
    using To4_length [OF v] by (simp add: mac)
  show "newTenantHardwareAddr ip ! 0 = 0x02" by (simp add: mac)
  show "newTenantHardwareAddr ip ! 1 = 0x00" by (simp add: mac)
  show "drop 2 (newTenantHardwareAddr ip) = v" by (simp add: mac)
next
  assume h: "To4 ip = Some v \<and> To4 ip' = Some v' \<and> v \<noteq> v'"
  then have "newTenantHardwareAddr ip = [2, 0] @ v"
    and "newTenantHardwareAddr ip' = [2, 0] @ v'"
    by (simp_all add: newTenantHardwareAddr_v4)
  with h show "newTenantHardwareAddr ip \<noteq> newTenantHardwareAddr ip'" by simp
next
  assume "To4 ip = None"
  then show "newTenantHardwareAddr ip = [0x02, 0, 0, 0, 0, 0]"
    by (rule newTenantHardwareAddr_nil)
qed

lemma To4_example_v4: "To4 [172, 16, 0, 2] = Some [172, 16, 0, 2]"
  by (simp add: To4_def)

lemma To4_example_mapped:
  "To4 [0, 0, 0, 0, 0, 0, 0, 0, 0, 0, 0xff, 0xff, 172, 16, 0, 3] = Some [172, 16, 0, 3]"
  by (simp add: To4_def isZeros_def)

lemma To4_example_v6:
  "To4 [0x20, 1, 0xd, 0xb8, 0, 0, 0, 0, 0, 0, 0, 0, 0, 0, 0, 1] = None"
  by (simp add: To4_def isZeros_def)

theorem newTenantHardwareAddr_spec_witness:
  "length (newTenantHardwareAddr [172, 16, 0, 2]) = 6 \<and>
   newTenantHardwareAddr [172, 16, 0, 2] ! 0 = 0x02 \<and>
   newTenantHardwareAddr [172, 16, 0, 2] ! 1 = 0x00 \<and>
   drop 2 (newTenantHardwareAddr [172, 16, 0, 2]) = [172, 16, 0, 2] \<and>
   newTenantHardwareAddr [172, 16, 0, 2] \<noteq>
     newTenantHardwareAddr [0, 0, 0, 0, 0, 0, 0, 0, 0, 0, 0xff, 0xff, 172, 16, 0, 3] \<and>
   newTenantHardwareAddr [0x20, 1, 0xd, 0xb8, 0, 0, 0, 0, 0, 0, 0, 0, 0, 0, 0, 1] =
     [0x02, 0, 0, 0, 0, 0]"
proof -
  have a: "drop 2 (newTenantHardwareAddr [172, 16, 0, 2]) = [172, 16, 0, 2]"
    and b: "length (newTenantHardwareAddr [172, 16, 0, 2]) = 6"
    and c: "newTenantHardwareAddr [172, 16, 0, 2] ! 0 = 2"
    and d: "newTenantHardwareAddr [172, 16, 0, 2] ! 1 = 0"
    using newTenantHardwareAddr_spec [of "[172, 16, 0, 2]" "[172, 16, 0, 2]"]
      To4_example_v4 by simp_all
  have e: "newTenantHardwareAddr [172, 16, 0, 2] \<noteq>
     newTenantHardwareAddr [0, 0, 0, 0, 0, 0, 0, 0, 0, 0, 0xff, 0xff, 172, 16, 0, 3]"
    using newTenantHardwareAddr_spec [of "[172, 16, 0, 2]" "[172, 16, 0, 2]"
        "[0, 0, 0, 0, 0, 0, 0, 0, 0, 0, 0xff, 0xff, 172, 16, 0, 3]" "[172, 16, 0, 3]"]
      To4_example_v4 To4_example_mapped by simp
  have f: "newTenantHardwareAddr [0x20, 1, 0xd, 0xb8, 0, 0, 0, 0, 0, 0, 0, 0, 0, 0, 0, 1] =
     [0x02, 0, 0, 0, 0, 0]"
    using newTenantHardwareAddr_spec
      [of "[0x20, 1, 0xd, 0xb8, 0, 0, 0, 0, 0, 0, 0, 0, 0, 0, 0, 1]" "[]"]
      To4_example_v6 by simp
  from a b c d e f show ?thesis by blast
qed

section \<open>Admission\<close>

lemma resourcesAllowed_iff:
  "resourcesAllowed usage rs =
     (\<forall>res \<in> set rs.
        if Rtype res = 1 then Usage res + 1 \<le> Limit res
        else lookup0 usage (Rname res) \<le> Limit res - Usage res)"
  by (induction rs) (auto simp: OverLimit_def)

lemma Allowed_tenant:
  assumes "\<not> CNCI (Instance i)"
    and "GetTenant context (TenantID (Instance i)) s = (Inr (Some tenant), s')"
  shows "Allowed context i s =
           (Inr (resourcesAllowed (in_Usage (Instance i)) (Resources tenant)), s')"
  using assms by (simp add: Allowed_def)

text \<open>
  Without a tenant there is no decision: a failed \<open>GetTenant\<close> is returned as the
  error of \<open>Allowed\<close>, and a nil tenant makes it panic.
\<close>

lemma Allowed_no_tenant:
  assumes "\<not> CNCI (Instance i)"
  shows "GetTenant context (TenantID (Instance i)) s = (Inl err, s') \<Longrightarrow>
           Allowed context i s = (Inl err, s')"
    and "GetTenant context (TenantID (Instance i)) s = (Inr None, s') \<Longrightarrow>
           Allowed context i s = (Inl NilDereference, s')"
  using assms by (simp_all add: Allowed_def)

text \<open>
  Claim C1. For an instance that is not a CNCI and whose tenant the datastore returns,
  \<open>Allowed\<close> answers without an error, and it answers \<open>true\<close> exactly when every
  resource of the tenant is within its limit: the resource of type 1 (the instance
  count) with one more instance, \<open>usage + 1 \<le> limit\<close>, every other resource with the
  quantity the instance asks for, \<open>requested \<le> limit - usage\<close>. A request equal to
  what is left of every quota is admitted; a request one unit above what is left of
  some quota is denied.
\<close>

theorem Allowed_quota:
  assumes "\<not> CNCI (Instance i)"
    and "GetTenant context (TenantID (Instance i)) s = (Inr (Some tenant), s')"
  shows
    "(\<exists>ok. Allowed context i s = (Inr ok, s')) \<and>
     ((fst (Allowed context i s) = Inr True) =
        (\<forall>res \<in> set (Resources tenant).
           if Rtype res = 1 then Usage res + 1 \<le> Limit res
           else lookup0 (in_Usage (Instance i)) (Rname res) \<le> Limit res - Usage res)) \<and>
     ((\<forall>res \<in> set (Resources tenant).
           if Rtype res = 1 then Usage res + 1 \<le> Limit res
           else lookup0 (in_Usage (Instance i)) (Rname res) = Limit res - Usage res)
        \<longrightarrow> fst (Allowed context i s) = Inr True) \<and>
     ((\<exists>res \<in> set (Resources tenant).
           Rtype res \<noteq> 1 \<and>
           lookup0 (in_Usage (Instance i)) (Rname res) = Limit res - Usage res + 1)
        \<longrightarrow> fst (Allowed context i s) = Inr False)"
proof -
  let ?within = "\<lambda>res. if Rtype res = 1 then Usage res + 1 \<le> Limit res
        else lookup0 (in_Usage (Instance i)) (Rname res) \<le> Limit res - Usage res"
  have run: "Allowed context i s =
      (Inr (resourcesAllowed (in_Usage (Instance i)) (Resources tenant)), s')"
    using assms by (rule Allowed_tenant)
  have dec: "resourcesAllowed (in_Usage (Instance i)) (Resources tenant) =
      (\<forall>res \<in> set (Resources tenant). ?within res)"
    by (rule resourcesAllowed_iff)
  have c1: "\<exists>ok. Allowed context i s = (Inr ok, s')"
    using run by simp
  have c2: "(fst (Allowed context i s) = Inr True) =
      (\<forall>res \<in> set (Resources tenant). ?within res)"
    using run dec by simp
  have c3: "(\<forall>res \<in> set (Resources tenant).
           if Rtype res = 1 then Usage res + 1 \<le> Limit res
           else lookup0 (in_Usage (Instance i)) (Rname res) = Limit res - Usage res)
        \<longrightarrow> fst (Allowed context i s) = Inr True"
  proof
    assume eq: "\<forall>res \<in> set (Resources tenant).
           if Rtype res = 1 then Usage res + 1 \<le> Limit res
           else lookup0 (in_Usage (Instance i)) (Rname res) = Limit res - Usage res"
    have "\<forall>res \<in> set (Resources tenant). ?within res"
    proof
      fix res assume "res \<in> set (Resources tenant)"
      with eq show "?within res" by (cases "Rtype res = 1") auto
    qed
    with c2 show "fst (Allowed context i s) = Inr True" by simp
  qed
  have c4: "(\<exists>res \<in> set (Resources tenant).
           Rtype res \<noteq> 1 \<and>
           lookup0 (in_Usage (Instance i)) (Rname res) = Limit res - Usage res + 1)
        \<longrightarrow> fst (Allowed context i s) = Inr False"
  proof
    assume "\<exists>res \<in> set (Resources tenant).
           Rtype res \<noteq> 1 \<and>
           lookup0 (in_Usage (Instance i)) (Rname res) = Limit res - Usage res + 1"
    then obtain res where r: "res \<in> set (Resources tenant)" "Rtype res \<noteq> 1"
      "lookup0 (in_Usage (Instance i)) (Rname res) = Limit res - Usage res + 1"
      by blast
    then have "\<not> ?within res" by simp
    with r(1) have "\<not> (\<forall>res \<in> set (Resources tenant). ?within res)" by blast
    then have "\<not> resourcesAllowed (in_Usage (Instance i)) (Resources tenant)"
      using dec by simp
    then show "fst (Allowed context i s) = Inr False"
      using run by simp
  qed
  from c1 c2 c3 c4 show ?thesis by blast
qed

lemma example_GetTenant:
  "GetTenant example_controller ''tenant-a'' example_store =
     (Inr (Some example_tenant), example_store)"
  by (simp add: example_controller_def ds_GetTenant_def example_store_def)

lemma example_instance_fields:
  "\<not> CNCI (Instance example_instance)"
  "TenantID (Instance example_instance) = ''tenant-a''"
  "\<not> CNCI (Instance example_instance_over)"
  "TenantID (Instance example_instance_over) = ''tenant-a''"
  by (simp_all add: example_instance_def example_instance_over_def example_Instance_def)

text \<open>
  The example tenant has 2 of 8 virtual CPUs and 512 of 1024 MB left and runs 1 of 2
  instances: asking for exactly 2 CPUs and 512 MB is admitted, asking for 3 CPUs is
  denied.
\<close>

theorem Allowed_quota_witness:
  "fst (Allowed example_controller example_instance example_store) = Inr True \<and>
   fst (Allowed example_controller example_instance_over example_store) = Inr False"
proof -
  have a: "fst (Allowed example_controller example_instance example_store) = Inr True"
    using Allowed_quota [of example_instance example_controller example_store
        example_tenant example_store]
      example_GetTenant example_instance_fields
    by (simp add: example_tenant_def example_instance_def example_Instance_def lookup0_def)
  have b: "fst (Allowed example_controller example_instance_over example_store) = Inr False"
    using Allowed_quota [of example_instance_over example_controller example_store
        example_tenant example_store]
      example_GetTenant example_instance_fields
    by (simp add: example_tenant_def example_instance_over_def example_instance_def
        example_Instance_def lookup0_def)
  from a b show ?thesis by simp
qed

section \<open>Persisting an instance\<close>

lemma Add_returns_nil: "fst (Add context i s) = None"
  by (simp add: Add_def)

text \<open>
  Claim C3. The claim asks \<open>Add\<close> to return an error when the datastore call under it
  fails. The code drops the result of \<open>AddInstance\<close> and of \<open>AddTenantCNCI\<close> and
  returns nil: on a failing store, where \<open>AddInstance\<close> and \<open>AddTenantCNCI\<close> return a
  StorageError and persist nothing, \<open>Add\<close> returns nil for a regular instance and for
  a CNCI.
\<close>

theorem Add_drops_StorageError:
  "fst (AddInstance example_controller (Instance example_instance) failing_store) =
     Some (StorageError ''AddInstance'') \<and>
   Add example_controller example_instance failing_store = (None, failing_store) \<and>
   fst (AddTenantCNCI example_controller ''tenant-a'' ''cnci-1'' ''02:00:ac:10:00:01''
          failing_store) = Some (StorageError ''AddTenantCNCI'') \<and>
   Add example_controller example_cnci_instance failing_store = (None, failing_store)"
  by (simp add: Add_def example_controller_def ds_AddInstance_def ds_AddTenantCNCI_def
      failing_store_def example_instance_def example_cnci_instance_def
      example_Instance_def)

section \<open>Concentrator instances\<close>

lemma newConfig_cnci:
  assumes wl: "isCNCIWorkload wl"
    and gt: "GetTenant context tenantID s = (Inr (Some t), s1)"
    and uu: "uuidGenerate l s1 = (u, s2)"
  shows "newConfig l context wl instanceID tenantID s =
     (case jsonMarshalIndent l \<lparr>UUID = instanceID, Hostname = ''cnci-'' @ tenantID\<rparr> of
        Inl err \<Rightarrow> (Inl err, s2)
      | Inr b \<Rightarrow>
          (Inr \<lparr>cfg_sc = \<lparr>Start =
                  \<lparr>TenantUUID = tenantID, InstanceUUID = instanceID, ImageUUID = ImageID wl,
                   DockerImage = (if VMType wl = Docker then ImageName wl else ''''),
                   sc_FWType = FWType wl, sc_VMType = VMType wl,
                   InstancePersistence = Host, RequestedResources = Defaults wl,
                   Networking = zeroNetworkResources\<lparr>VnicUUID := u, VnicMAC := CNCIMAC t\<rparr>,
                   sc_Storage = zeroStorageResources\<rparr>\<rparr>,
                cfg_config = ''---'' @ newline @
                  (case yamlMarshal l \<lparr>Start =
                  \<lparr>TenantUUID = tenantID, InstanceUUID = instanceID, ImageUUID = ImageID wl,
                   DockerImage = (if VMType wl = Docker then ImageName wl else ''''),
                   sc_FWType = FWType wl, sc_VMType = VMType wl,
                   InstancePersistence = Host, RequestedResources = Defaults wl,
                   Networking = zeroNetworkResources\<lparr>VnicUUID := u, VnicMAC := CNCIMAC t\<rparr>,
                   sc_Storage = zeroStorageResources\<rparr>\<rparr> of Inl err \<Rightarrow> '''' | Inr y \<Rightarrow> y)
                  @ ''...'' @ newline @ Config wl @ ''---'' @ newline @ b @ newline
                  @ ''...'' @ newline,
                cfg_cnci = True, cfg_mac = CNCIMAC t, cfg_ip = ''''\<rparr>, s2))"
  using wl by (simp add: newConfig_def gt uu Let_def zeroNetworkResources_def
      split: sum.splits)

lemma newConfig_cnci_result:
  assumes wl: "isCNCIWorkload wl"
    and gt: "GetTenant context tenantID s = (Inr (Some t), s1)"
    and uu: "uuidGenerate l s1 = (u, s2)"
  shows "snd (newConfig l context wl instanceID tenantID s) = s2"
    and "newConfig l context wl instanceID tenantID s = (Inr c, s') \<Longrightarrow>
           cfg_cnci c \<and> cfg_ip c = '''' \<and> cfg_mac c = CNCIMAC t \<and>
           VnicMAC (Networking (Start (cfg_sc c))) = CNCIMAC t \<and>
           PrivateIP (Networking (Start (cfg_sc c))) = ''''"
    and "(\<exists>c. fst (newConfig l context wl instanceID tenantID s) = Inr c) =
           (\<exists>b. jsonMarshalIndent l \<lparr>UUID = instanceID, Hostname = ''cnci-'' @ tenantID\<rparr>
                  = Inr b)"
  unfolding newConfig_cnci [OF wl gt uu]
  by (auto simp: zeroNetworkResources_def split: sum.splits)

lemma newConfig_cnci_no_allocation:
  assumes wl: "isCNCIWorkload wl"
  shows "newConfig l (context\<lparr>AllocateTenantIP := alloc\<rparr>) wl instanceID tenantID s =
         newConfig l context wl instanceID tenantID s"
  using wl by (simp add: newConfig_def)

text \<open>
  Claim C4. A CNCI instance bypasses the per-tenant machinery. \<open>Allowed\<close> returns
  \<open>true\<close> with the state untouched, whatever the context is, so no quota is read.
  \<open>Clean\<close> returns with the state untouched, so no address is released. For a CNCI
  workload whose tenant the datastore returns, \<open>newConfig\<close> leaves the state that
  \<open>GetTenant\<close> and the UUID generator left, it is the same function whatever
  \<open>AllocateTenantIP\<close> is, it returns a configuration exactly when
  \<open>json.MarshalIndent\<close> succeeds, and that configuration is marked CNCI, has no IP, and
  has the tenant's concentrator MAC as its MAC and as the MAC of its network interface.
\<close>

theorem cnci_bypass:
  "(CNCI (Instance i) \<longrightarrow>
      Allowed context i s = (Inr True, s) \<and> Clean context i s = (None, s)) \<and>
   (isCNCIWorkload wl \<and> GetTenant context tenantID s = (Inr (Some t), s1) \<and>
    uuidGenerate l s1 = (u, s2) \<longrightarrow>
      snd (newConfig l context wl instanceID tenantID s) = s2 \<and>
      newConfig l (context\<lparr>AllocateTenantIP := alloc\<rparr>) wl instanceID tenantID s =
        newConfig l context wl instanceID tenantID s \<and>
      ((\<exists>c. fst (newConfig l context wl instanceID tenantID s) = Inr c) =
         (\<exists>b. jsonMarshalIndent l \<lparr>UUID = instanceID, Hostname = ''cnci-'' @ tenantID\<rparr>
                = Inr b)) \<and>
      (\<forall>c. fst (newConfig l context wl instanceID tenantID s) = Inr c \<longrightarrow>
         cfg_cnci c \<and> cfg_ip c = '''' \<and> cfg_mac c = CNCIMAC t \<and>
         VnicMAC (Networking (Start (cfg_sc c))) = CNCIMAC t \<and>
         PrivateIP (Networking (Start (cfg_sc c))) = ''''))"
proof -
  have A: "CNCI (Instance i) \<longrightarrow>
      Allowed context i s = (Inr True, s) \<and> Clean context i s = (None, s)"
    by (simp add: Allowed_def Clean_def)
  have B: "isCNCIWorkload wl \<and> GetTenant context tenantID s = (Inr (Some t), s1) \<and>
    uuidGenerate l s1 = (u, s2) \<longrightarrow>
      snd (newConfig l context wl instanceID tenantID s) = s2 \<and>
      newConfig l (context\<lparr>AllocateTenantIP := alloc\<rparr>) wl instanceID tenantID s =
        newConfig l context wl instanceID tenantID s \<and>
      ((\<exists>c. fst (newConfig l context wl instanceID tenantID s) = Inr c) =
         (\<exists>b. jsonMarshalIndent l \<lparr>UUID = instanceID, Hostname = ''cnci-'' @ tenantID\<rparr>
                = Inr b)) \<and>
      (\<forall>c. fst (newConfig l context wl instanceID tenantID s) = Inr c \<longrightarrow>
         cfg_cnci c \<and> cfg_ip c = '''' \<and> cfg_mac c = CNCIMAC t \<and>
         VnicMAC (Networking (Start (cfg_sc c))) = CNCIMAC t \<and>
         PrivateIP (Networking (Start (cfg_sc c))) = '''')"
  proof
    assume h: "isCNCIWorkload wl \<and> GetTenant context tenantID s = (Inr (Some t), s1) \<and>
      uuidGenerate l s1 = (u, s2)"
    then have h1: "isCNCIWorkload wl"
      and h2: "GetTenant context tenantID s = (Inr (Some t), s1)"
      and h3: "uuidGenerate l s1 = (u, s2)"
      by simp_all
    have b1: "snd (newConfig l context wl instanceID tenantID s) = s2"
      by (rule newConfig_cnci_result(1) [OF h1 h2 h3])
    have b2: "newConfig l (context\<lparr>AllocateTenantIP := alloc\<rparr>) wl instanceID tenantID s =
        newConfig l context wl instanceID tenantID s"
      by (rule newConfig_cnci_no_allocation [OF h1])
    have b3: "(\<exists>c. fst (newConfig l context wl instanceID tenantID s) = Inr c) =
         (\<exists>b. jsonMarshalIndent l \<lparr>UUID = instanceID, Hostname = ''cnci-'' @ tenantID\<rparr>
                = Inr b)"
      by (rule newConfig_cnci_result(3) [OF h1 h2 h3])
    have b4: "\<forall>c. fst (newConfig l context wl instanceID tenantID s) = Inr c \<longrightarrow>
         cfg_cnci c \<and> cfg_ip c = '''' \<and> cfg_mac c = CNCIMAC t \<and>
         VnicMAC (Networking (Start (cfg_sc c))) = CNCIMAC t \<and>
         PrivateIP (Networking (Start (cfg_sc c))) = ''''"
    proof (intro allI impI)
      fix c
      assume r: "fst (newConfig l context wl instanceID tenantID s) = Inr c"
      then have "newConfig l context wl instanceID tenantID s =
          (Inr c, snd (newConfig l context wl instanceID tenantID s))"
        by (simp add: prod_eq_iff)
      then show "cfg_cnci c \<and> cfg_ip c = '''' \<and> cfg_mac c = CNCIMAC t \<and>
         VnicMAC (Networking (Start (cfg_sc c))) = CNCIMAC t \<and>
         PrivateIP (Networking (Start (cfg_sc c))) = ''''"
        by (rule newConfig_cnci_result(2) [OF h1 h2 h3])
    qed
    from b1 b2 b3 b4
    show "snd (newConfig l context wl instanceID tenantID s) = s2 \<and>
      newConfig l (context\<lparr>AllocateTenantIP := alloc\<rparr>) wl instanceID tenantID s =
        newConfig l context wl instanceID tenantID s \<and>
      ((\<exists>c. fst (newConfig l context wl instanceID tenantID s) = Inr c) =
         (\<exists>b. jsonMarshalIndent l \<lparr>UUID = instanceID, Hostname = ''cnci-'' @ tenantID\<rparr>
                = Inr b)) \<and>
      (\<forall>c. fst (newConfig l context wl instanceID tenantID s) = Inr c \<longrightarrow>
         cfg_cnci c \<and> cfg_ip c = '''' \<and> cfg_mac c = CNCIMAC t \<and>
         VnicMAC (Networking (Start (cfg_sc c))) = CNCIMAC t \<and>
         PrivateIP (Networking (Start (cfg_sc c))) = '''')"
      by (intro conjI)
  qed
  from A B show ?thesis by (rule conjI)
qed

text \<open>
  The example concentrator instance asks for 100 virtual CPUs of a tenant that has 2
  left and is admitted; its cleanup leaves the reserved addresses as they are; the
  configuration of a CNCI workload carries the tenant's concentrator MAC and reserves
  nothing.
\<close>

lemma example_cnci_facts:
  "CNCI (Instance example_cnci_instance)"
  "isCNCIWorkload example_cnci_workload"
  "uuidGenerate example_lib example_store =
     (''67d86208-b46c-4465-9018-e14187d4010'', example_store)"
  by (simp_all add: example_cnci_instance_def example_Instance_def example_cnci_workload_def
      isCNCIWorkload_def example_lib_def example_uuidGenerate_def)

theorem cnci_bypass_witness:
  "Allowed example_controller example_cnci_instance example_store = (Inr True, example_store) \<and>
   Clean example_controller example_cnci_instance example_store = (None, example_store) \<and>
   snd (newConfig example_lib example_controller example_cnci_workload ''cnci-2'' ''tenant-a''
          example_store) = example_store \<and>
   (\<exists>c. fst (newConfig example_lib example_controller example_cnci_workload ''cnci-2''
              ''tenant-a'' example_store) = Inr c \<and>
        cfg_cnci c \<and> cfg_ip c = '''' \<and> cfg_mac c = ''02:00:ac:10:00:01'')"
proof -
  note w = cnci_bypass [of example_cnci_instance example_controller example_store
      example_cnci_workload "''tenant-a''" example_tenant example_store example_lib
      "''67d86208-b46c-4465-9018-e14187d4010''" example_store "''cnci-2''"
      example_AllocateTenantIP]
  have json: "\<exists>b. jsonMarshalIndent example_lib
      \<lparr>UUID = ''cnci-2'', Hostname = ''cnci-'' @ ''tenant-a''\<rparr> = Inr b"
    by (simp add: example_lib_def example_jsonMarshalIndent_def)
  have a: "Allowed example_controller example_cnci_instance example_store =
      (Inr True, example_store)"
    and b: "Clean example_controller example_cnci_instance example_store =
      (None, example_store)"
    using w example_cnci_facts(1) by simp_all
  have c: "snd (newConfig example_lib example_controller example_cnci_workload ''cnci-2''
      ''tenant-a'' example_store) = example_store"
    using w example_cnci_facts example_GetTenant by simp
  have "\<exists>c. fst (newConfig example_lib example_controller example_cnci_workload ''cnci-2''
              ''tenant-a'' example_store) = Inr c"
    using w example_cnci_facts example_GetTenant json by simp
  then obtain cf where cf: "fst (newConfig example_lib example_controller
      example_cnci_workload ''cnci-2'' ''tenant-a'' example_store) = Inr cf"
    by blast
  have "cfg_cnci cf \<and> cfg_ip cf = '''' \<and> cfg_mac cf = CNCIMAC example_tenant"
    using w example_cnci_facts example_GetTenant cf by simp
  then have d: "cfg_cnci cf \<and> cfg_ip cf = '''' \<and> cfg_mac cf = ''02:00:ac:10:00:01''"
    by (simp add: example_tenant_def)
  from a b c cf d show ?thesis by blast
qed

section \<open>Rolling back an allocation\<close>

lemma Clean_regular:
  "\<not> CNCI (Instance i) \<Longrightarrow>
     Clean context i s =
       (None, snd (ReleaseTenantIP context (TenantID (Instance i)) (IPAddress (Instance i)) s))"
  by (simp add: Clean_def)

lemma ds_ReleaseTenantIP_ok:
  "\<not> ds_failing d \<Longrightarrow>
     ds_ReleaseTenantIP tid addr d =
       (None, d\<lparr>ds_reserved := removeAll (tid, addr) (ds_reserved d)\<rparr>)"
  by (simp add: ds_ReleaseTenantIP_def)

text \<open>
  Claim C5, as stated, fails on the code: \<open>Clean\<close> releases the address and removes
  nothing else. The example store holds the record of instance \<open>inst-1\<close>; after
  \<open>Clean\<close> of that instance the record is still persisted.
\<close>

theorem Clean_keeps_record:
  "instancePersisted
     (snd (Clean example_controller example_instance example_store)) ''inst-1''"
  by (simp add: Clean_def example_controller_def ds_ReleaseTenantIP_def example_store_def
      example_instance_def example_Instance_def instancePersisted_def)

text \<open>
  Claim C5, amended. For an instance that is not a CNCI, \<open>Clean\<close> makes one datastore
  call, \<open>ReleaseTenantIP\<close> with the instance's tenant and address: the state it leaves is
  the state that call leaves. Over the datastore, the persisted instance records are the
  ones from before, whether the release succeeds or fails: \<open>Clean\<close> removes no record.
  When the release succeeds, the address is available to the tenant again and \<open>Clean\<close>
  returns nil.
\<close>

theorem Clean_releases_ip:
  assumes "\<not> CNCI (Instance i)"
  shows "snd (Clean context i d) =
           snd (ReleaseTenantIP context (TenantID (Instance i)) (IPAddress (Instance i)) d) \<and>
         (ReleaseTenantIP context = ds_ReleaseTenantIP \<longrightarrow>
            ds_instances (snd (Clean context i d)) = ds_instances d \<and>
            (\<forall>iid. instancePersisted (snd (Clean context i d)) iid = instancePersisted d iid) \<and>
            (fst (ReleaseTenantIP context (TenantID (Instance i)) (IPAddress (Instance i)) d)
               = None \<longrightarrow>
             fst (Clean context i d) = None \<and>
             ipAvailable (snd (Clean context i d))
               (TenantID (Instance i)) (IPAddress (Instance i))))"
  using assms
  by (simp add: Clean_regular ds_ReleaseTenantIP_def ipAvailable_def instancePersisted_def)

theorem Clean_releases_ip_witness:
  "\<not> ipAvailable example_store ''tenant-a'' ''172.16.0.2'' \<and>
   ipAvailable (snd (Clean example_controller example_instance example_store))
     ''tenant-a'' ''172.16.0.2'' \<and>
   fst (Clean example_controller example_instance example_store) = None \<and>
   ds_instances (snd (Clean example_controller example_instance example_store)) =
     ds_instances example_store \<and>
   ds_instances (snd (Clean example_controller example_instance
       (example_store\<lparr>ds_failing := True\<rparr>))) = ds_instances example_store"
proof -
  have h: "\<not> CNCI (Instance example_instance)"
    "ReleaseTenantIP example_controller = ds_ReleaseTenantIP"
    "TenantID (Instance example_instance) = ''tenant-a''"
    "IPAddress (Instance example_instance) = ''172.16.0.2''"
    by (simp_all add: example_instance_def example_Instance_def example_controller_def)
  have ok: "fst (ds_ReleaseTenantIP ''tenant-a'' ''172.16.0.2'' example_store) = None"
    by (simp add: ds_ReleaseTenantIP_def example_store_def)
  have before: "\<not> ipAvailable example_store ''tenant-a'' ''172.16.0.2''"
    by (simp add: ipAvailable_def example_store_def)
  note w = Clean_releases_ip [OF h(1), of example_controller example_store,
      unfolded h(2) h(3) h(4)]
  from w ok have after: "ipAvailable (snd (Clean example_controller example_instance
      example_store)) ''tenant-a'' ''172.16.0.2''"
    by blast
  from w ok have nil: "fst (Clean example_controller example_instance example_store) = None"
    by blast
  from w have recs: "ds_instances (snd (Clean example_controller example_instance
      example_store)) = ds_instances example_store"
    by blast
  note f = Clean_releases_ip [OF h(1), of example_controller
      "example_store\<lparr>ds_failing := True\<rparr>", unfolded h(2) h(3) h(4)]
  from f have "ds_instances (snd (Clean example_controller example_instance
      (example_store\<lparr>ds_failing := True\<rparr>))) =
      ds_instances (example_store\<lparr>ds_failing := True\<rparr>)"
    by blast
  hence failing: "ds_instances (snd (Clean example_controller example_instance
      (example_store\<lparr>ds_failing := True\<rparr>))) = ds_instances example_store"
    by simp
  from before after nil recs failing show ?thesis by (intro conjI)
qed

section \<open>Result tables: registration and resolution\<close>

lemma snd_update_subset: "snd ` set (AList.update k v al) \<subseteq> insert v (snd ` set al)"
  by (induction al) auto

lemma distinct_snd_update:
  "distinct (map snd al) \<Longrightarrow> v \<notin> snd ` set al \<Longrightarrow> distinct (map snd (AList.update k v al))"
proof (induction al)
  case Nil
  then show ?case by simp
next
  case (Cons p ps)
  have sub: "snd ` set (AList.update k v ps) \<subseteq> insert v (snd ` set ps)"
    by (rule snd_update_subset)
  from Cons show ?case
    using sub by (cases p) (auto simp: image_iff)
qed

lemma lookup_not_in_delete:
  assumes "distinct (map snd al)" and "map_of al k = Some c"
  shows "c \<notin> snd ` set (AList.delete k al)"
proof
  assume "c \<in> snd ` set (AList.delete k al)"
  then obtain k' where in_del: "(k', c) \<in> set (AList.delete k al)" by auto
  then have k': "k' \<noteq> k" and mem': "(k', c) \<in> set al"
    by (auto simp: AList.delete_eq)
  have mem: "(k, c) \<in> set al" using assms(2) by (rule map_of_SomeD)
  from assms(1) have inj: "inj_on snd (set al)" by (simp add: distinct_map)
  have same: "snd (k, c) = snd (k', c)" by simp
  have "(k, c) = (k', c)" by (rule inj_onD [OF inj same mem mem'])
  with k' show False by simp
qed

lemma vals_Nil: "vals [] = {}"
  by (simp add: vals_def)

lemma vals_update: "x \<in> vals (AList.update k v al) \<Longrightarrow> x = v \<or> x \<in> vals al"
  unfolding vals_def using snd_update_subset [of k v al] by blast

lemma vals_delete: "x \<in> vals (AList.delete k al) \<Longrightarrow> x \<in> vals al"
  by (auto simp: vals_def AList.delete_eq)

lemma vals_lookup: "map_of al k = Some c \<Longrightarrow> c \<in> vals al"
  unfolding vals_def by (metis map_of_SomeD snd_conv image_eqI)

lemma vals_lookup_delete:
  "distinct (map snd al) \<Longrightarrow> map_of al k = Some c \<Longrightarrow> c \<notin> vals (AList.delete k al)"
  unfolding vals_def by (rule lookup_not_in_delete)

lemma distinct_vals_update:
  "distinct (map snd al) \<Longrightarrow> v \<notin> vals al \<Longrightarrow> distinct (map snd (AList.update k v al))"
  unfolding vals_def by (rule distinct_snd_update)

lemma distinct_vals_delete:
  "distinct (map snd al) \<Longrightarrow> distinct (map snd (AList.delete k al))"
  by (simp add: AList.delete_eq distinct_map_filter)

lemma refs_tables:
  "refs client = vals (CmdChans client) \<union> vals (EventChans client) \<union>
     vals (ErrorChans client) \<union> vals (StatusChans client)"
  by (auto simp: refs_def all_chans_def vals_def)

lemma lookup_chan_refs: "lookup_chan client k = Some c \<Longrightarrow> c \<in> refs client"
  by (cases k) (auto simp: refs_tables dest: vals_lookup)

lemma distinct_all_chans:
  "distinct (all_chans client) =
     (distinct (map snd (CmdChans client)) \<and> distinct (map snd (EventChans client)) \<and>
      distinct (map snd (ErrorChans client)) \<and> distinct (map snd (StatusChans client)) \<and>
      vals (CmdChans client) \<inter> vals (EventChans client) = {} \<and>
      vals (CmdChans client) \<inter> vals (ErrorChans client) = {} \<and>
      vals (CmdChans client) \<inter> vals (StatusChans client) = {} \<and>
      vals (EventChans client) \<inter> vals (ErrorChans client) = {} \<and>
      vals (EventChans client) \<inter> vals (StatusChans client) = {} \<and>
      vals (ErrorChans client) \<inter> vals (StatusChans client) = {})"
  unfolding all_chans_def vals_def by auto

lemma chans_ok_iff:
  "chans_ok client =
     (distinct (all_chans client) \<and>
      (\<forall>c \<in> refs client. c < next_chan client \<and> chans client c = newChan) \<and>
      (\<forall>c. length (delivered (chans client c)) \<le> 1))"
  by (simp add: chans_ok_def refs_def)

lemma live_iff: "live client = (\<forall>c \<in> refs client. c \<notin> given_up client)"
  by (simp add: live_def refs_def)


lemma AddCmdChan_eq:
  "AddCmdChan client cmd =
     (next_chan client,
      client\<lparr>chans := (chans client)(next_chan client := newChan),
             next_chan := Suc (next_chan client),
             given_up := given_up client - {next_chan client},
             CmdChans := AList.update cmd (next_chan client) (CmdChans client)\<rparr>)"
  by (simp add: AddCmdChan_def make_chan_def Let_def)

lemma AddEventChan_eq:
  "AddEventChan client evt =
     (next_chan client,
      client\<lparr>chans := (chans client)(next_chan client := newChan),
             next_chan := Suc (next_chan client),
             given_up := given_up client - {next_chan client},
             EventChans := AList.update evt (next_chan client) (EventChans client)\<rparr>)"
  by (simp add: AddEventChan_def make_chan_def Let_def)

lemma AddErrorChan_eq:
  "AddErrorChan client er =
     (next_chan client,
      client\<lparr>chans := (chans client)(next_chan client := newChan),
             next_chan := Suc (next_chan client),
             given_up := given_up client - {next_chan client},
             ErrorChans := AList.update er (next_chan client) (ErrorChans client)\<rparr>)"
  by (simp add: AddErrorChan_def make_chan_def Let_def)

lemma AddStatusChan_eq:
  "AddStatusChan client status =
     (next_chan client,
      client\<lparr>chans := (chans client)(next_chan client := newChan),
             next_chan := Suc (next_chan client),
             given_up := given_up client - {next_chan client},
             StatusChans := AList.update status (next_chan client) (StatusChans client)\<rparr>)"
  by (simp add: AddStatusChan_def make_chan_def Let_def)

lemmas Add_eqs = AddCmdChan_eq AddEventChan_eq AddErrorChan_eq AddStatusChan_eq

lemma next_chan_fresh: "chans_ok client \<Longrightarrow> next_chan client \<notin> refs client"
  by (auto simp: chans_ok_iff)

lemma register_basic:
  assumes "register client k = (c, client')"
  shows "c = next_chan client"
    and "next_chan client' = Suc (next_chan client)"
    and "lookup_chan client' k = Some c"
    and "chans client' = (chans client)(c := newChan)"
    and "instances client' = instances client"
    and "Ssntp client' = Ssntp client"
    and "given_up client' = given_up client - {c}"
  using assms by (cases k; auto simp: Add_eqs AList.update_conv')+

lemma register_other:
  assumes "register client k = (c, client')" and "k' \<noteq> k"
  shows "lookup_chan client' k' = lookup_chan client k'"
  using assms by (cases k; cases k'; auto simp: Add_eqs AList.update_conv')

lemma register_refs:
  assumes "register client k = (c, client')"
  shows "refs client' \<subseteq> insert c (refs client)"
  using assms by (cases k; auto simp: Add_eqs refs_tables dest!: vals_update)

lemma register_distinct:
  assumes ok: "chans_ok client" and reg: "register client k = (c, client')"
  shows "distinct (all_chans client')"
proof -
  have fresh: "next_chan client \<notin> refs client" using ok by (rule next_chan_fresh)
  have d: "distinct (all_chans client)" using ok by (simp add: chans_ok_iff)
  show ?thesis
    using reg d fresh
    by (cases k;
        auto simp: Add_eqs distinct_all_chans refs_tables distinct_vals_update
             dest!: vals_update)
qed

lemma register_ok:
  assumes ok: "chans_ok client" and reg: "register client k = (c, client')"
  shows "chans_ok client'"
proof -
  note b = register_basic [OF reg]
  have sub: "refs client' \<subseteq> insert c (refs client)" using reg by (rule register_refs)
  have old: "\<forall>x \<in> refs client. x < next_chan client \<and> chans client x = newChan"
    and len: "\<forall>x. length (delivered (chans client x)) \<le> 1"
    using ok by (simp_all add: chans_ok_iff)
  have r: "\<forall>x \<in> refs client'. x < next_chan client' \<and> chans client' x = newChan"
  proof
    fix x assume "x \<in> refs client'"
    with sub have "x = c \<or> x \<in> refs client" by blast
    then show "x < next_chan client' \<and> chans client' x = newChan"
      using old b(1,2,4) by (auto simp: less_Suc_eq)
  qed
  have l: "\<forall>x. length (delivered (chans client' x)) \<le> 1"
    using len b(4) by (simp add: newChan_def)
  show ?thesis
    using register_distinct [OF ok reg] r l by (simp add: chans_ok_iff)
qed

lemma register_live:
  assumes lv: "live client" and reg: "register client k = (c, client')"
  shows "live client'"
proof -
  note b = register_basic [OF reg]
  have sub: "refs client' \<subseteq> insert c (refs client)" using reg by (rule register_refs)
  show ?thesis
    unfolding live_iff
  proof
    fix x assume "x \<in> refs client'"
    with sub have "x = c \<or> x \<in> refs client" by blast
    then show "x \<notin> given_up client'"
      using lv b(7) by (auto simp: live_iff)
  qed
qed

text \<open>Deleting the entry of a key.\<close>

lemma unregister_fields:
  "chans (unregister client k) = chans client"
  "next_chan (unregister client k) = next_chan client"
  "instances (unregister client k) = instances client"
  "Ssntp (unregister client k) = Ssntp client"
  "given_up (unregister client k) = given_up client"
  "lookup_chan (unregister client k) k = None"
  by (cases k; simp add: AList.delete_conv')+

lemma unregister_other:
  "k' \<noteq> k \<Longrightarrow> lookup_chan (unregister client k) k' = lookup_chan client k'"
  by (cases k; cases k'; auto simp: AList.delete_conv')

lemma unregister_sub: "refs (unregister client k) \<subseteq> refs client"
  by (cases k; auto simp: refs_tables dest!: vals_delete)

lemma unregister_refs:
  assumes lk: "lookup_chan client k = Some c" and d: "distinct (all_chans client)"
  shows "c \<notin> refs (unregister client k)"
  using lk d
  by (cases k;
      auto simp: refs_tables distinct_all_chans dest: vals_lookup vals_lookup_delete)

lemma unregister_distinct:
  "distinct (all_chans client) \<Longrightarrow> distinct (all_chans (unregister client k))"
  by (cases k; auto simp: distinct_all_chans distinct_vals_delete dest!: vals_delete)

lemma chans_update_refs:
  "refs (client\<lparr>chans := h\<rparr>) = refs client"
  "all_chans (client\<lparr>chans := h\<rparr>) = all_chans client"
  by (simp_all add: refs_def all_chans_def)

lemma unregister_ok:
  assumes ok: "chans_ok client"
  shows "chans_ok (unregister client k)"
  using ok unregister_sub [of client k] unregister_distinct [of client k]
  by (auto simp: chans_ok_iff unregister_fields)

lemma delivered_ok:
  assumes ok: "chans_ok client" and lk: "lookup_chan client k = Some c"
  shows "chans_ok ((unregister client k)
           \<lparr>chans := (chans client)(c := \<lparr>delivered = [r], closed = True\<rparr>)\<rparr>)"
proof -
  have d: "distinct (all_chans client)" using ok by (simp add: chans_ok_iff)
  have out: "c \<notin> refs (unregister client k)" by (rule unregister_refs [OF lk d])
  show ?thesis
    using ok out unregister_sub [of client k] unregister_distinct [OF d, of k]
    by (auto simp: chans_ok_iff chans_update_refs unregister_fields)
qed

text \<open>
  The send and the close on a channel that is new: they complete when the holder of the
  channel still receives, and the send blocks when the holder has given up.
\<close>

lemma send_and_close_new:
  "chans client c = newChan \<Longrightarrow> c \<notin> given_up client \<Longrightarrow>
     send_and_close client c r =
       Inr (client\<lparr>chans := (chans client)(c := \<lparr>delivered = [r], closed = True\<rparr>)\<rparr>)"
  by (simp add: send_and_close_def chan_send_def chan_close_def newChan_def)

lemma send_and_close_gone:
  "chans client c = newChan \<Longrightarrow> c \<in> given_up client \<Longrightarrow>
     send_and_close client c r = Inl (Blocked client)"
  by (simp add: send_and_close_def chan_send_def newChan_def)

lemma resolve_unfold:
  "resolve client k r =
     (case lookup_chan client k of
        None \<Rightarrow> Inr client
      | Some c \<Rightarrow> send_and_close (unregister client k) c r)"
  by (cases k)
    (auto simp: SendResultAndDelCmdChan_def SendResultAndDelEventChan_def
      SendResultAndDelErrorChan_def SendResultAndDelStatusChan_def split: option.splits)

lemma resolve_none: "lookup_chan client k = None \<Longrightarrow> resolve client k r = Inr client"
  by (simp add: resolve_unfold)

lemma resolve_live:
  assumes lk: "lookup_chan client k = Some c" and new: "chans client c = newChan"
    and here: "c \<notin> given_up client"
  shows "resolve client k r =
     Inr ((unregister client k)
            \<lparr>chans := (chans client)(c := \<lparr>delivered = [r], closed = True\<rparr>)\<rparr>)"
  using assms by (simp add: resolve_unfold send_and_close_new unregister_fields)

lemma resolve_gone:
  assumes lk: "lookup_chan client k = Some c" and new: "chans client c = newChan"
    and gone: "c \<in> given_up client"
  shows "resolve client k r = Inl (Blocked (unregister client k))"
  using assms by (simp add: resolve_unfold send_and_close_gone unregister_fields)

lemma close_all_open:
  "distinct cs \<Longrightarrow> \<forall>c \<in> set cs. \<not> closed (h c) \<Longrightarrow>
     close_all h cs = Inr (\<lambda>c. if c \<in> set cs then (h c)\<lparr>closed := True\<rparr> else h c)"
proof (induction cs arbitrary: h)
  case Nil
  then show ?case by simp
next
  case (Cons a cs)
  let ?h = "h(a := (h a)\<lparr>closed := True\<rparr>)"
  have step: "chan_close h a = Inr ?h"
    using Cons.prems by (simp add: chan_close_def)
  have rest: "\<forall>c \<in> set cs. \<not> closed (?h c)"
    using Cons.prems by auto
  have "close_all ?h cs = Inr (\<lambda>c. if c \<in> set cs then (?h c)\<lparr>closed := True\<rparr> else ?h c)"
    using Cons.prems rest by (intro Cons.IH) simp_all
  then show ?case
    using step Cons.prems by (auto simp: fun_eq_iff)
qed

lemma closeClientChans_ok:
  assumes ok: "chans_ok client"
  shows "closeClientChans client =
     Inr (client\<lparr>CmdChans := [], EventChans := [], ErrorChans := [], StatusChans := [],
                 chans := (\<lambda>c. if c \<in> refs client then (chans client c)\<lparr>closed := True\<rparr>
                                else chans client c)\<rparr>)"
proof -
  have old: "\<forall>x \<in> refs client. chans client x = newChan"
    and d: "distinct (all_chans client)"
    using ok by (simp_all add: chans_ok_iff)
  let ?A = "map snd (CmdChans client)" and ?B = "map snd (EventChans client)"
  let ?C = "map snd (ErrorChans client)" and ?D = "map snd (StatusChans client)"
  let ?h1 = "\<lambda>c. if c \<in> set ?A then (chans client c)\<lparr>closed := True\<rparr> else chans client c"
  let ?h2 = "\<lambda>c. if c \<in> set ?B then (?h1 c)\<lparr>closed := True\<rparr> else ?h1 c"
  let ?h3 = "\<lambda>c. if c \<in> set ?C then (?h2 c)\<lparr>closed := True\<rparr> else ?h2 c"
  let ?h4 = "\<lambda>c. if c \<in> set ?D then (?h3 c)\<lparr>closed := True\<rparr> else ?h3 c"
  have dist: "distinct ?A" "distinct ?B" "distinct ?C" "distinct ?D"
    and disj: "set ?A \<inter> set ?B = {}" "set ?A \<inter> set ?C = {}" "set ?A \<inter> set ?D = {}"
      "set ?B \<inter> set ?C = {}" "set ?B \<inter> set ?D = {}" "set ?C \<inter> set ?D = {}"
    using d by (auto simp: all_chans_def)
  have opn: "\<forall>c \<in> set ?A \<union> set ?B \<union> set ?C \<union> set ?D. \<not> closed (chans client c)"
    using old by (auto simp: refs_def all_chans_def newChan_def)
  have e1: "close_all (chans client) ?A = Inr ?h1"
    using dist(1) opn by (intro close_all_open) auto
  have e2: "close_all ?h1 ?B = Inr ?h2"
    using dist(2) opn disj by (intro close_all_open) auto
  have e3: "close_all ?h2 ?C = Inr ?h3"
    using dist(3) opn disj by (intro close_all_open) auto
  have e4: "close_all ?h3 ?D = Inr ?h4"
    using dist(4) opn disj by (intro close_all_open) auto
  have h4: "?h4 = (\<lambda>c. if c \<in> refs client then (chans client c)\<lparr>closed := True\<rparr>
                                else chans client c)"
    by (auto simp: fun_eq_iff refs_def all_chans_def)
  show ?thesis
    by (simp only: closeClientChans_def e1 e2 e3 e4 sum.case h4)
qed

lemma closeClientChans_chans_ok:
  assumes ok: "chans_ok client" and cl: "closeClientChans client = Inr client'"
  shows "chans_ok client'" and "refs client' = {}"
    and "\<forall>c. c \<notin> refs client \<longrightarrow> chans client' c = chans client c"
    and "next_chan client' = next_chan client"
    and "instances client' = instances client"
    and "Ssntp client' = Ssntp client"
proof -
  have len: "\<forall>x. length (delivered (chans client x)) \<le> 1"
    using ok by (simp add: chans_ok_iff)
  have eq: "client' = client\<lparr>CmdChans := [], EventChans := [], ErrorChans := [],
      StatusChans := [],
      chans := (\<lambda>c. if c \<in> refs client then (chans client c)\<lparr>closed := True\<rparr>
                     else chans client c)\<rparr>"
    using cl closeClientChans_ok [OF ok] by simp
  show "refs client' = {}" by (simp add: eq refs_def all_chans_def)
  show "chans_ok client'" using len by (simp add: eq chans_ok_def all_chans_def)
  show "\<forall>c. c \<notin> refs client \<longrightarrow> chans client' c = chans client c" by (simp add: eq)
  show "next_chan client' = next_chan client" by (simp add: eq)
  show "instances client' = instances client" by (simp add: eq)
  show "Ssntp client' = Ssntp client" by (simp add: eq)
qed

lemma chans_ok_fields:
  "chans_ok (client\<lparr>Ssntp := a\<rparr>) = chans_ok client"
  "chans_ok (client\<lparr>instances := b\<rparr>) = chans_ok client"
  "chans_ok (client\<lparr>StartFail := f, StartFailReason := g\<rparr>) = chans_ok client"
  "chans_ok (client\<lparr>given_up := gu\<rparr>) = chans_ok client"
  by (simp_all add: chans_ok_def all_chans_def)

lemma refs_given_up: "refs (client\<lparr>given_up := gu\<rparr>) = refs client"
  by (simp add: refs_def all_chans_def)

text \<open>
  One operation on a client in a good state does not panic: it returns, or it is a
  resolution for a waiter that has given up and blocks. Either way it leaves the state
  good and leaves alone every channel that exists and that no table refers to. In a
  live client it returns, and the client stays live unless the operation is a waiter
  giving up.
\<close>

lemma step_ok:
  assumes ok: "chans_ok client"
  shows "\<exists>client'.
           ((step client x = Inr client' \<and>
             (live client \<and> (\<forall>c. x \<noteq> GiveUp c) \<longrightarrow> live client')) \<or>
            (\<not> live client \<and> step client x = Inl (Blocked client'))) \<and>
           chans_ok client' \<and>
           next_chan client \<le> next_chan client' \<and>
           (\<forall>c. c < next_chan client \<and> c \<notin> refs client \<longrightarrow>
                  c \<notin> refs client' \<and> chans client' c = chans client c) \<and>
           instances client' = instances client \<and> Ssntp client' = Ssntp client"
proof (cases x)
  case (Register k)
  obtain c client' where reg: "register client k = (c, client')"
    by (cases "register client k") auto
  note b = register_basic [OF reg]
  have sub: "refs client' \<subseteq> insert c (refs client)" using reg by (rule register_refs)
  have "chans_ok client'" by (rule register_ok [OF ok reg])
  moreover have "\<forall>x. x < next_chan client \<and> x \<notin> refs client \<longrightarrow>
                  x \<notin> refs client' \<and> chans client' x = chans client x"
    using sub b(1,4) by auto
  moreover have "live client \<longrightarrow> live client'"
    using register_live [OF _ reg] by blast
  ultimately show ?thesis
    using Register reg b by simp
next
  case (Resolve k r)
  show ?thesis
  proof (cases "lookup_chan client k")
    case None
    then have "resolve client k r = Inr client" by (rule resolve_none)
    then show ?thesis using Resolve ok by simp
  next
    case (Some c)
    have cref: "c \<in> refs client" using Some by (rule lookup_chan_refs)
    have new: "chans client c = newChan" and d: "distinct (all_chans client)"
      using ok cref by (auto simp: chans_ok_iff)
    have sub: "refs (unregister client k) \<subseteq> refs client" by (rule unregister_sub)
    show ?thesis
    proof (cases "c \<in> given_up client")
      case True
      let ?c' = "unregister client k"
      have res: "resolve client k r = Inl (Blocked ?c')"
        by (rule resolve_gone [OF Some new True])
      have nl: "\<not> live client" using cref True by (auto simp: live_iff)
      have "chans_ok ?c'" by (rule unregister_ok [OF ok])
      moreover have "\<forall>x. x < next_chan client \<and> x \<notin> refs client \<longrightarrow>
                  x \<notin> refs ?c' \<and> chans ?c' x = chans client x"
        using sub by (auto simp: unregister_fields)
      ultimately show ?thesis
        using Resolve res nl by (auto simp: unregister_fields)
    next
      case False
      let ?c' = "(unregister client k)
            \<lparr>chans := (chans client)(c := \<lparr>delivered = [r], closed = True\<rparr>)\<rparr>"
      have res: "resolve client k r = Inr ?c'"
        by (rule resolve_live [OF Some new False])
      have "chans_ok ?c'" by (rule delivered_ok [OF ok Some])
      moreover have "\<forall>x. x < next_chan client \<and> x \<notin> refs client \<longrightarrow>
                  x \<notin> refs ?c' \<and> chans ?c' x = chans client x"
        using sub cref by (auto simp: chans_update_refs)
      moreover have "live client \<longrightarrow> live ?c'"
        using sub by (auto simp: live_iff chans_update_refs unregister_fields)
      ultimately show ?thesis
        using Resolve res by (simp add: unregister_fields)
    qed
  qed
next
  case CloseChans
  obtain client' where cl: "closeClientChans client = Inr client'"
    using closeClientChans_ok [OF ok] by blast
  note b = closeClientChans_chans_ok [OF ok cl]
  have "live client'" using b(2) by (simp add: live_iff)
  then show ?thesis
    using CloseChans cl b by simp
next
  case (GiveUp c)
  show ?thesis
    using GiveUp ok by (simp add: chans_ok_fields refs_given_up)
qed

lemma run_ok:
  assumes ok: "chans_ok client"
  shows "\<exists>client'.
           ((run xs client = Inr client' \<and>
             (live client \<and> (\<forall>c. GiveUp c \<notin> set xs) \<longrightarrow> live client')) \<or>
            ((\<not> live client \<or> (\<exists>c. GiveUp c \<in> set xs)) \<and>
             run xs client = Inl (Blocked client'))) \<and>
           chans_ok client' \<and>
           next_chan client \<le> next_chan client' \<and>
           (\<forall>c. c < next_chan client \<and> c \<notin> refs client \<longrightarrow>
                  c \<notin> refs client' \<and> chans client' c = chans client c) \<and>
           instances client' = instances client \<and> Ssntp client' = Ssntp client"
  using ok
proof (induction xs arbitrary: client)
  case Nil
  then show ?case by simp
next
  case (Cons x xs)
  obtain c1 where s1: "(step client x = Inr c1 \<and>
             (live client \<and> (\<forall>c. x \<noteq> GiveUp c) \<longrightarrow> live c1)) \<or>
            (\<not> live client \<and> step client x = Inl (Blocked c1))"
    and ok1: "chans_ok c1"
    and n1: "next_chan client \<le> next_chan c1"
    and f1: "\<forall>c. c < next_chan client \<and> c \<notin> refs client \<longrightarrow>
                  c \<notin> refs c1 \<and> chans c1 c = chans client c"
    and i1: "instances c1 = instances client" "Ssntp c1 = Ssntp client"
    using step_ok [OF Cons.prems, of x] by blast
  from s1 show ?case
  proof
    assume blocked: "\<not> live client \<and> step client x = Inl (Blocked c1)"
    then have "run (x # xs) client = Inl (Blocked c1)" by simp
    with blocked ok1 n1 f1 i1 show ?thesis by blast
  next
    assume ret: "step client x = Inr c1 \<and>
             (live client \<and> (\<forall>c. x \<noteq> GiveUp c) \<longrightarrow> live c1)"
    obtain c2 where s2: "(run xs c1 = Inr c2 \<and>
             (live c1 \<and> (\<forall>c. GiveUp c \<notin> set xs) \<longrightarrow> live c2)) \<or>
            ((\<not> live c1 \<or> (\<exists>c. GiveUp c \<in> set xs)) \<and> run xs c1 = Inl (Blocked c2))"
      and ok2: "chans_ok c2"
      and n2: "next_chan c1 \<le> next_chan c2"
      and f2: "\<forall>c. c < next_chan c1 \<and> c \<notin> refs c1 \<longrightarrow>
                  c \<notin> refs c2 \<and> chans c2 c = chans c1 c"
      and i2: "instances c2 = instances c1" "Ssntp c2 = Ssntp c1"
      using Cons.IH [OF ok1] by blast
    have r: "run (x # xs) client = run xs c1" using ret by simp
    have f: "\<forall>c. c < next_chan client \<and> c \<notin> refs client \<longrightarrow>
                  c \<notin> refs c2 \<and> chans c2 c = chans client c"
    proof (intro allI impI)
      fix c assume h: "c < next_chan client \<and> c \<notin> refs client"
      with f1 have a: "c \<notin> refs c1" "chans c1 c = chans client c" by blast+
      from h n1 have "c < next_chan c1" by simp
      with a(1) f2 have "c \<notin> refs c2" "chans c2 c = chans c1 c" by blast+
      with a(2) show "c \<notin> refs c2 \<and> chans c2 c = chans client c" by simp
    qed
    have out: "(run (x # xs) client = Inr c2 \<and>
             (live client \<and> (\<forall>c. GiveUp c \<notin> set (x # xs)) \<longrightarrow> live c2)) \<or>
            ((\<not> live client \<or> (\<exists>c. GiveUp c \<in> set (x # xs))) \<and>
             run (x # xs) client = Inl (Blocked c2))"
      unfolding r using s2 ret by auto
    from out ok2 n1 n2 f i1 i2 show ?thesis
      by (intro exI [of _ c2]) simp
  qed
qed

lemma chans_ok_zero: "chans_ok zeroClient"
  by (simp add: chans_ok_def zeroClient_def all_chans_def newChan_def)

lemma chans_ok_new:
  "NewSsntpTestClientConnection lb dialed name role uuid = Inr client \<Longrightarrow>
     chans_ok client \<and> live client"
  by (auto simp: NewSsntpTestClientConnection_def openClientChans_def chans_ok_def
      all_chans_def zeroClient_def newChan_def live_def Let_def
      split: if_splits option.splits)

lemma example_client_new:
  "NewSsntpTestClientConnection example_testlib None ''one'' 4 ''node-1'' = Inr example_client"
  by (simp add: NewSsntpTestClientConnection_def example_client_def openClientChans_def
      zeroClient_def example_testlib_def example_roleString_def UNKNOWN_def)

lemma chans_ok_example: "chans_ok example_client"
  using chans_ok_new [OF example_client_new] by simp

lemma live_example: "live example_client"
  using chans_ok_new [OF example_client_new] by simp

text \<open>
  Every state that a client reaches from its construction, by registrations,
  resolutions, shutdowns and waiters giving up, is reached without a panic and
  satisfies \<open>chans_ok\<close>; when no waiter gives up, every operation returns.
\<close>

lemma reachable_chans_ok:
  assumes "NewSsntpTestClientConnection lb dialed name role uuid = Inr c0"
  shows "\<exists>client.
           (run xs c0 = Inr client \<or>
            ((\<exists>c. GiveUp c \<in> set xs) \<and> run xs c0 = Inl (Blocked client))) \<and>
           chans_ok client"
  using run_ok [of c0 xs] chans_ok_new [OF assms] by blast

lemma await_arrives:
  assumes "t < 5 * Second"
  shows "await (Some (t, r)) tie k =
     (r, (case Err r of None \<Rightarrow> None | Some e \<Rightarrow> Some (ClientError k e)), t)"
proof -
  have "t < 20 * Second" using assms by (simp add: Second_def)
  with assms show ?thesis
    by (cases k)
      (auto simp: GetCmdChanResult_def GetEventChanResult_def GetErrorChanResult_def
        GetStatusChanResult_def select_timeout_def split: option.splits)
qed

lemma chan_arrival_delivered:
  "chan_arrival \<lparr>delivered = [r], closed = True\<rparr> t = Some (t, r)"
  by (simp add: chan_arrival_def)

text \<open>
  What a resolution does, in every state the client can be in. For a key without an
  entry it does nothing. For a key whose waiter still receives, the entry goes, the
  channel of the waiter is handed the result and is closed, so that the wait on it
  returns the result; no other entry and no other channel changes, and a second
  resolution of the key does nothing. For a key whose waiter has given up, the entry
  goes and the send blocks: the operation does not return, and no channel has changed.
  In every run, no channel is ever handed more than one result.
\<close>

lemma resolve_delivers:
  assumes ok: "chans_ok client" and lk: "lookup_chan client k = Some c"
    and here: "c \<notin> given_up client"
  shows "\<exists>client'. resolve client k r = Inr client' \<and>
           lookup_chan client' k = None \<and>
           (\<forall>k'. k' \<noteq> k \<longrightarrow> lookup_chan client' k' = lookup_chan client k') \<and>
           chans client' c = \<lparr>delivered = [r], closed = True\<rparr> \<and>
           (\<forall>c'. c' \<noteq> c \<longrightarrow> chans client' c' = chans client c') \<and>
           resolve client' k r' = Inr client' \<and>
           (\<forall>t tie. t < 5 * Second \<longrightarrow>
              await (chan_arrival (chans client' c) t) tie k =
                (r, (case Err r of None \<Rightarrow> None | Some e \<Rightarrow> Some (ClientError k e)), t))"
proof -
  let ?c' = "(unregister client k)
            \<lparr>chans := (chans client)(c := \<lparr>delivered = [r], closed = True\<rparr>)\<rparr>"
  have cref: "c \<in> refs client" using lk by (rule lookup_chan_refs)
  have new: "chans client c = newChan"
    using ok cref by (auto simp: chans_ok_iff)
  have res: "resolve client k r = Inr ?c'"
    by (rule resolve_live [OF lk new here])
  have lk': "lookup_chan ?c' k = None"
    by (cases k) (simp_all add: AList.delete_conv')
  have oth: "\<forall>k'. k' \<noteq> k \<longrightarrow> lookup_chan ?c' k' = lookup_chan client k'"
    by (cases k; intro allI impI; rename_tac k'; case_tac k';
        auto simp: AList.delete_conv')
  have again: "resolve ?c' k r' = Inr ?c'"
    using lk' by (rule resolve_none)
  have got: "chans ?c' c = \<lparr>delivered = [r], closed = True\<rparr>"
    and rest: "\<forall>c'. c' \<noteq> c \<longrightarrow> chans ?c' c' = chans client c'"
    by simp_all
  have wait: "\<forall>t tie. t < 5 * Second \<longrightarrow>
              await (chan_arrival (chans ?c' c) t) tie k =
                (r, (case Err r of None \<Rightarrow> None | Some e \<Rightarrow> Some (ClientError k e)), t)"
    unfolding got chan_arrival_delivered using await_arrives by blast
  from res lk' oth got rest again wait show ?thesis by blast
qed

lemma resolve_blocks:
  assumes ok: "chans_ok client" and lk: "lookup_chan client k = Some c"
    and gone: "c \<in> given_up client"
  shows "resolve client k r = Inl (Blocked (unregister client k)) \<and>
         lookup_chan (unregister client k) k = None \<and>
         chans (unregister client k) = chans client"
proof -
  have cref: "c \<in> refs client" using lk by (rule lookup_chan_refs)
  have new: "chans client c = newChan"
    using ok cref by (auto simp: chans_ok_iff)
  show ?thesis
    using resolve_gone [OF lk new gone] by (simp add: unregister_fields)
qed

lemma delivered_at_most_once:
  assumes ok: "chans_ok client"
  shows "\<exists>client'. (run xs client = Inr client' \<or> run xs client = Inl (Blocked client')) \<and>
           (\<forall>c. length (delivered (chans client' c)) \<le> 1)"
proof -
  obtain client' where
    "run xs client = Inr client' \<or> run xs client = Inl (Blocked client')"
    and "chans_ok client'"
    using run_ok [OF ok, of xs] by blast
  then show ?thesis by (auto simp: chans_ok_iff)
qed

text \<open>
  Claim C2 does not hold of the code for a waiter that has given up. On the example
  client a caller registers for START and is handed channel 0. Nothing arrives, so its
  wait returns the Timeout error after five seconds; the entry of START stays in the
  table. A resolution of START then finds the entry, deletes it, and blocks in the
  send: \<open>SendResultAndDelCmdChan\<close> does not return, and in the state it has reached the
  result has been handed to no channel and channel 0 is not closed.
\<close>

theorem timed_out_waiter_blocks_resolve:
  "GetCmdChanResult
     (chan_arrival (chans (snd (register example_client (CmdKey START))) 0) 0) True START =
     (zeroResult, Some (Timeout (CmdKey START)), 5 * Second) \<and>
   run [Register (CmdKey START), GiveUp 0] example_client = Inr example_abandoned \<and>
   lookup_chan example_abandoned (CmdKey START) = Some 0 \<and>
   SendResultAndDelCmdChan example_abandoned START example_result =
     Inl (Blocked example_blocked) \<and>
   lookup_chan example_blocked (CmdKey START) = None \<and>
   chans example_blocked = chans example_abandoned \<and>
   delivered (chans example_blocked 0) = [] \<and>
   \<not> closed (chans example_blocked 0)"
  by (simp add: AddCmdChan_eq example_abandoned_def example_blocked_def example_client_def
      zeroClient_def GetCmdChanResult_def select_timeout_def chan_arrival_def newChan_def
      SendResultAndDelCmdChan_def send_and_close_def chan_send_def fun_eq_iff)

section \<open>Waiting with a timeout\<close>

text \<open>
  Claim C6. Each of the four waits ends within its timeout: 5 seconds for a command
  and for a status, 20 seconds for an event and for an error, and 5 seconds is the
  shorter. A wait on a channel that yields nothing, or yields something only after the
  timeout, returns the Timeout error of its key when the timeout has passed. A wait
  whose result arrives before the timeout returns that result and no Timeout. A result
  that arrives between 5 and 20 seconds is missed by a command or status wait and
  received by an event or error wait.
\<close>

theorem await_bounded:
  "snd (snd (GetCmdChanResult arrival tie cmd)) \<le> 5 * Second \<and>
   snd (snd (GetStatusChanResult arrival tie status)) \<le> 5 * Second \<and>
   snd (snd (GetEventChanResult arrival tie evt)) \<le> 20 * Second \<and>
   snd (snd (GetErrorChanResult arrival tie er)) \<le> 20 * Second \<and>
   5 * Second < 20 * Second \<and>
   (arrival = None \<or> (\<exists>t v. arrival = Some (t, v) \<and> 5 * Second < t) \<longrightarrow>
      GetCmdChanResult arrival tie cmd = (zeroResult, Some (Timeout (CmdKey cmd)), 5 * Second) \<and>
      GetStatusChanResult arrival tie status =
        (zeroResult, Some (Timeout (StatusKey status)), 5 * Second)) \<and>
   (arrival = None \<or> (\<exists>t v. arrival = Some (t, v) \<and> 20 * Second < t) \<longrightarrow>
      GetEventChanResult arrival tie evt =
        (zeroResult, Some (Timeout (EventKey evt)), 20 * Second) \<and>
      GetErrorChanResult arrival tie er =
        (zeroResult, Some (Timeout (ErrorKey er)), 20 * Second)) \<and>
   (\<forall>t v. arrival = Some (t, v) \<and> t < 5 * Second \<longrightarrow>
      (\<forall>k. fst (await arrival tie k) = v \<and> snd (snd (await arrival tie k)) = t \<and>
           fst (snd (await arrival tie k)) \<noteq> Some (Timeout k))) \<and>
   (\<forall>t v. arrival = Some (t, v) \<and> 5 * Second < t \<and> t < 20 * Second \<longrightarrow>
      fst (snd (GetCmdChanResult arrival tie cmd)) = Some (Timeout (CmdKey cmd)) \<and>
      fst (snd (GetStatusChanResult arrival tie status)) = Some (Timeout (StatusKey status)) \<and>
      fst (GetEventChanResult arrival tie evt) = v \<and>
      fst (GetErrorChanResult arrival tie er) = v)"
proof -
  have pos: "(0::int) < Second" by (simp add: Second_def)
  have b1: "snd (snd (GetCmdChanResult arrival tie cmd)) \<le> 5 * Second"
    using pos by (auto simp: GetCmdChanResult_def select_timeout_def split: option.splits)
  have b2: "snd (snd (GetStatusChanResult arrival tie status)) \<le> 5 * Second"
    using pos by (auto simp: GetStatusChanResult_def select_timeout_def split: option.splits)
  have b3: "snd (snd (GetEventChanResult arrival tie evt)) \<le> 20 * Second"
    using pos by (auto simp: GetEventChanResult_def select_timeout_def split: option.splits)
  have b4: "snd (snd (GetErrorChanResult arrival tie er)) \<le> 20 * Second"
    using pos by (auto simp: GetErrorChanResult_def select_timeout_def split: option.splits)
  have b5: "5 * Second < 20 * Second" using pos by simp
  have t1: "arrival = None \<or> (\<exists>t v. arrival = Some (t, v) \<and> 5 * Second < t) \<longrightarrow>
      GetCmdChanResult arrival tie cmd = (zeroResult, Some (Timeout (CmdKey cmd)), 5 * Second) \<and>
      GetStatusChanResult arrival tie status =
        (zeroResult, Some (Timeout (StatusKey status)), 5 * Second)"
    by (auto simp: GetCmdChanResult_def GetStatusChanResult_def select_timeout_def)
  have t2: "arrival = None \<or> (\<exists>t v. arrival = Some (t, v) \<and> 20 * Second < t) \<longrightarrow>
      GetEventChanResult arrival tie evt =
        (zeroResult, Some (Timeout (EventKey evt)), 20 * Second) \<and>
      GetErrorChanResult arrival tie er =
        (zeroResult, Some (Timeout (ErrorKey er)), 20 * Second)"
    by (auto simp: GetEventChanResult_def GetErrorChanResult_def select_timeout_def)
  have r: "\<forall>t v. arrival = Some (t, v) \<and> t < 5 * Second \<longrightarrow>
      (\<forall>k. fst (await arrival tie k) = v \<and> snd (snd (await arrival tie k)) = t \<and>
           fst (snd (await arrival tie k)) \<noteq> Some (Timeout k))"
  proof (intro allI impI)
    fix t v k assume h: "arrival = Some (t, v) \<and> t < 5 * Second"
    then have "t < 20 * Second" using pos by simp
    with h show "fst (await arrival tie k) = v \<and> snd (snd (await arrival tie k)) = t \<and>
           fst (snd (await arrival tie k)) \<noteq> Some (Timeout k)"
      by (cases k)
        (auto simp: GetCmdChanResult_def GetStatusChanResult_def GetEventChanResult_def
          GetErrorChanResult_def select_timeout_def split: option.splits)
  qed
  have m: "\<forall>t v. arrival = Some (t, v) \<and> 5 * Second < t \<and> t < 20 * Second \<longrightarrow>
      fst (snd (GetCmdChanResult arrival tie cmd)) = Some (Timeout (CmdKey cmd)) \<and>
      fst (snd (GetStatusChanResult arrival tie status)) = Some (Timeout (StatusKey status)) \<and>
      fst (GetEventChanResult arrival tie evt) = v \<and>
      fst (GetErrorChanResult arrival tie er) = v"
    by (auto simp: GetCmdChanResult_def GetStatusChanResult_def GetEventChanResult_def
          GetErrorChanResult_def select_timeout_def)
  from b1 b2 b3 b4 b5 t1 t2 r m show ?thesis by (intro conjI)
qed

text \<open>
  A result that arrives after 10 seconds: the command wait has returned a Timeout after
  5 seconds, the event wait returns the result after 10 seconds. On a channel that never
  yields, the event wait returns a Timeout after 20 seconds.
\<close>

theorem await_bounded_witness:
  "GetCmdChanResult (Some (10 * Second, example_result)) True START =
     (zeroResult, Some (Timeout (CmdKey START)), 5 * Second) \<and>
   fst (GetEventChanResult (Some (10 * Second, example_result)) True TraceReport) =
     example_result \<and>
   GetEventChanResult None True TraceReport =
     (zeroResult, Some (Timeout (EventKey TraceReport)), 20 * Second) \<and>
   fst (await (Some (2 * Second, example_result)) False (StatusKey READY)) = example_result"
proof -
  have lt: "5 * Second < 10 * Second" "10 * Second < 20 * Second" "2 * Second < 5 * Second"
    by (simp_all add: Second_def)
  note w1 = await_bounded [of "Some (10 * Second, example_result)" True START READY
      TraceReport StartFailure]
  note w2 = await_bounded [of None True START READY TraceReport StartFailure]
  note w3 = await_bounded [of "Some (2 * Second, example_result)" False START READY
      TraceReport StartFailure]
  have a: "GetCmdChanResult (Some (10 * Second, example_result)) True START =
     (zeroResult, Some (Timeout (CmdKey START)), 5 * Second)"
    using w1 lt by blast
  have b: "fst (GetEventChanResult (Some (10 * Second, example_result)) True TraceReport) =
     example_result"
    using w1 lt by blast
  have c: "GetEventChanResult None True TraceReport =
     (zeroResult, Some (Timeout (EventKey TraceReport)), 20 * Second)"
    using w2 by blast
  have d: "fst (await (Some (2 * Second, example_result)) False (StatusKey READY)) =
     example_result"
    using w3 lt by blast
  from a b c d show ?thesis by (intro conjI)
qed

section \<open>Registering twice for the same key\<close>

lemma snd_update_overwrite:
  "distinct (map snd al) \<Longrightarrow> map_of al k = Some c \<Longrightarrow> v \<noteq> c \<Longrightarrow>
     c \<notin> snd ` set (AList.update k v al)"
proof (induction al)
  case Nil
  then show ?case by simp
next
  case (Cons p ps)
  show ?case
  proof (cases "fst p = k")
    case True
    with Cons.prems(2) have "snd p = c" by (cases p) simp
    with Cons.prems(1,3) True show ?thesis by (cases p) (auto simp: image_iff)
  next
    case False
    with Cons.prems(2) have lk: "map_of ps k = Some c" by (cases p) simp
    then have "(k, c) \<in> set ps" by (rule map_of_SomeD)
    then have "c \<in> snd ` set ps" by (metis snd_conv image_eqI)
    with Cons.prems(1) have ne: "snd p \<noteq> c" by auto
    have "c \<notin> snd ` set (AList.update k v ps)"
      using Cons.prems(1,3) lk by (intro Cons.IH) simp_all
    with ne False show ?thesis by (cases p) auto
  qed
qed

lemma vals_update_overwrite:
  "distinct (map snd al) \<Longrightarrow> map_of al k = Some c \<Longrightarrow> v \<noteq> c \<Longrightarrow>
     c \<notin> vals (AList.update k v al)"
  unfolding vals_def by (rule snd_update_overwrite)

lemma register_displaces:
  assumes ok: "chans_ok client" and lk: "lookup_chan client k = Some c0"
    and reg: "register client k = (c, client')"
  shows "c0 \<notin> refs client'" and "c \<noteq> c0"
proof -
  have cref: "c0 \<in> refs client" using lk by (rule lookup_chan_refs)
  have d: "distinct (all_chans client)"
    and lt: "c0 < next_chan client"
    using ok cref by (auto simp: chans_ok_iff)
  have c: "c = next_chan client" using reg by (rule register_basic(1))
  with lt show ne: "c \<noteq> c0" by simp
  then have ne': "next_chan client \<noteq> c0" using c by simp
  show "c0 \<notin> refs client'"
    using lk reg d ne'
    by (cases k;
        auto simp: Add_eqs refs_tables distinct_all_chans
             dest: vals_update_overwrite vals_lookup)
qed

lemma chan_arrival_new: "chan_arrival newChan t = None"
  by (simp add: chan_arrival_def newChan_def)

lemma await_none: "fst (snd (await None tie k)) = Some (Timeout k)"
  by (cases k)
    (simp_all add: GetCmdChanResult_def GetEventChanResult_def GetErrorChanResult_def
      GetStatusChanResult_def select_timeout_def)

text \<open>
  Claim C8. A second registration for a key that already has a waiter is accepted: it
  gets a channel of its own and the table entry of the key now holds that channel. The
  channel of the first registration is in no table any more. Whatever the client does
  afterwards, registrations, resolutions, shutdowns and waiters giving up, and whether
  these operations all return or one of them blocks, nothing is handed to that channel
  and it is not closed, so a wait on it ends with the Timeout error of the key. The
  operations all return when no waiter of the client has given up and none gives up. A
  resolution of the key goes to the second channel.
\<close>

theorem double_registration:
  assumes ok: "chans_ok client"
    and r1: "register client k = (c1, client1)"
    and r2: "register client1 k = (c2, client2)"
  shows
    "c2 \<noteq> c1 \<and> lookup_chan client1 k = Some c1 \<and> lookup_chan client2 k = Some c2 \<and>
     (\<forall>k'. lookup_chan client2 k' \<noteq> Some c1) \<and>
     (\<forall>xs. \<exists>client3.
        (run xs client2 = Inr client3 \<or>
         ((\<not> live client \<or> (\<exists>c. GiveUp c \<in> set xs)) \<and>
          run xs client2 = Inl (Blocked client3))) \<and>
        chans client3 c1 = newChan \<and>
        (\<forall>k'. lookup_chan client3 k' \<noteq> Some c1) \<and>
        (\<forall>t tie. fst (snd (await (chan_arrival (chans client3 c1) t) tie k)) =
                    Some (Timeout k))) \<and>
     (\<exists>client3. resolve client2 k r = Inr client3 \<and>
        chans client3 c2 = \<lparr>delivered = [r], closed = True\<rparr> \<and>
        chans client3 c1 = newChan)"
proof -
  note b1 = register_basic [OF r1]
  note b2 = register_basic [OF r2]
  have ok1: "chans_ok client1" by (rule register_ok [OF ok r1])
  have ok2: "chans_ok client2" by (rule register_ok [OF ok1 r2])
  have lv: "live client \<longrightarrow> live client2"
    using register_live [OF register_live [OF _ r1] r2] by blast
  have ne: "c2 \<noteq> c1" and out: "c1 \<notin> refs client2"
    using register_displaces [OF ok1 b1(3) r2] by simp_all
  have new1: "chans client2 c1 = newChan"
    using b1(4) b2(4) ne by simp
  have lt: "c1 < next_chan client2"
    using b1(1,2) b2(2) by simp
  have unref: "\<forall>k'. lookup_chan client2 k' \<noteq> Some c1"
    using out lookup_chan_refs by blast
  have later: "\<forall>xs. \<exists>client3.
        (run xs client2 = Inr client3 \<or>
         ((\<not> live client \<or> (\<exists>c. GiveUp c \<in> set xs)) \<and>
          run xs client2 = Inl (Blocked client3))) \<and>
        chans client3 c1 = newChan \<and>
        (\<forall>k'. lookup_chan client3 k' \<noteq> Some c1) \<and>
        (\<forall>t tie. fst (snd (await (chan_arrival (chans client3 c1) t) tie k)) =
                    Some (Timeout k))"
  proof
    fix xs
    obtain client3 where run: "run xs client2 = Inr client3 \<or>
         ((\<not> live client2 \<or> (\<exists>c. GiveUp c \<in> set xs)) \<and>
          run xs client2 = Inl (Blocked client3))"
      and keep: "\<forall>c. c < next_chan client2 \<and> c \<notin> refs client2 \<longrightarrow>
                  c \<notin> refs client3 \<and> chans client3 c = chans client2 c"
      using run_ok [OF ok2, of xs] by blast
    from run lv have run': "run xs client2 = Inr client3 \<or>
         ((\<not> live client \<or> (\<exists>c. GiveUp c \<in> set xs)) \<and>
          run xs client2 = Inl (Blocked client3))"
      by blast
    from keep lt out have o3: "c1 \<notin> refs client3" and n3: "chans client3 c1 = newChan"
      using new1 by auto
    have u3: "\<forall>k'. lookup_chan client3 k' \<noteq> Some c1"
      using o3 lookup_chan_refs by blast
    have w3: "\<forall>t tie. fst (snd (await (chan_arrival (chans client3 c1) t) tie k)) =
                    Some (Timeout k)"
      by (simp add: n3 chan_arrival_new await_none)
    from run' n3 u3 w3
    show "\<exists>client3.
        (run xs client2 = Inr client3 \<or>
         ((\<not> live client \<or> (\<exists>c. GiveUp c \<in> set xs)) \<and>
          run xs client2 = Inl (Blocked client3))) \<and>
        chans client3 c1 = newChan \<and>
        (\<forall>k'. lookup_chan client3 k' \<noteq> Some c1) \<and>
        (\<forall>t tie. fst (snd (await (chan_arrival (chans client3 c1) t) tie k)) =
                    Some (Timeout k))"
      by blast
  qed
  have new2: "chans client2 c2 = newChan" using b2(4) by simp
  have here2: "c2 \<notin> given_up client2" using b2(7) by simp
  have res: "resolve client2 k r =
      Inr ((unregister client2 k)
             \<lparr>chans := (chans client2)(c2 := \<lparr>delivered = [r], closed = True\<rparr>)\<rparr>)"
    by (rule resolve_live [OF b2(3) new2 here2])
  have last: "\<exists>client3. resolve client2 k r = Inr client3 \<and>
        chans client3 c2 = \<lparr>delivered = [r], closed = True\<rparr> \<and>
        chans client3 c1 = newChan"
    unfolding res using ne new1 by simp
  from ne b1(3) b2(3) unref later last show ?thesis by (intro conjI)
qed

text \<open>
  On the example client: two registrations for START get the channels 0 and 1; the
  table holds 1. After the START result was resolved and the tables were shut down,
  channel 0 is still new and a command wait on it times out. When the holder of
  channel 1 gives up before the resolution, the resolution blocks, and channel 0 is
  still new.
\<close>

lemma example_register:
  "register example_client (CmdKey START) =
     (0, example_client\<lparr>chans := (chans example_client)(0 := newChan), next_chan := 1,
                        CmdChans := [(START, 0)]\<rparr>)"
  by (simp add: AddCmdChan_eq example_client_def zeroClient_def)

lemma example_register2:
  "register (snd (register example_client (CmdKey START))) (CmdKey START) =
     (1, example_client\<lparr>chans := (chans example_client)(0 := newChan, 1 := newChan),
                        next_chan := 2, CmdChans := [(START, 1)]\<rparr>)"
  unfolding example_register by (simp add: AddCmdChan_eq example_client_def zeroClient_def)

theorem double_registration_witness:
  "lookup_chan (snd (register (snd (register example_client (CmdKey START))) (CmdKey START)))
     (CmdKey START) = Some 1 \<and>
   (\<exists>client3.
      run [Resolve (CmdKey START) example_result, CloseChans]
        (snd (register (snd (register example_client (CmdKey START))) (CmdKey START)))
        = Inr client3 \<and>
      chans client3 0 = newChan \<and>
      fst (snd (GetCmdChanResult (chan_arrival (chans client3 0) 0) True START)) =
        Some (Timeout (CmdKey START))) \<and>
   (\<exists>client3.
      run [GiveUp 1, Resolve (CmdKey START) example_result, CloseChans]
        (snd (register (snd (register example_client (CmdKey START))) (CmdKey START)))
        = Inl (Blocked client3) \<and>
      chans client3 0 = newChan)"
proof -
  let ?c1 = "snd (register example_client (CmdKey START))"
  let ?c2 = "snd (register ?c1 (CmdKey START))"
  have r1: "register example_client (CmdKey START) = (0, ?c1)"
    unfolding example_register by simp
  have r2: "register ?c1 (CmdKey START) = (1, ?c2)"
    unfolding example_register2 by simp
  have quiet: "\<not> (\<exists>c. GiveUp c \<in> set [Resolve (CmdKey START) example_result, CloseChans])"
    by simp
  have blocks: "\<exists>c'. run [GiveUp 1, Resolve (CmdKey START) example_result, CloseChans] ?c2
      = Inl (Blocked c')"
    unfolding example_register2
    by (simp add: SendResultAndDelCmdChan_def send_and_close_def chan_send_def
        example_client_def zeroClient_def newChan_def)
  note w = double_registration [OF chans_ok_example r1 r2, of example_result]
  from w have lk: "lookup_chan ?c2 (CmdKey START) = Some 1" by blast
  from w obtain client3 where
    "run [Resolve (CmdKey START) example_result, CloseChans] ?c2 = Inr client3 \<or>
       ((\<not> live example_client \<or>
         (\<exists>c. GiveUp c \<in> set [Resolve (CmdKey START) example_result, CloseChans])) \<and>
        run [Resolve (CmdKey START) example_result, CloseChans] ?c2 = Inl (Blocked client3))"
    "chans client3 0 = newChan"
    "\<forall>t tie. fst (snd (await (chan_arrival (chans client3 0) t) tie (CmdKey START))) =
       Some (Timeout (CmdKey START))"
    by blast
  with quiet live_example have "\<exists>client3.
      run [Resolve (CmdKey START) example_result, CloseChans] ?c2 = Inr client3 \<and>
      chans client3 0 = newChan \<and>
      fst (snd (GetCmdChanResult (chan_arrival (chans client3 0) 0) True START)) =
        Some (Timeout (CmdKey START))"
    by (metis await.simps(1))
  moreover from w obtain client4 where
    "run [GiveUp 1, Resolve (CmdKey START) example_result, CloseChans] ?c2 = Inr client4 \<or>
       ((\<not> live example_client \<or>
         (\<exists>c. GiveUp c \<in>
            set [GiveUp 1, Resolve (CmdKey START) example_result, CloseChans])) \<and>
        run [GiveUp 1, Resolve (CmdKey START) example_result, CloseChans] ?c2
          = Inl (Blocked client4))"
    "chans client4 0 = newChan"
    by blast
  with blocks have "\<exists>client3.
      run [GiveUp 1, Resolve (CmdKey START) example_result, CloseChans] ?c2
        = Inl (Blocked client3) \<and>
      chans client3 0 = newChan"
    by auto
  ultimately show ?thesis using lk by (intro conjI)
qed

section \<open>The agent's handling of Start\<close>


















section \<open>An instance of another tenant\<close>

lemma actedOn_Cons_state:
  "actedOn act (x # acted) s = actedOn act acted (snd (act x s))"
  by simp

text \<open>
  The ID loop on a list that names an instance of another tenant: it stops with 404 at
  some ID of the list, and the IDs before it, on which the action ran, do not include
  the foreign instance. The lifecycle operation is any function that, run on one
  instance, leaves the record of the foreign instance as \<open>GetInstance\<close> reads it.
\<close>

lemma actOnServerIDs_foreign:
  assumes frame: "\<forall>other s'. other \<noteq> iid \<longrightarrow>
      GetInstance context iid (snd (act other s')) = GetInstance context iid s'"
    and other: "TenantID i \<noteq> tenant"
  shows "iid \<in> set ids \<Longrightarrow> GetInstance context iid s = Inr i \<Longrightarrow>
    \<exists>acted stop rest resp.
       ids = acted @ stop # rest \<and> iid \<notin> set acted \<and>
       allBelong context tenant act acted s \<and>
       (\<forall>j. GetInstance context stop (actedOn act acted s) = Inr j \<longrightarrow>
            TenantID j \<noteq> tenant) \<and>
       actOnServerIDs context tenant act ids s = (Some resp, actedOn act acted s) \<and>
       (resp = returnErrorCode StatusNotFound
                 (Msg (''Instance '' @ stop @ '' could not be found'')) \<or>
        resp = returnErrorCode StatusNotFound
                 (Msg (''Instance '' @ stop @ '' does not belong to tenant '' @ tenant))) \<and>
       (stop = iid \<longrightarrow>
          resp = returnErrorCode StatusNotFound
                   (Msg (''Instance '' @ stop @ '' does not belong to tenant '' @ tenant))) \<and>
       GetInstance context iid (actedOn act acted s) = Inr i"
proof (induction ids arbitrary: s)
  case Nil
  then show ?case by simp
next
  case (Cons x xs)
  show ?case
  proof (cases "GetInstance context x s")
    case (Inl err)
    have ne: "x \<noteq> iid" using Inl Cons.prems(2) by auto
    have "x # xs = [] @ x # xs \<and> iid \<notin> set [] \<and>
       allBelong context tenant act [] s \<and>
       (\<forall>j. GetInstance context x (actedOn act [] s) = Inr j \<longrightarrow> TenantID j \<noteq> tenant) \<and>
       actOnServerIDs context tenant act (x # xs) s =
         (Some (returnErrorCode StatusNotFound
                  (Msg (''Instance '' @ x @ '' could not be found''))), actedOn act [] s) \<and>
       GetInstance context iid (actedOn act [] s) = Inr i"
      using Inl Cons.prems(2) by simp
    with ne show ?thesis by blast
  next
    case (Inr inst)
    show ?thesis
    proof (cases "TenantID inst \<noteq> tenant")
      case True
      have "x # xs = [] @ x # xs \<and> iid \<notin> set [] \<and>
         allBelong context tenant act [] s \<and>
         (\<forall>j. GetInstance context x (actedOn act [] s) = Inr j \<longrightarrow> TenantID j \<noteq> tenant) \<and>
         actOnServerIDs context tenant act (x # xs) s =
           (Some (returnErrorCode StatusNotFound
                    (Msg (''Instance '' @ x @ '' does not belong to tenant '' @ tenant))),
            actedOn act [] s) \<and>
         GetInstance context iid (actedOn act [] s) = Inr i"
        using Inr True Cons.prems(2) by simp
      then show ?thesis by blast
    next
      case False
      have ne: "x \<noteq> iid" using Inr False Cons.prems(2) other by auto
      have mem: "iid \<in> set xs" using Cons.prems(1) ne by auto
      have kept: "GetInstance context iid (snd (act x s)) = Inr i"
        using frame ne Cons.prems(2) by simp
      from Cons.IH [OF mem kept] obtain acted stop rest resp where
        ih: "xs = acted @ stop # rest" "iid \<notin> set acted"
          "actOnServerIDs context tenant act xs (snd (act x s)) =
             (Some resp, actedOn act acted (snd (act x s)))"
          "resp = returnErrorCode StatusNotFound
                    (Msg (''Instance '' @ stop @ '' could not be found'')) \<or>
           resp = returnErrorCode StatusNotFound
                    (Msg (''Instance '' @ stop @ '' does not belong to tenant '' @ tenant))"
          "stop = iid \<longrightarrow>
             resp = returnErrorCode StatusNotFound
                      (Msg (''Instance '' @ stop @ '' does not belong to tenant '' @ tenant))"
          "GetInstance context iid (actedOn act acted (snd (act x s))) = Inr i"
          "allBelong context tenant act acted (snd (act x s))"
          "\<forall>j. GetInstance context stop (actedOn act acted (snd (act x s))) = Inr j \<longrightarrow>
               TenantID j \<noteq> tenant"
        by blast
      have step: "actOnServerIDs context tenant act (x # xs) s =
          actOnServerIDs context tenant act xs (snd (act x s))"
        using Inr False by simp
      have bel: "allBelong context tenant act (x # acted) s"
        using Inr False ih(7) by simp
      have "x # xs = (x # acted) @ stop # rest \<and> iid \<notin> set (x # acted) \<and>
         (\<forall>j. GetInstance context stop (actedOn act (x # acted) s) = Inr j \<longrightarrow>
              TenantID j \<noteq> tenant) \<and>
         actOnServerIDs context tenant act (x # xs) s =
           (Some resp, actedOn act (x # acted) s) \<and>
         GetInstance context iid (actedOn act (x # acted) s) = Inr i"
        using ih(1,2,3,6,8) ne step by (simp only: actedOn_Cons_state) simp
      with ih(4,5) bel show ?thesis by blast
    qed
  qed
qed

text \<open>
  The ID loop on any list: the action is run on the IDs of the longest beginning of the
  list whose IDs, each when the loop comes to it, are known and belong to the tenant.
  If that is the whole list the loop runs to its end; otherwise it stops at the next
  ID with 404, "could not be found" when the ID is unknown and "does not belong to
  tenant" when it belongs to another tenant.
\<close>

lemma actOnServerIDs_char:
  "\<exists>acted.
     allBelong context tenant act acted s \<and>
     snd (actOnServerIDs context tenant act ids s) = actedOn act acted s \<and>
     ((acted = ids \<and> fst (actOnServerIDs context tenant act ids s) = None) \<or>
      (\<exists>stop rest.
         ids = acted @ stop # rest \<and>
         ((\<exists>err. GetInstance context stop (actedOn act acted s) = Inl err \<and>
            fst (actOnServerIDs context tenant act ids s) =
              Some (returnErrorCode StatusNotFound
                      (Msg (''Instance '' @ stop @ '' could not be found'')))) \<or>
          (\<exists>j. GetInstance context stop (actedOn act acted s) = Inr j \<and>
            TenantID j \<noteq> tenant \<and>
            fst (actOnServerIDs context tenant act ids s) =
              Some (returnErrorCode StatusNotFound
                      (Msg (''Instance '' @ stop @ '' does not belong to tenant ''
                            @ tenant)))))))"
proof (induction ids arbitrary: s)
  case Nil
  have "allBelong context tenant act [] s \<and>
     snd (actOnServerIDs context tenant act [] s) = actedOn act [] s \<and>
     [] = ([] :: string list) \<and> fst (actOnServerIDs context tenant act [] s) = None"
    by simp
  then show ?case by blast
next
  case (Cons x xs)
  show ?case
  proof (cases "GetInstance context x s")
    case (Inl err)
    have "allBelong context tenant act [] s \<and>
       snd (actOnServerIDs context tenant act (x # xs) s) = actedOn act [] s \<and>
       x # xs = [] @ x # xs \<and>
       GetInstance context x (actedOn act [] s) = Inl err \<and>
       fst (actOnServerIDs context tenant act (x # xs) s) =
         Some (returnErrorCode StatusNotFound
                 (Msg (''Instance '' @ x @ '' could not be found'')))"
      using Inl by simp
    then show ?thesis by blast
  next
    case (Inr inst)
    show ?thesis
    proof (cases "TenantID inst \<noteq> tenant")
      case True
      have "allBelong context tenant act [] s \<and>
         snd (actOnServerIDs context tenant act (x # xs) s) = actedOn act [] s \<and>
         x # xs = [] @ x # xs \<and>
         GetInstance context x (actedOn act [] s) = Inr inst \<and>
         TenantID inst \<noteq> tenant \<and>
         fst (actOnServerIDs context tenant act (x # xs) s) =
           Some (returnErrorCode StatusNotFound
                   (Msg (''Instance '' @ x @ '' does not belong to tenant '' @ tenant)))"
        using Inr True by simp
      then show ?thesis by blast
    next
      case False
      let ?s = "snd (act x s)"
      have step: "actOnServerIDs context tenant act (x # xs) s =
          actOnServerIDs context tenant act xs ?s"
        using Inr False by simp
      from Cons.IH [of ?s] obtain acted where
        bel: "allBelong context tenant act acted ?s"
        and st: "snd (actOnServerIDs context tenant act xs ?s) = actedOn act acted ?s"
        and out: "(acted = xs \<and> fst (actOnServerIDs context tenant act xs ?s) = None) \<or>
          (\<exists>stop rest.
             xs = acted @ stop # rest \<and>
             ((\<exists>err. GetInstance context stop (actedOn act acted ?s) = Inl err \<and>
                fst (actOnServerIDs context tenant act xs ?s) =
                  Some (returnErrorCode StatusNotFound
                          (Msg (''Instance '' @ stop @ '' could not be found'')))) \<or>
              (\<exists>j. GetInstance context stop (actedOn act acted ?s) = Inr j \<and>
                TenantID j \<noteq> tenant \<and>
                fst (actOnServerIDs context tenant act xs ?s) =
                  Some (returnErrorCode StatusNotFound
                          (Msg (''Instance '' @ stop @ '' does not belong to tenant ''
                                @ tenant))))))"
        by blast
      have bel': "allBelong context tenant act (x # acted) s"
        using Inr False bel by simp
      have st': "snd (actOnServerIDs context tenant act (x # xs) s) =
          actedOn act (x # acted) s"
        unfolding step using st by simp
      have out': "(x # acted = x # xs \<and>
            fst (actOnServerIDs context tenant act (x # xs) s) = None) \<or>
          (\<exists>stop rest.
             x # xs = (x # acted) @ stop # rest \<and>
             ((\<exists>err. GetInstance context stop (actedOn act (x # acted) s) = Inl err \<and>
                fst (actOnServerIDs context tenant act (x # xs) s) =
                  Some (returnErrorCode StatusNotFound
                          (Msg (''Instance '' @ stop @ '' could not be found'')))) \<or>
              (\<exists>j. GetInstance context stop (actedOn act (x # acted) s) = Inr j \<and>
                TenantID j \<noteq> tenant \<and>
                fst (actOnServerIDs context tenant act (x # xs) s) =
                  Some (returnErrorCode StatusNotFound
                          (Msg (''Instance '' @ stop @ '' does not belong to tenant ''
                                @ tenant))))))"
        unfolding step actedOn_Cons_state using out by simp
      from bel' st' out' show ?thesis by blast
    qed
  qed
qed

lemma tenantServersAction_IDs:
  assumes tok: "validateToken context r"
    and body: "Body r = Inr b"
    and dec: "jsonUnmarshalServersAction context b = Inr servers"
    and act: "actionFor context (Action servers) = Some act"
    and ids: "ServerIDs servers \<noteq> []"
  shows "tenantServersAction context r s =
     (case actOnServerIDs context (tenant_var r) act (ServerIDs servers) s of
        (Some resp, s') \<Rightarrow> (resp, s')
      | (None, s') \<Rightarrow> (\<lparr>status_code = StatusAccepted, content = NoBody\<rparr>, s'))"
  using tok body dec act ids
  by (auto simp: tenantServersAction_def actionFor_def Let_def split: if_splits)

lemma tenantServersAction_unsupported:
  assumes tok: "validateToken context r"
    and body: "Body r = Inr b"
    and dec: "jsonUnmarshalServersAction context b = Inr servers"
    and act: "actionFor context (Action servers) = None"
  shows "tenantServersAction context r s =
     (returnErrorCode StatusServiceUnavailable (Msg ''Unsupported action''), s)"
  using tok body dec act
  by (auto simp: tenantServersAction_def actionFor_def Let_def split: if_splits)

lemma single_server_unauthorized:
  assumes "\<not> validateToken context r"
  shows "showServerDetails context r s =
           (returnErrorCode StatusUnauthorized (Msg ''Invalid token''), s)"
    and "deleteServer context r s =
           (returnErrorCode StatusUnauthorized (Msg ''Invalid token''), s)"
    and "serverAction context r s =
           (returnErrorCode StatusUnauthorized (Msg ''Invalid token''), s)"
    and "tenantServersAction context r s =
           (returnErrorCode StatusUnauthorized (Msg ''Invalid token''), s)"
  using assms
  by (simp_all add: showServerDetails_def deleteServer_def serverAction_def
      tenantServersAction_def Let_def)

lemma single_server_foreign:
  assumes "validateToken context r"
    and "GetInstance context (server_var r) s = Inr i"
    and "TenantID i \<noteq> tenant_var r"
  shows "showServerDetails context r s =
           (returnErrorCode StatusNotFound (Msg ''Instance does not belong to tenant''), s)"
    and "deleteServer context r s =
           (returnErrorCode StatusNotFound (Msg ''Instance does not belong to tenant''), s)"
    and "serverAction context r s =
           (returnErrorCode StatusNotFound (Msg ''Instance does not belong to tenant''), s)"
  using assms
  by (simp_all add: showServerDetails_def deleteServer_def serverAction_def Let_def)

lemma example_foreign:
  "GetInstance example_api ''inst-1'' example_store2 = Inr example_Instance"
  "TenantID example_Instance \<noteq> ''tenant-b''"
  "tenant_var example_request = ''tenant-b''"
  "server_var example_request = ''inst-1''"
  "tenant_var example_request_no_token = ''tenant-b''"
  "server_var example_request_no_token = ''inst-1''"
  "tenant_var example_request_unknown_first = ''tenant-b''"
  "tenant_var example_request_reboot = ''tenant-b''"
  by (simp_all add: example_api_def ds_GetInstance_def example_store2_def example_store_def
      example_Instance_def example_request_def example_request_no_token_def
      example_request_unknown_first_def example_request_reboot_def)

lemma example_tokens:
  "validateToken example_api example_request"
  "\<not> validateToken example_api example_request_no_token"
  "validateToken example_api example_request_unknown_first"
  "validateToken example_api example_request_reboot"
  by (simp_all add: validateToken_def tenantToken_def adminToken_def example_api_def
      example_request_def example_request_no_token_def example_validateService_def
      example_request_unknown_first_def example_request_reboot_def)

lemma example_reboot:
  "Body example_request_reboot = Inr ''reboot 1''"
  "jsonUnmarshalServersAction example_api ''reboot 1'' =
     Inr \<lparr>Action = ''os-reboot'', ServerIDs = [''inst-1'']\<rparr>"
  "actionFor example_api (Action \<lparr>Action = ''os-reboot'', ServerIDs = [''inst-1'']\<rparr>) = None"
  by (simp_all add: example_request_reboot_def example_request_def example_api_def
      example_jsonUnmarshalServersAction_def actionFor_def)

text \<open>
  Claim C9, as stated, fails on the code: the handlers validate the token before they
  look at the instance, and \<open>tenantServersAction\<close> picks the action before it looks at
  the list. Instance \<open>inst-1\<close> exists and belongs to tenant-a. A request of tenant-b
  without a token is answered 401 by each of the four handlers, not 404; a request of
  tenant-b with its token whose body names the action \<open>os-reboot\<close> and lists \<open>inst-1\<close>
  is answered 503 by \<open>tenantServersAction\<close>, not 404.
\<close>

theorem foreign_instance_unauthorized:
  "GetInstance example_api (server_var example_request_no_token) example_store2 =
     Inr example_Instance \<and>
   TenantID example_Instance \<noteq> tenant_var example_request_no_token \<and>
   status_code (fst (showServerDetails example_api example_request_no_token example_store2))
     = 401 \<and>
   status_code (fst (deleteServer example_api example_request_no_token example_store2))
     = 401 \<and>
   status_code (fst (serverAction example_api example_request_no_token example_store2))
     = 401 \<and>
   status_code (fst (tenantServersAction example_api example_request_no_token example_store2))
     = 401 \<and>
   TenantID example_Instance \<noteq> tenant_var example_request_reboot \<and>
   Body example_request_reboot = Inr ''reboot 1'' \<and>
   jsonUnmarshalServersAction example_api ''reboot 1'' =
     Inr \<lparr>Action = ''os-reboot'', ServerIDs = [''inst-1'']\<rparr> \<and>
   status_code (fst (tenantServersAction example_api example_request_reboot example_store2))
     = 503"
  using example_foreign single_server_unauthorized [OF example_tokens(2), of example_store2]
    tenantServersAction_unsupported [OF example_tokens(4) example_reboot, of example_store2]
    example_reboot(1,2)
  by (simp add: returnErrorCode_def StatusUnauthorized_def StatusServiceUnavailable_def)

text \<open>
  Claim C9, amended. Let the instance named in the request exist and belong to another
  tenant than the one named in the path. A request whose token is not valid is answered
  401 by each of the four handlers, and the state stays as it was. For a request whose
  token is valid, \<open>showServerDetails\<close>, \<open>deleteServer\<close> and \<open>serverAction\<close> answer 404
  "Instance does not belong to tenant" and leave the state as it was, so they run no
  lifecycle operation.

  \<open>tenantServersAction\<close>, for a request with a valid token and a body that decodes
  to a supported action and a list of server IDs, runs the action on the IDs of the
  longest beginning of the list whose IDs, each when the loop comes to it, are known
  and belong to the tenant; at the next ID, if there is one, it answers 404 and stops,
  so it runs the action on no ID that is unknown or belongs to another tenant when it
  is reached, and on no ID after such a one. When the list names the instance, the
  answer is 404, at the instance itself with "does not belong to tenant" or at an ID
  before it; the instance is not among the IDs the action was run on, and its record
  is the one from before. For this last statement the lifecycle operation is asked,
  when run on one instance, to leave the record of this other instance as it was.
\<close>

theorem foreign_instance_not_found:
  "(GetInstance context (server_var r) s = Inr i \<and> TenantID i \<noteq> tenant_var r \<longrightarrow>
      snd (showServerDetails context r s) = s \<and>
      snd (deleteServer context r s) = s \<and>
      snd (serverAction context r s) = s \<and>
      (validateToken context r \<longrightarrow>
         fst (showServerDetails context r s) =
           returnErrorCode StatusNotFound (Msg ''Instance does not belong to tenant'') \<and>
         fst (deleteServer context r s) =
           returnErrorCode StatusNotFound (Msg ''Instance does not belong to tenant'') \<and>
         fst (serverAction context r s) =
           returnErrorCode StatusNotFound (Msg ''Instance does not belong to tenant'')) \<and>
      (\<not> validateToken context r \<longrightarrow>
         fst (showServerDetails context r s) =
           returnErrorCode StatusUnauthorized (Msg ''Invalid token'') \<and>
         fst (deleteServer context r s) =
           returnErrorCode StatusUnauthorized (Msg ''Invalid token'') \<and>
         fst (serverAction context r s) =
           returnErrorCode StatusUnauthorized (Msg ''Invalid token''))) \<and>
   (\<not> validateToken context r \<longrightarrow>
      tenantServersAction context r s =
        (returnErrorCode StatusUnauthorized (Msg ''Invalid token''), s)) \<and>
   (validateToken context r \<and> Body r = Inr b \<and>
    jsonUnmarshalServersAction context b = Inr servers \<and>
    actionFor context (Action servers) = Some act \<and>
    ServerIDs servers \<noteq> [] \<longrightarrow>
      (\<exists>acted.
         allBelong context (tenant_var r) act acted s \<and>
         snd (tenantServersAction context r s) = actedOn act acted s \<and>
         ((acted = ServerIDs servers \<and>
           fst (tenantServersAction context r s) =
             \<lparr>status_code = StatusAccepted, content = NoBody\<rparr>) \<or>
          (\<exists>stop rest.
             ServerIDs servers = acted @ stop # rest \<and>
             ((\<exists>err. GetInstance context stop (actedOn act acted s) = Inl err \<and>
                fst (tenantServersAction context r s) =
                  returnErrorCode StatusNotFound
                    (Msg (''Instance '' @ stop @ '' could not be found''))) \<or>
              (\<exists>j. GetInstance context stop (actedOn act acted s) = Inr j \<and>
                TenantID j \<noteq> tenant_var r \<and>
                fst (tenantServersAction context r s) =
                  returnErrorCode StatusNotFound
                    (Msg (''Instance '' @ stop @ '' does not belong to tenant ''
                          @ tenant_var r)))))))) \<and>
   (validateToken context r \<and> Body r = Inr b \<and>
    jsonUnmarshalServersAction context b = Inr servers \<and>
    actionFor context (Action servers) = Some act \<and>
    iid \<in> set (ServerIDs servers) \<and>
    GetInstance context iid s = Inr i' \<and>
    TenantID i' \<noteq> tenant_var r \<and>
    (\<forall>other s'. other \<noteq> iid \<longrightarrow>
       GetInstance context iid (snd (act other s')) = GetInstance context iid s') \<longrightarrow>
      (\<exists>acted stop rest.
         ServerIDs servers = acted @ stop # rest \<and> iid \<notin> set acted \<and>
         allBelong context (tenant_var r) act acted s \<and>
         (\<forall>j. GetInstance context stop (actedOn act acted s) = Inr j \<longrightarrow>
              TenantID j \<noteq> tenant_var r) \<and>
         snd (tenantServersAction context r s) = actedOn act acted s \<and>
         (fst (tenantServersAction context r s) =
            returnErrorCode StatusNotFound
              (Msg (''Instance '' @ stop @ '' could not be found'')) \<or>
          fst (tenantServersAction context r s) =
            returnErrorCode StatusNotFound
              (Msg (''Instance '' @ stop @ '' does not belong to tenant '' @ tenant_var r))) \<and>
         (stop = iid \<longrightarrow>
            fst (tenantServersAction context r s) =
              returnErrorCode StatusNotFound
                (Msg (''Instance '' @ stop @ '' does not belong to tenant '' @ tenant_var r))) \<and>
         GetInstance context iid (snd (tenantServersAction context r s)) = Inr i'))"
proof -
  have single: "GetInstance context (server_var r) s = Inr i \<and> TenantID i \<noteq> tenant_var r \<longrightarrow>
      snd (showServerDetails context r s) = s \<and>
      snd (deleteServer context r s) = s \<and>
      snd (serverAction context r s) = s \<and>
      (validateToken context r \<longrightarrow>
         fst (showServerDetails context r s) =
           returnErrorCode StatusNotFound (Msg ''Instance does not belong to tenant'') \<and>
         fst (deleteServer context r s) =
           returnErrorCode StatusNotFound (Msg ''Instance does not belong to tenant'') \<and>
         fst (serverAction context r s) =
           returnErrorCode StatusNotFound (Msg ''Instance does not belong to tenant'')) \<and>
      (\<not> validateToken context r \<longrightarrow>
         fst (showServerDetails context r s) =
           returnErrorCode StatusUnauthorized (Msg ''Invalid token'') \<and>
         fst (deleteServer context r s) =
           returnErrorCode StatusUnauthorized (Msg ''Invalid token'') \<and>
         fst (serverAction context r s) =
           returnErrorCode StatusUnauthorized (Msg ''Invalid token''))"
  proof (intro impI)
    assume h: "GetInstance context (server_var r) s = Inr i \<and> TenantID i \<noteq> tenant_var r"
    then have inst: "GetInstance context (server_var r) s = Inr i"
      and other: "TenantID i \<noteq> tenant_var r"
      by simp_all
    show "snd (showServerDetails context r s) = s \<and>
      snd (deleteServer context r s) = s \<and>
      snd (serverAction context r s) = s \<and>
      (validateToken context r \<longrightarrow>
         fst (showServerDetails context r s) =
           returnErrorCode StatusNotFound (Msg ''Instance does not belong to tenant'') \<and>
         fst (deleteServer context r s) =
           returnErrorCode StatusNotFound (Msg ''Instance does not belong to tenant'') \<and>
         fst (serverAction context r s) =
           returnErrorCode StatusNotFound (Msg ''Instance does not belong to tenant'')) \<and>
      (\<not> validateToken context r \<longrightarrow>
         fst (showServerDetails context r s) =
           returnErrorCode StatusUnauthorized (Msg ''Invalid token'') \<and>
         fst (deleteServer context r s) =
           returnErrorCode StatusUnauthorized (Msg ''Invalid token'') \<and>
         fst (serverAction context r s) =
           returnErrorCode StatusUnauthorized (Msg ''Invalid token''))"
    proof (cases "validateToken context r")
      case True
      show ?thesis
        using True by (simp add: single_server_foreign [OF True inst other])
    next
      case False
      show ?thesis
        using False by (simp add: single_server_unauthorized [OF False])
    qed
  qed
  have unauth: "\<not> validateToken context r \<longrightarrow>
      tenantServersAction context r s =
        (returnErrorCode StatusUnauthorized (Msg ''Invalid token''), s)"
    by (simp add: single_server_unauthorized(4))
  have listed: "validateToken context r \<and> Body r = Inr b \<and>
    jsonUnmarshalServersAction context b = Inr servers \<and>
    actionFor context (Action servers) = Some act \<and>
    iid \<in> set (ServerIDs servers) \<and>
    GetInstance context iid s = Inr i' \<and>
    TenantID i' \<noteq> tenant_var r \<and>
    (\<forall>other s'. other \<noteq> iid \<longrightarrow>
       GetInstance context iid (snd (act other s')) = GetInstance context iid s') \<longrightarrow>
      (\<exists>acted stop rest.
         ServerIDs servers = acted @ stop # rest \<and> iid \<notin> set acted \<and>
         allBelong context (tenant_var r) act acted s \<and>
         (\<forall>j. GetInstance context stop (actedOn act acted s) = Inr j \<longrightarrow>
              TenantID j \<noteq> tenant_var r) \<and>
         snd (tenantServersAction context r s) = actedOn act acted s \<and>
         (fst (tenantServersAction context r s) =
            returnErrorCode StatusNotFound
              (Msg (''Instance '' @ stop @ '' could not be found'')) \<or>
          fst (tenantServersAction context r s) =
            returnErrorCode StatusNotFound
              (Msg (''Instance '' @ stop @ '' does not belong to tenant '' @ tenant_var r))) \<and>
         (stop = iid \<longrightarrow>
            fst (tenantServersAction context r s) =
              returnErrorCode StatusNotFound
                (Msg (''Instance '' @ stop @ '' does not belong to tenant '' @ tenant_var r))) \<and>
         GetInstance context iid (snd (tenantServersAction context r s)) = Inr i')"
  proof (intro impI)
    assume h: "validateToken context r \<and> Body r = Inr b \<and>
      jsonUnmarshalServersAction context b = Inr servers \<and>
      actionFor context (Action servers) = Some act \<and>
      iid \<in> set (ServerIDs servers) \<and>
      GetInstance context iid s = Inr i' \<and>
      TenantID i' \<noteq> tenant_var r \<and>
      (\<forall>other s'. other \<noteq> iid \<longrightarrow>
         GetInstance context iid (snd (act other s')) = GetInstance context iid s')"
    then have tok: "validateToken context r" and body: "Body r = Inr b"
      and dec: "jsonUnmarshalServersAction context b = Inr servers"
      and act: "actionFor context (Action servers) = Some act"
      and mem: "iid \<in> set (ServerIDs servers)"
      and inst: "GetInstance context iid s = Inr i'"
      and other: "TenantID i' \<noteq> tenant_var r"
      and frame: "\<forall>other s'. other \<noteq> iid \<longrightarrow>
         GetInstance context iid (snd (act other s')) = GetInstance context iid s'"
      by blast+
    have ne: "ServerIDs servers \<noteq> []" using mem by auto
    from actOnServerIDs_foreign [OF frame other mem inst]
    obtain acted stop rest resp where
      l: "ServerIDs servers = acted @ stop # rest" "iid \<notin> set acted"
        "actOnServerIDs context (tenant_var r) act (ServerIDs servers) s =
           (Some resp, actedOn act acted s)"
        "resp = returnErrorCode StatusNotFound
                  (Msg (''Instance '' @ stop @ '' could not be found'')) \<or>
         resp = returnErrorCode StatusNotFound
                  (Msg (''Instance '' @ stop @ '' does not belong to tenant '' @ tenant_var r))"
        "stop = iid \<longrightarrow>
           resp = returnErrorCode StatusNotFound
                    (Msg (''Instance '' @ stop @ '' does not belong to tenant '' @ tenant_var r))"
        "GetInstance context iid (actedOn act acted s) = Inr i'"
        "allBelong context (tenant_var r) act acted s"
        "\<forall>j. GetInstance context stop (actedOn act acted s) = Inr j \<longrightarrow>
             TenantID j \<noteq> tenant_var r"
      by blast
    have eq: "tenantServersAction context r s = (resp, actedOn act acted s)"
      unfolding tenantServersAction_IDs [OF tok body dec act ne] l(3) by simp
    have "ServerIDs servers = acted @ stop # rest \<and> iid \<notin> set acted \<and>
         allBelong context (tenant_var r) act acted s \<and>
         (\<forall>j. GetInstance context stop (actedOn act acted s) = Inr j \<longrightarrow>
              TenantID j \<noteq> tenant_var r) \<and>
         snd (tenantServersAction context r s) = actedOn act acted s \<and>
         (fst (tenantServersAction context r s) =
            returnErrorCode StatusNotFound
              (Msg (''Instance '' @ stop @ '' could not be found'')) \<or>
          fst (tenantServersAction context r s) =
            returnErrorCode StatusNotFound
              (Msg (''Instance '' @ stop @ '' does not belong to tenant '' @ tenant_var r))) \<and>
         (stop = iid \<longrightarrow>
            fst (tenantServersAction context r s) =
              returnErrorCode StatusNotFound
                (Msg (''Instance '' @ stop @ '' does not belong to tenant '' @ tenant_var r))) \<and>
         GetInstance context iid (snd (tenantServersAction context r s)) = Inr i'"
      unfolding eq using l(1,2,4,5,6,7,8) by simp
    then show "\<exists>acted stop rest.
         ServerIDs servers = acted @ stop # rest \<and> iid \<notin> set acted \<and>
         allBelong context (tenant_var r) act acted s \<and>
         (\<forall>j. GetInstance context stop (actedOn act acted s) = Inr j \<longrightarrow>
              TenantID j \<noteq> tenant_var r) \<and>
         snd (tenantServersAction context r s) = actedOn act acted s \<and>
         (fst (tenantServersAction context r s) =
            returnErrorCode StatusNotFound
              (Msg (''Instance '' @ stop @ '' could not be found'')) \<or>
          fst (tenantServersAction context r s) =
            returnErrorCode StatusNotFound
              (Msg (''Instance '' @ stop @ '' does not belong to tenant '' @ tenant_var r))) \<and>
         (stop = iid \<longrightarrow>
            fst (tenantServersAction context r s) =
              returnErrorCode StatusNotFound
                (Msg (''Instance '' @ stop @ '' does not belong to tenant '' @ tenant_var r))) \<and>
         GetInstance context iid (snd (tenantServersAction context r s)) = Inr i'"
      by blast
  qed
  have loop:
    "validateToken context r \<and> Body r = Inr b \<and>
    jsonUnmarshalServersAction context b = Inr servers \<and>
    actionFor context (Action servers) = Some act \<and>
    ServerIDs servers \<noteq> [] \<longrightarrow>
      (\<exists>acted.
         allBelong context (tenant_var r) act acted s \<and>
         snd (tenantServersAction context r s) = actedOn act acted s \<and>
         ((acted = ServerIDs servers \<and>
           fst (tenantServersAction context r s) =
             \<lparr>status_code = StatusAccepted, content = NoBody\<rparr>) \<or>
          (\<exists>stop rest.
             ServerIDs servers = acted @ stop # rest \<and>
             ((\<exists>err. GetInstance context stop (actedOn act acted s) = Inl err \<and>
                fst (tenantServersAction context r s) =
                  returnErrorCode StatusNotFound
                    (Msg (''Instance '' @ stop @ '' could not be found''))) \<or>
              (\<exists>j. GetInstance context stop (actedOn act acted s) = Inr j \<and>
                TenantID j \<noteq> tenant_var r \<and>
                fst (tenantServersAction context r s) =
                  returnErrorCode StatusNotFound
                    (Msg (''Instance '' @ stop @ '' does not belong to tenant ''
                          @ tenant_var r)))))))"
  proof (intro impI)
    assume h: "validateToken context r \<and> Body r = Inr b \<and>
      jsonUnmarshalServersAction context b = Inr servers \<and>
      actionFor context (Action servers) = Some act \<and>
      ServerIDs servers \<noteq> []"
    then have tok: "validateToken context r" and body: "Body r = Inr b"
      and dec: "jsonUnmarshalServersAction context b = Inr servers"
      and act: "actionFor context (Action servers) = Some act"
      and ne: "ServerIDs servers \<noteq> []"
      by blast+
    note eq = tenantServersAction_IDs [OF tok body dec act ne, of s]
    from actOnServerIDs_char [of "context" "tenant_var r" act s "ServerIDs servers"]
    show "\<exists>acted.
         allBelong context (tenant_var r) act acted s \<and>
         snd (tenantServersAction context r s) = actedOn act acted s \<and>
         ((acted = ServerIDs servers \<and>
           fst (tenantServersAction context r s) =
             \<lparr>status_code = StatusAccepted, content = NoBody\<rparr>) \<or>
          (\<exists>stop rest.
             ServerIDs servers = acted @ stop # rest \<and>
             ((\<exists>err. GetInstance context stop (actedOn act acted s) = Inl err \<and>
                fst (tenantServersAction context r s) =
                  returnErrorCode StatusNotFound
                    (Msg (''Instance '' @ stop @ '' could not be found''))) \<or>
              (\<exists>j. GetInstance context stop (actedOn act acted s) = Inr j \<and>
                TenantID j \<noteq> tenant_var r \<and>
                fst (tenantServersAction context r s) =
                  returnErrorCode StatusNotFound
                    (Msg (''Instance '' @ stop @ '' does not belong to tenant ''
                          @ tenant_var r))))))"
      unfolding eq
      by (cases "actOnServerIDs context (tenant_var r) act (ServerIDs servers) s";
          cases "fst (actOnServerIDs context (tenant_var r) act (ServerIDs servers) s)";
          simp; blast)
  qed
  from single unauth loop listed show ?thesis by (intro conjI)
qed

text \<open>
  On the second example store, a request of tenant-b with its token for instance
  \<open>inst-1\<close> of tenant-a: the three single-server handlers answer 404 and leave the
  store as it was. The action request that lists \<open>inst-9\<close> of tenant-b and then \<open>inst-1\<close>
  is answered 404 and leaves the record of \<open>inst-1\<close> as it was; so is the action
  request that lists the unknown \<open>inst-0\<close> and then \<open>inst-1\<close>, which leaves the whole
  store as it was.
\<close>

lemma example_action:
  "Body example_request = Inr ''stop 9 1''"
  "jsonUnmarshalServersAction example_api ''stop 9 1'' =
     Inr \<lparr>Action = ''os-stop'', ServerIDs = [''inst-9'', ''inst-1'']\<rparr>"
  "Body example_request_unknown_first = Inr ''stop 0 1''"
  "jsonUnmarshalServersAction example_api ''stop 0 1'' =
     Inr \<lparr>Action = ''os-stop'', ServerIDs = [''inst-0'', ''inst-1'']\<rparr>"
  "actionFor example_api ''os-stop'' = Some example_stopInstance"
  by (simp_all add: example_request_def example_request_unknown_first_def example_api_def
      example_jsonUnmarshalServersAction_def actionFor_def)

lemma map_of_set_state:
  "other \<noteq> iid \<Longrightarrow>
     map_of (map (\<lambda>(k, i). if k = other then (k, i\<lparr>State := st\<rparr>) else (k, i)) xs) iid =
     map_of xs iid"
  by (induction xs) auto

lemma example_stopInstance_frame:
  "\<forall>other s'. other \<noteq> iid \<longrightarrow>
     GetInstance example_api iid (snd (example_stopInstance other s')) =
     GetInstance example_api iid s'"
  by (simp add: example_api_def example_stopInstance_def ds_GetInstance_def set_state_def
      map_of_set_state)

theorem foreign_instance_not_found_witness:
  "showServerDetails example_api example_request example_store2 =
     (returnErrorCode StatusNotFound (Msg ''Instance does not belong to tenant''),
      example_store2) \<and>
   deleteServer example_api example_request example_store2 =
     (returnErrorCode StatusNotFound (Msg ''Instance does not belong to tenant''),
      example_store2) \<and>
   serverAction example_api example_request example_store2 =
     (returnErrorCode StatusNotFound (Msg ''Instance does not belong to tenant''),
      example_store2) \<and>
   status_code (fst (tenantServersAction example_api example_request example_store2)) = 404 \<and>
   GetInstance example_api ''inst-1''
     (snd (tenantServersAction example_api example_request example_store2)) =
     Inr example_Instance \<and>
   status_code
     (fst (tenantServersAction example_api example_request_unknown_first example_store2))
     = 404 \<and>
   GetInstance example_api ''inst-1''
     (snd (tenantServersAction example_api example_request_unknown_first example_store2)) =
     Inr example_Instance \<and>
   snd (tenantServersAction example_api example_request_unknown_first example_store2) =
     example_store2"
proof -
  note w = foreign_instance_not_found [of example_api example_request example_store2
      example_Instance "''stop 9 1''"
      "\<lparr>Action = ''os-stop'', ServerIDs = [''inst-9'', ''inst-1'']\<rparr>"
      example_stopInstance "''inst-1''" example_Instance]
  note u = foreign_instance_not_found [of example_api example_request_unknown_first
      example_store2 example_Instance "''stop 0 1''"
      "\<lparr>Action = ''os-stop'', ServerIDs = [''inst-0'', ''inst-1'']\<rparr>"
      example_stopInstance "''inst-1''" example_Instance]
  have single: "GetInstance example_api (server_var example_request) example_store2 =
      Inr example_Instance \<and> TenantID example_Instance \<noteq> tenant_var example_request"
    using example_foreign by simp
  have listed: "validateToken example_api example_request \<and>
    Body example_request = Inr ''stop 9 1'' \<and>
    jsonUnmarshalServersAction example_api ''stop 9 1'' =
      Inr \<lparr>Action = ''os-stop'', ServerIDs = [''inst-9'', ''inst-1'']\<rparr> \<and>
    actionFor example_api
      (Action \<lparr>Action = ''os-stop'', ServerIDs = [''inst-9'', ''inst-1'']\<rparr>) =
      Some example_stopInstance \<and>
    ''inst-1'' \<in> set (ServerIDs \<lparr>Action = ''os-stop'', ServerIDs = [''inst-9'', ''inst-1'']\<rparr>) \<and>
    GetInstance example_api ''inst-1'' example_store2 = Inr example_Instance \<and>
    TenantID example_Instance \<noteq> tenant_var example_request \<and>
    (\<forall>other s'. other \<noteq> ''inst-1'' \<longrightarrow>
       GetInstance example_api ''inst-1'' (snd (example_stopInstance other s')) =
       GetInstance example_api ''inst-1'' s')"
    using example_tokens(1) example_action example_foreign example_stopInstance_frame
    by simp
  have listed_u: "validateToken example_api example_request_unknown_first \<and>
    Body example_request_unknown_first = Inr ''stop 0 1'' \<and>
    jsonUnmarshalServersAction example_api ''stop 0 1'' =
      Inr \<lparr>Action = ''os-stop'', ServerIDs = [''inst-0'', ''inst-1'']\<rparr> \<and>
    actionFor example_api
      (Action \<lparr>Action = ''os-stop'', ServerIDs = [''inst-0'', ''inst-1'']\<rparr>) =
      Some example_stopInstance \<and>
    ''inst-1'' \<in> set (ServerIDs \<lparr>Action = ''os-stop'', ServerIDs = [''inst-0'', ''inst-1'']\<rparr>) \<and>
    GetInstance example_api ''inst-1'' example_store2 = Inr example_Instance \<and>
    TenantID example_Instance \<noteq> tenant_var example_request_unknown_first \<and>
    (\<forall>other s'. other \<noteq> ''inst-1'' \<longrightarrow>
       GetInstance example_api ''inst-1'' (snd (example_stopInstance other s')) =
       GetInstance example_api ''inst-1'' s')"
    using example_tokens(3) example_action example_foreign example_stopInstance_frame
    by simp
  from w single example_tokens(1)
  have a: "showServerDetails example_api example_request example_store2 =
     (returnErrorCode StatusNotFound (Msg ''Instance does not belong to tenant''),
      example_store2)"
    and b: "deleteServer example_api example_request example_store2 =
     (returnErrorCode StatusNotFound (Msg ''Instance does not belong to tenant''),
      example_store2)"
    and c: "serverAction example_api example_request example_store2 =
     (returnErrorCode StatusNotFound (Msg ''Instance does not belong to tenant''),
      example_store2)"
    by (simp_all add: prod_eq_iff)
  from w listed obtain stop where
    d: "fst (tenantServersAction example_api example_request example_store2) =
            returnErrorCode StatusNotFound
              (Msg (''Instance '' @ stop @ '' could not be found'')) \<or>
        fst (tenantServersAction example_api example_request example_store2) =
            returnErrorCode StatusNotFound
              (Msg (''Instance '' @ stop @ '' does not belong to tenant '' @
                 tenant_var example_request))"
    and d2: "GetInstance example_api ''inst-1''
     (snd (tenantServersAction example_api example_request example_store2)) =
     Inr example_Instance"
    by blast
  from d have d1:
    "status_code (fst (tenantServersAction example_api example_request example_store2)) = 404"
    by (auto simp: returnErrorCode_def StatusNotFound_def)
  from u listed_u obtain acted' stop' rest' where
    e0: "ServerIDs \<lparr>Action = ''os-stop'', ServerIDs = [''inst-0'', ''inst-1'']\<rparr> =
          acted' @ stop' # rest'"
    and e3: "allBelong example_api (tenant_var example_request_unknown_first)
          example_stopInstance acted' example_store2"
    and e4: "snd (tenantServersAction example_api example_request_unknown_first
          example_store2) = actedOn example_stopInstance acted' example_store2"
    and e: "fst (tenantServersAction example_api example_request_unknown_first example_store2) =
            returnErrorCode StatusNotFound
              (Msg (''Instance '' @ stop' @ '' could not be found'')) \<or>
        fst (tenantServersAction example_api example_request_unknown_first example_store2) =
            returnErrorCode StatusNotFound
              (Msg (''Instance '' @ stop' @ '' does not belong to tenant '' @
                 tenant_var example_request_unknown_first))"
    and e2: "GetInstance example_api ''inst-1''
     (snd (tenantServersAction example_api example_request_unknown_first example_store2)) =
     Inr example_Instance"
    by blast
  have unknown: "GetInstance example_api ''inst-0'' example_store2 =
      Inl (StorageError ''instance not found'')"
    by (simp add: example_api_def ds_GetInstance_def example_store2_def example_store_def)
  have "acted' = []"
  proof (cases acted')
    case Nil
    then show ?thesis .
  next
    case (Cons a as)
    with e0 have "a = ''inst-0''" by simp
    with e3 Cons unknown show ?thesis by simp
  qed
  with e4 have e5: "snd (tenantServersAction example_api example_request_unknown_first
      example_store2) = example_store2"
    by simp
  from e have e1:
    "status_code
       (fst (tenantServersAction example_api example_request_unknown_first example_store2))
     = 404"
    by (auto simp: returnErrorCode_def StatusNotFound_def)
  from a b c d1 d2 e1 e2 e5 show ?thesis by (intro conjI)
qed

end
